theory Spec2Isabelle
  imports Complex_Main "HOL-Library.Word"
begin

section \<open>Scene manager: data model\<close>

text \<open>
  A shallow embedding of \<^verbatim>\<open>SceneManager.cpp\<close>. The object's members are the
  fields of a record that every method takes and returns. The C++ \<^verbatim>\<open>float\<close> values are
  idealised as real numbers: colours, UV factors and material coefficients are only
  passed through, and the transform arithmetic is done in exact real arithmetic.
  Console logging through \<^verbatim>\<open>std::cout\<close>, the codec's flip-on-load flag and the
  lifetime of the decoded pixel buffer are left out.
\<close>

subsection \<open>Undefined behaviour as a value\<close>

text \<open>
  Two operations of the source have no defined result: calling a method through the null
  \<^verbatim>\<open>m_pShaderManager\<close>, and indexing \<^verbatim>\<open>m_textureIDs\<close> outside the array.
  Both are results of the model.
\<close>

datatype fault = NullDereference | OutOfBounds

definition bind_fault :: "fault + 'a \<Rightarrow> ('a \<Rightarrow> fault + 'b) \<Rightarrow> fault + 'b" where
  "bind_fault m f = (case m of Inl e \<Rightarrow> Inl e | Inr x \<Rightarrow> f x)"

subsection \<open>GLM values\<close>

type_synonym vec2 = "real \<times> real"
type_synonym vec3 = "real \<times> real \<times> real"
type_synonym vec4 = "real \<times> real \<times> real \<times> real"

text \<open>A \<^verbatim>\<open>glm::mat4\<close> is column-major: four columns, each a \<^verbatim>\<open>vec4\<close>.\<close>

type_synonym mat4 = "vec4 \<times> vec4 \<times> vec4 \<times> vec4"

subsection \<open>The shader interface\<close>

datatype uniform_value =
    IntValue int
  | BoolValue bool
  | FloatValue real
  | Vec2Value vec2
  | Vec3Value vec3
  | Vec4Value vec4
  | Mat4Value mat4
  | Sampler2DValue int

text \<open>
  Modelled from the spec: the class \<^verbatim>\<open>ShaderManager\<close> (its header and implementation
  are not among the sources). The spec describes it as named-uniform setters for
  int/bool/float/vec2/vec3/vec4/mat4/sampler2D by string key, a write-only sink that only
  stores. A shader manager is therefore the sequence of writes it has received, the
  newest first; the value a uniform holds is the one of the newest write to its name.
\<close>

type_synonym ShaderManager = "(string \<times> uniform_value) list"

definition setIntValue :: "string \<Rightarrow> int \<Rightarrow> ShaderManager \<Rightarrow> ShaderManager" where
  "setIntValue name v sh = (name, IntValue v) # sh"

definition setBoolValue :: "string \<Rightarrow> bool \<Rightarrow> ShaderManager \<Rightarrow> ShaderManager" where
  "setBoolValue name v sh = (name, BoolValue v) # sh"

definition setFloatValue :: "string \<Rightarrow> real \<Rightarrow> ShaderManager \<Rightarrow> ShaderManager" where
  "setFloatValue name v sh = (name, FloatValue v) # sh"

definition setVec2Value :: "string \<Rightarrow> vec2 \<Rightarrow> ShaderManager \<Rightarrow> ShaderManager" where
  "setVec2Value name v sh = (name, Vec2Value v) # sh"

definition setVec3Value :: "string \<Rightarrow> vec3 \<Rightarrow> ShaderManager \<Rightarrow> ShaderManager" where
  "setVec3Value name v sh = (name, Vec3Value v) # sh"

definition setVec4Value :: "string \<Rightarrow> vec4 \<Rightarrow> ShaderManager \<Rightarrow> ShaderManager" where
  "setVec4Value name v sh = (name, Vec4Value v) # sh"

definition setMat4Value :: "string \<Rightarrow> mat4 \<Rightarrow> ShaderManager \<Rightarrow> ShaderManager" where
  "setMat4Value name v sh = (name, Mat4Value v) # sh"

definition setSampler2DValue :: "string \<Rightarrow> int \<Rightarrow> ShaderManager \<Rightarrow> ShaderManager" where
  "setSampler2DValue name v sh = (name, Sampler2DValue v) # sh"

definition uniform :: "ShaderManager \<Rightarrow> string \<Rightarrow> uniform_value option" where
  "uniform sh name = map_of sh name"

text \<open>The names of the anonymous namespace at the top of the file.\<close>

definition g_ModelName :: string where "g_ModelName = ''model''"
definition g_ColorValueName :: string where "g_ColorValueName = ''objectColor''"
definition g_TextureValueName :: string where "g_TextureValueName = ''objectTexture''"
definition g_UseTextureName :: string where "g_UseTextureName = ''bUseTexture''"
definition g_UseLightingName :: string where "g_UseLightingName = ''bUseLighting''"

subsection \<open>The OpenGL context and the image codec\<close>

type_synonym GLuint = "32 word"

text \<open>
  OpenGL is an external library. Its context is the list of texture names handed out by
  \<^verbatim>\<open>glGenTextures\<close> (oldest first; nothing in the source ever deletes one) and the
  sequence of the other calls it received, oldest first. \<^verbatim>\<open>glGenTextures\<close> is the only
  call that returns something: the next name, counting from 1.
\<close>

datatype gl_format = GL_RGB | GL_RGBA

datatype gl_call =
    BindTexture GLuint
  | TexParameteri string string
  | TexImage2D gl_format int int
  | GenerateMipmap
  | ActiveTexture int

record gl_context =
  gl_textures :: "GLuint list"
  gl_calls :: "gl_call list"

definition glGenTextures :: "gl_context \<Rightarrow> GLuint \<times> gl_context" where
  "glGenTextures g =
     (let name = word_of_nat (length (gl_textures g)) + 1
      in (name, g\<lparr>gl_textures := gl_textures g @ [name]\<rparr>))"

definition gl_do :: "gl_call \<Rightarrow> gl_context \<Rightarrow> gl_context" where
  "gl_do c g = g\<lparr>gl_calls := gl_calls g @ [c]\<rparr>"

text \<open>
  What \<^verbatim>\<open>stbi_load\<close> reports for a file: nothing when it cannot decode it, otherwise
  the dimensions and the channel count. The codec is a parameter of the loader.
\<close>

record image =
  width :: int
  height :: int
  colorChannels :: int

type_synonym codec = "string \<Rightarrow> image option"

subsection \<open>The scene manager's members\<close>

text \<open>
  \<^verbatim>\<open>TEXTURE_INFO\<close> and \<^verbatim>\<open>OBJECT_MATERIAL\<close> are declared in the header; the fields
  below are the ones this file reads and writes. \<^verbatim>\<open>ID\<close> is passed by address to
  \<^verbatim>\<open>glGenTextures\<close>, so it is a \<^verbatim>\<open>GLuint\<close>.
\<close>

record TEXTURE_INFO =
  ID :: GLuint
  tag :: string

record OBJECT_MATERIAL =
  diffuseColor :: vec3
  specularColor :: vec3
  shininess :: real
  material_tag :: string

datatype mesh = Plane | Sphere | Cone | Box | Cylinder | Pyramid4

text \<open>
  \<^verbatim>\<open>m_pShaderManager\<close> is a pointer: \<open>None\<close> is the null pointer, \<open>Some sh\<close> points
  to a shader manager in state \<open>sh\<close>. \<^verbatim>\<open>m_textureIDs\<close> is a fixed array, a list whose
  length is the array's size. \<^verbatim>\<open>m_basicMeshes\<close> is the external mesh library: the model
  keeps the meshes it was asked to load, and \<open>drawn\<close> records each draw call together
  with the shader state it was issued under.
\<close>

record SceneManager =
  m_pShaderManager :: "ShaderManager option"
  m_textureIDs :: "TEXTURE_INFO list"
  m_loadedTextures :: int
  m_objectMaterials :: "OBJECT_MATERIAL list"
  m_basicMeshes :: "mesh list"
  gl :: gl_context
  drawn :: "(mesh \<times> ShaderManager option) list"

text \<open>
  Modelled from the spec: the size of the array \<^verbatim>\<open>m_textureIDs\<close>, declared in the
  header. The spec bounds the texture-slot space at 16, as do the comments of
  \<^verbatim>\<open>BindGLTextures\<close> and \<^verbatim>\<open>LoadSceneTextures\<close>.
\<close>

definition texture_slots :: nat where
  "texture_slots = 16"

section \<open>Texture registry\<close>

definition CreateGLTexture ::
  "codec \<Rightarrow> string \<Rightarrow> string \<Rightarrow> SceneManager \<Rightarrow> fault + (bool \<times> SceneManager)" where
  "CreateGLTexture stbi_load filename tg s =
     (case stbi_load filename of
        Some img \<Rightarrow>
          (let (textureID, g1) = glGenTextures (gl s);
               g2 = gl_do (BindTexture textureID) g1;
               g3 = gl_do (TexParameteri ''GL_TEXTURE_WRAP_S'' ''GL_REPEAT'') g2;
               g4 = gl_do (TexParameteri ''GL_TEXTURE_WRAP_T'' ''GL_REPEAT'') g3;
               g5 = gl_do (TexParameteri ''GL_TEXTURE_MIN_FILTER'' ''GL_LINEAR'') g4;
               g6 = gl_do (TexParameteri ''GL_TEXTURE_MAG_FILTER'' ''GL_LINEAR'') g5
           in if colorChannels img = 3 \<or> colorChannels img = 4 then
                (let g7 = gl_do (TexImage2D (if colorChannels img = 3 then GL_RGB else GL_RGBA)
                                   (width img) (height img)) g6;
                     g8 = gl_do GenerateMipmap g7;
                     g9 = gl_do (BindTexture 0) g8
                 in if 0 \<le> m_loadedTextures s
                       \<and> nat (m_loadedTextures s) < length (m_textureIDs s) then
                      Inr (True,
                           s\<lparr>gl := g9,
                             m_textureIDs := (m_textureIDs s)
                                [nat (m_loadedTextures s) := \<lparr>ID = textureID, tag = tg\<rparr>],
                             m_loadedTextures := m_loadedTextures s + 1\<rparr>)
                    else Inl OutOfBounds)
              else Inr (False, s\<lparr>gl := g6\<rparr>))
      | None \<Rightarrow> Inr (False, s))"

text \<open>
  The search loops keep the source's three variables: the result so far, the index and
  the found flag. Reading \<^verbatim>\<open>m_textureIDs[index]\<close> outside the array is a fault.
\<close>

function FindTextureID_loop :: "string \<Rightarrow> SceneManager \<Rightarrow> int \<Rightarrow> int \<Rightarrow> bool \<Rightarrow> fault + int" where
  "FindTextureID_loop tg s textureID index bFound =
     (if index < m_loadedTextures s \<and> bFound = False then
        (if 0 \<le> index \<and> nat index < length (m_textureIDs s) then
           (if tag (m_textureIDs s ! nat index) = tg
            then FindTextureID_loop tg s (sint (ID (m_textureIDs s ! nat index))) index True
            else FindTextureID_loop tg s textureID (index + 1) bFound)
         else Inl OutOfBounds)
      else Inr textureID)"
  by pat_completeness auto
termination
  by (relation "measure (\<lambda>(tg, s, textureID, index, bFound).
         2 * nat (m_loadedTextures s - index) + (if bFound then 0 else 1))") auto

definition FindTextureID :: "string \<Rightarrow> SceneManager \<Rightarrow> fault + int" where
  "FindTextureID tg s = FindTextureID_loop tg s (-1) 0 False"

function FindTextureSlot_loop :: "string \<Rightarrow> SceneManager \<Rightarrow> int \<Rightarrow> int \<Rightarrow> bool \<Rightarrow> fault + int" where
  "FindTextureSlot_loop tg s textureSlot index bFound =
     (if index < m_loadedTextures s \<and> bFound = False then
        (if 0 \<le> index \<and> nat index < length (m_textureIDs s) then
           (if tag (m_textureIDs s ! nat index) = tg
            then FindTextureSlot_loop tg s index index True
            else FindTextureSlot_loop tg s textureSlot (index + 1) bFound)
         else Inl OutOfBounds)
      else Inr textureSlot)"
  by pat_completeness auto
termination
  by (relation "measure (\<lambda>(tg, s, textureSlot, index, bFound).
         2 * nat (m_loadedTextures s - index) + (if bFound then 0 else 1))") auto

definition FindTextureSlot :: "string \<Rightarrow> SceneManager \<Rightarrow> fault + int" where
  "FindTextureSlot tg s = FindTextureSlot_loop tg s (-1) 0 False"


function BindGLTextures_loop :: "SceneManager \<Rightarrow> int \<Rightarrow> fault + SceneManager" where
  "BindGLTextures_loop s i =
     (if i < m_loadedTextures s then
        (if 0 \<le> i \<and> nat i < length (m_textureIDs s) then
           BindGLTextures_loop
             (s\<lparr>gl := gl_do (BindTexture (ID (m_textureIDs s ! nat i)))
                        (gl_do (ActiveTexture i) (gl s))\<rparr>)
             (i + 1)
         else Inl OutOfBounds)
      else Inr s)"
  by pat_completeness auto
termination
  by (relation "measure (\<lambda>(s, i). nat (m_loadedTextures s - i))") auto

definition BindGLTextures :: "SceneManager \<Rightarrow> fault + SceneManager" where
  "BindGLTextures s = BindGLTextures_loop s 0"

text \<open>
  \<^verbatim>\<open>DestroyGLTextures\<close> calls \<^verbatim>\<open>glGenTextures(1, &m_textureIDs[i].ID)\<close> for every
  registered entry: the call stores a newly generated name in the entry's \<^verbatim>\<open>ID\<close>.
\<close>

function DestroyGLTextures_loop :: "SceneManager \<Rightarrow> int \<Rightarrow> fault + SceneManager" where
  "DestroyGLTextures_loop s i =
     (if i < m_loadedTextures s then
        (if 0 \<le> i \<and> nat i < length (m_textureIDs s) then
           DestroyGLTextures_loop
             (s\<lparr>gl := snd (glGenTextures (gl s)),
                m_textureIDs := (m_textureIDs s)
                   [nat i := (m_textureIDs s ! nat i)\<lparr>ID := fst (glGenTextures (gl s))\<rparr>]\<rparr>)
             (i + 1)
         else Inl OutOfBounds)
      else Inr s)"
  by pat_completeness auto
termination
  by (relation "measure (\<lambda>(s, i). nat (m_loadedTextures s - i))") auto

definition DestroyGLTextures :: "SceneManager \<Rightarrow> fault + SceneManager" where
  "DestroyGLTextures s = DestroyGLTextures_loop s 0"

section \<open>Material registry\<close>

text \<open>
  \<^verbatim>\<open>FindMaterial\<close> writes the match into the caller's \<^verbatim>\<open>material\<close>, passed by
  reference: the loop takes its current contents and returns the new ones. The source
  compares the \<^verbatim>\<open>int\<close> index with the unsigned \<^verbatim>\<open>size()\<close>, so a negative index
  would not enter the loop. The function returns \<^verbatim>\<open>true\<close> after the loop whether or
  not \<^verbatim>\<open>bFound\<close> was set.
\<close>

function FindMaterial_loop ::
  "string \<Rightarrow> OBJECT_MATERIAL list \<Rightarrow> int \<Rightarrow> bool \<Rightarrow> OBJECT_MATERIAL \<Rightarrow> OBJECT_MATERIAL" where
  "FindMaterial_loop tg mats index bFound material =
     (if 0 \<le> index \<and> index < int (length mats) \<and> bFound = False then
        (if material_tag (mats ! nat index) = tg
         then FindMaterial_loop tg mats index True
                (material\<lparr>diffuseColor := diffuseColor (mats ! nat index),
                          specularColor := specularColor (mats ! nat index),
                          shininess := shininess (mats ! nat index)\<rparr>)
         else FindMaterial_loop tg mats (index + 1) bFound material)
      else material)"
  by pat_completeness auto
termination
  by (relation "measure (\<lambda>(tg, mats, index, bFound, material).
         2 * nat (int (length mats) - index) + (if bFound then 0 else 1))") auto

definition FindMaterial ::
  "string \<Rightarrow> OBJECT_MATERIAL \<Rightarrow> SceneManager \<Rightarrow> bool \<times> OBJECT_MATERIAL" where
  "FindMaterial tg material s =
     (if length (m_objectMaterials s) = 0 then (False, material)
      else (True, FindMaterial_loop tg (m_objectMaterials s) 0 False material))"

text \<open>
  \<^verbatim>\<open>SetShaderMaterial\<close> declares \<^verbatim>\<open>OBJECT_MATERIAL material;\<close> without an
  initialiser. What such a local holds depends on the header and on the stack; it is the
  parameter \<open>local\<close>. The three shader calls go through \<^verbatim>\<open>m_pShaderManager\<close> without
  a null check.
\<close>

definition SetShaderMaterial ::
  "OBJECT_MATERIAL \<Rightarrow> string \<Rightarrow> SceneManager \<Rightarrow> fault + SceneManager" where
  "SetShaderMaterial local materialTag s =
     (if length (m_objectMaterials s) > 0 then
        (let (bReturn, material) = FindMaterial materialTag local s
         in if bReturn = True then
              (case m_pShaderManager s of
                 None \<Rightarrow> Inl NullDereference
               | Some sh \<Rightarrow>
                   Inr (s\<lparr>m_pShaderManager := Some
                         (setFloatValue ''material.shininess'' (shininess material)
                           (setVec3Value ''material.specularColor'' (specularColor material)
                             (setVec3Value ''material.diffuseColor'' (diffuseColor material)
                               sh)))\<rparr>))
            else Inr s)
      else Inr s)"

section \<open>Transform compositor\<close>

text \<open>
  GLM is an external library. \<^verbatim>\<open>glm::radians\<close>, \<^verbatim>\<open>glm::scale\<close>,
  \<^verbatim>\<open>glm::rotate\<close> and \<^verbatim>\<open>glm::translate\<close> (the one-argument-less forms of
  \<^verbatim>\<open>glm/gtx/transform.hpp\<close>, which start from the identity) and the matrix products
  follow GLM's definitions, over the reals.
\<close>

definition glm_radians :: "real \<Rightarrow> real" where
  "glm_radians degrees = degrees * (pi / 180)"

fun vec4_add :: "vec4 \<Rightarrow> vec4 \<Rightarrow> vec4" where
  "vec4_add (a0, a1, a2, a3) (b0, b1, b2, b3) = (a0 + b0, a1 + b1, a2 + b2, a3 + b3)"

fun vec4_scale :: "vec4 \<Rightarrow> real \<Rightarrow> vec4" where
  "vec4_scale (a0, a1, a2, a3) k = (a0 * k, a1 * k, a2 * k, a3 * k)"

fun mat4_mul_vec4 :: "mat4 \<Rightarrow> vec4 \<Rightarrow> vec4" where
  "mat4_mul_vec4 (c0, c1, c2, c3) (x, y, z, w) =
     vec4_add (vec4_add (vec4_add (vec4_scale c0 x) (vec4_scale c1 y)) (vec4_scale c2 z))
       (vec4_scale c3 w)"

fun mat4_mul :: "mat4 \<Rightarrow> mat4 \<Rightarrow> mat4" where
  "mat4_mul m1 (b0, b1, b2, b3) =
     (mat4_mul_vec4 m1 b0, mat4_mul_vec4 m1 b1, mat4_mul_vec4 m1 b2, mat4_mul_vec4 m1 b3)"

fun glm_scale :: "vec3 \<Rightarrow> mat4" where
  "glm_scale (x, y, z) = ((x, 0, 0, 0), (0, y, 0, 0), (0, 0, z, 0), (0, 0, 0, 1))"

fun glm_translate :: "vec3 \<Rightarrow> mat4" where
  "glm_translate (x, y, z) = ((1, 0, 0, 0), (0, 1, 0, 0), (0, 0, 1, 0), (x, y, z, 1))"

fun glm_normalize :: "vec3 \<Rightarrow> vec3" where
  "glm_normalize (x, y, z) =
     (x / sqrt (x * x + y * y + z * z),
      y / sqrt (x * x + y * y + z * z),
      z / sqrt (x * x + y * y + z * z))"

definition glm_rotate :: "real \<Rightarrow> vec3 \<Rightarrow> mat4" where
  "glm_rotate angle v =
     (let c = cos angle;
          s = sin angle;
          (ax, ay, az) = glm_normalize v;
          (tx, ty, tz) = ((1 - c) * ax, (1 - c) * ay, (1 - c) * az)
      in ((c + tx * ax, tx * ay + s * az, tx * az - s * ay, 0),
          (ty * ax - s * az, c + ty * ay, ty * az + s * ax, 0),
          (tz * ax + s * ay, tz * ay - s * ax, c + tz * az, 0),
          (0, 0, 0, 1)))"

definition modelView ::
  "vec3 \<Rightarrow> real \<Rightarrow> real \<Rightarrow> real \<Rightarrow> vec3 \<Rightarrow> mat4" where
  "modelView scaleXYZ XrotationDegrees YrotationDegrees ZrotationDegrees positionXYZ =
     (let scale = glm_scale scaleXYZ;
          rotationX = glm_rotate (glm_radians XrotationDegrees) (1, 0, 0);
          rotationY = glm_rotate (glm_radians YrotationDegrees) (0, 1, 0);
          rotationZ = glm_rotate (glm_radians ZrotationDegrees) (0, 0, 1);
          translation = glm_translate positionXYZ
      in mat4_mul (mat4_mul (mat4_mul (mat4_mul translation rotationZ) rotationY) rotationX)
           scale)"

definition SetTransformations ::
  "vec3 \<Rightarrow> real \<Rightarrow> real \<Rightarrow> real \<Rightarrow> vec3 \<Rightarrow> SceneManager \<Rightarrow> SceneManager" where
  "SetTransformations scaleXYZ XrotationDegrees YrotationDegrees ZrotationDegrees positionXYZ s =
     (case m_pShaderManager s of
        None \<Rightarrow> s
      | Some sh \<Rightarrow>
          s\<lparr>m_pShaderManager := Some
              (setMat4Value g_ModelName
                 (modelView scaleXYZ XrotationDegrees YrotationDegrees ZrotationDegrees
                    positionXYZ) sh)\<rparr>)"

section \<open>Render-state dispatcher\<close>

text \<open>\<^verbatim>\<open>setIntValue(g_UseTextureName, false)\<close> passes the integer 0, \<^verbatim>\<open>true\<close> passes 1.\<close>

definition SetShaderColor :: "real \<Rightarrow> real \<Rightarrow> real \<Rightarrow> real \<Rightarrow> SceneManager \<Rightarrow> SceneManager" where
  "SetShaderColor redColorValue greenColorValue blueColorValue alphaValue s =
     (let currentColor = (redColorValue, greenColorValue, blueColorValue, alphaValue)
      in case m_pShaderManager s of
           None \<Rightarrow> s
         | Some sh \<Rightarrow>
             s\<lparr>m_pShaderManager := Some
                 (setVec4Value g_ColorValueName currentColor
                    (setIntValue g_UseTextureName 0 sh))\<rparr>)"

definition SetShaderTexture :: "string \<Rightarrow> SceneManager \<Rightarrow> fault + SceneManager" where
  "SetShaderTexture textureTag s =
     (case m_pShaderManager s of
        None \<Rightarrow> Inr s
      | Some sh \<Rightarrow>
          (let sh1 = setIntValue g_UseTextureName 1 sh
           in bind_fault (FindTextureSlot textureTag s)
                (\<lambda>textureID.
                   Inr (s\<lparr>m_pShaderManager := Some
                           (setSampler2DValue g_TextureValueName textureID sh1)\<rparr>))))"

definition SetTextureUVScale :: "real \<Rightarrow> real \<Rightarrow> SceneManager \<Rightarrow> SceneManager" where
  "SetTextureUVScale u v s =
     (case m_pShaderManager s of
        None \<Rightarrow> s
      | Some sh \<Rightarrow> s\<lparr>m_pShaderManager := Some (setVec2Value ''UVscale'' (u, v) sh)\<rparr>)"


section \<open>Scene assembly\<close>

text \<open>
  A method body that is a straight sequence of calls is the list of those calls, run in
  order until one faults. \<open>ok\<close> lifts a call that cannot fault.
\<close>

primrec run_steps ::
  "(SceneManager \<Rightarrow> fault + SceneManager) list \<Rightarrow> SceneManager \<Rightarrow> fault + SceneManager" where
  "run_steps [] = (\<lambda>s. Inr s)"
| "run_steps (f # fs) = (\<lambda>s. bind_fault (f s) (run_steps fs))"

definition ok :: "(SceneManager \<Rightarrow> SceneManager) \<Rightarrow> SceneManager \<Rightarrow> fault + SceneManager" where
  "ok f s = Inr (f s)"

text \<open>\<^verbatim>\<open>LoadSceneTextures\<close> assigns each result to \<^verbatim>\<open>bReturn\<close> and never reads it.\<close>

definition load_texture :: "codec \<Rightarrow> string \<Rightarrow> string \<Rightarrow> SceneManager \<Rightarrow> fault + SceneManager" where
  "load_texture stbi_load filename tg s =
     bind_fault (CreateGLTexture stbi_load filename tg s) (\<lambda>(bReturn, s'). Inr s')"

definition LoadSceneTextures :: "codec \<Rightarrow> SceneManager \<Rightarrow> fault + SceneManager" where
  "LoadSceneTextures stbi_load =
     run_steps
       [load_texture stbi_load ''textures/Party_hat.jpg'' ''Party'',
        load_texture stbi_load ''textures/blue_party.jpg'' ''Blue'',
        load_texture stbi_load ''textures/Check_floor.jpg'' ''Floor'',
        load_texture stbi_load ''textures/table.jpg'' ''Table'',
        load_texture stbi_load ''textures/Plate.jpg'' ''Plate'',
        load_texture stbi_load ''textures/top_frosting.png'' ''Frost'',
        load_texture stbi_load ''textures/frosting_sides.png'' ''Frost_sides'',
        load_texture stbi_load ''textures/Purple_balloon.png'' ''balloon'',
        load_texture stbi_load ''textures/red_present.jpg'' ''present'',
        BindGLTextures]"

definition scene_materials :: "OBJECT_MATERIAL list" where
  "scene_materials =
     [\<lparr>diffuseColor = (1.0, 0.85, 0.5), specularColor = (0.2, 0.2, 0.2),
       shininess = 4.0, material_tag = ''Candle''\<rparr>,
      \<lparr>diffuseColor = (0.4, 0.1, 0.6), specularColor = (0.3, 0.2, 0.5),
       shininess = 16.0, material_tag = ''Balloon''\<rparr>,
      \<lparr>diffuseColor = (0.7, 0.0, 0.0), specularColor = (1.0, 0.9, 0.3),
       shininess = 64.0, material_tag = ''WrappingPaper''\<rparr>,
      \<lparr>diffuseColor = (0.4, 0.25, 0.1), specularColor = (0.05, 0.05, 0.05),
       shininess = 4.0, material_tag = ''Wood''\<rparr>,
      \<lparr>diffuseColor = (0.8, 0.4, 0.6), specularColor = (0.1, 0.1, 0.1),
       shininess = 2.0, material_tag = ''PaperHat''\<rparr>,
      \<lparr>diffuseColor = (0.95, 0.8, 0.7), specularColor = (0.2, 0.15, 0.1),
       shininess = 8.0, material_tag = ''Cake''\<rparr>,
      \<lparr>diffuseColor = (0.9, 0.9, 0.95), specularColor = (0.9, 0.9, 0.9),
       shininess = 48.0, material_tag = ''Ceramic''\<rparr>]"

text \<open>Seven \<^verbatim>\<open>push_back\<close> calls, in the order of \<open>scene_materials\<close>.\<close>

definition DefineObjectMaterials :: "SceneManager \<Rightarrow> SceneManager" where
  "DefineObjectMaterials s = s\<lparr>m_objectMaterials := m_objectMaterials s @ scene_materials\<rparr>"

text \<open>Every call of \<^verbatim>\<open>SetupSceneLights\<close> goes through the pointer, unchecked.\<close>

definition SetupSceneLights :: "SceneManager \<Rightarrow> fault + SceneManager" where
  "SetupSceneLights s =
     (case m_pShaderManager s of
        None \<Rightarrow> Inl NullDereference
      | Some sh \<Rightarrow>
          Inr (s\<lparr>m_pShaderManager := Some (fold (\<lambda>call. call)
             [setBoolValue g_UseLightingName True,
              setVec3Value ''pointLights[0].position'' (0.0, 8.3, 0.0),
              setVec3Value ''pointLights[0].ambient'' (0.3, 0.15, 0.05),
              setVec3Value ''pointLights[0].diffuse'' (1.0, 0.6, 0.2),
              setVec3Value ''pointLights[0].specular'' (1.0, 0.8, 0.5),
              setFloatValue ''pointLights[0].constant'' 1.0,
              setFloatValue ''pointLights[0].linear'' 0.09,
              setFloatValue ''pointLights[0].quadratic'' 0.032,
              setBoolValue ''pointLights[0].bActive'' True,
              setVec3Value ''directionalLight.direction'' (-0.2, -1.0, -0.3),
              setVec3Value ''directionalLight.ambient'' (0.1, 0.1, 0.15),
              setVec3Value ''directionalLight.diffuse'' (0.2, 0.2, 0.3),
              setVec3Value ''directionalLight.specular'' (0.1, 0.1, 0.15),
              setBoolValue ''directionalLight.bActive'' True,
              setVec3Value ''pointLights[1].position'' (2.5, 6.0, -2.0),
              setVec3Value ''pointLights[1].ambient'' (0.05, 0.02, 0.08),
              setVec3Value ''pointLights[1].diffuse'' (0.1, 0.05, 0.2),
              setVec3Value ''pointLights[1].specular'' (0.1, 0.1, 0.2),
              setFloatValue ''pointLights[1].constant'' 1.0,
              setFloatValue ''pointLights[1].linear'' 0.14,
              setFloatValue ''pointLights[1].quadratic'' 0.044,
              setBoolValue ''pointLights[1].bActive'' True] sh)\<rparr>))"

text \<open>The mesh library: a load is remembered, a draw is recorded with the shader state.\<close>

definition LoadMesh :: "mesh \<Rightarrow> SceneManager \<Rightarrow> SceneManager" where
  "LoadMesh m s = s\<lparr>m_basicMeshes := m_basicMeshes s @ [m]\<rparr>"

definition DrawMesh :: "mesh \<Rightarrow> SceneManager \<Rightarrow> SceneManager" where
  "DrawMesh m s = s\<lparr>drawn := drawn s @ [(m, m_pShaderManager s)]\<rparr>"

definition PrepareScene :: "codec \<Rightarrow> SceneManager \<Rightarrow> fault + SceneManager" where
  "PrepareScene stbi_load =
     run_steps
       [LoadSceneTextures stbi_load,
        SetupSceneLights,
        ok DefineObjectMaterials,
        ok (LoadMesh Plane),
        ok (LoadMesh Sphere),
        ok (LoadMesh Cone),
        ok (LoadMesh Box),
        ok (LoadMesh Cylinder),
        ok (LoadMesh Pyramid4)]"

text \<open>
  \<^verbatim>\<open>RenderScene\<close>, object by object in the source's order. The assignments to the
  local transform variables are written as the arguments of the \<^verbatim>\<open>SetTransformations\<close>
  call that reads them; the cake top reuses no rotation variable and passes zeros.
\<close>

definition render_floor :: "OBJECT_MATERIAL \<Rightarrow> (SceneManager \<Rightarrow> fault + SceneManager) list" where
  "render_floor local =
     [ok (SetTransformations (20.0, 1.0, 10.0) 0.0 0.0 0.0 (0.0, 0.0, 0.0)),
      SetShaderTexture ''Floor'',
      ok (SetTextureUVScale 2.50 2.50),
      SetShaderMaterial local ''Ceramic'',
      ok (DrawMesh Plane)]"

definition render_party_hat :: "OBJECT_MATERIAL \<Rightarrow> (SceneManager \<Rightarrow> fault + SceneManager) list" where
  "render_party_hat local =
     [ok (SetTransformations (1.0, 2.25, 1.0) 0.0 0.0 0.0 (5.0, 4.36, -1.5)),
      SetShaderTexture ''Party'',
      ok (SetTextureUVScale 1.0 1.0),
      SetShaderMaterial local ''PaperHat'',
      ok (DrawMesh Cone),
      ok (SetTransformations (0.25, 0.25, 0.25) 0.0 0.0 0.0 (5.0, 6.80, -1.5)),
      SetShaderTexture ''Blue'',
      ok (SetTextureUVScale 1.0 1.0),
      SetShaderMaterial local ''PaperHat'',
      ok (DrawMesh Sphere)]"

definition render_napkin :: "(SceneManager \<Rightarrow> fault + SceneManager) list" where
  "render_napkin =
     [ok (SetTransformations (5.0, 0.01, 5.0) 0.0 35.0 0.0 (5.0, 4.33, -1.5)),
      SetShaderTexture ''Blue'',
      ok (SetTextureUVScale 1.0 1.0),
      ok (DrawMesh Box)]"

definition legPositions :: "vec3 list" where
  "legPositions =
     (let legHeight = 4.0; legCenterY = legHeight / 2.0
      in [(-9.2, legCenterY, -4.7), (9.2, legCenterY, -4.7),
          (-9.2, legCenterY, 4.7), (9.2, legCenterY, 4.7)])"

definition render_table :: "OBJECT_MATERIAL \<Rightarrow> (SceneManager \<Rightarrow> fault + SceneManager) list" where
  "render_table local =
     [ok (SetTransformations (19.0, 0.50, 10.0) 0.0 0.0 0.0 (0.0, 4.0, 0.0)),
      SetShaderTexture ''Table'',
      ok (SetTextureUVScale 3.0 3.0),
      SetShaderMaterial local ''Wood'',
      ok (DrawMesh Box)]
     @ concat (map (\<lambda>pos.
         [ok (SetTransformations (0.3, 4.0, 0.3) 0.0 0.0 0.0 pos),
          SetShaderTexture ''Table'',
          ok (SetTextureUVScale 1.0 1.0),
          SetShaderMaterial local ''Wood'',
          ok (DrawMesh Box)]) legPositions)"

definition render_present :: "OBJECT_MATERIAL \<Rightarrow> (SceneManager \<Rightarrow> fault + SceneManager) list" where
  "render_present local =
     [ok (SetTransformations (3.0, 3.0, 3.0) 0.0 (-35.0) 0.0 (-6.0, 5.76, -2.0)),
      ok (SetShaderColor 0.6 0.1 0.1 1.0),
      SetShaderTexture ''present'',
      ok (SetTextureUVScale 0.20 0.50),
      SetShaderMaterial local ''WrappingPaper'',
      ok (DrawMesh Box)]"

definition render_balloon :: "OBJECT_MATERIAL \<Rightarrow> (SceneManager \<Rightarrow> fault + SceneManager) list" where
  "render_balloon local =
     [ok (SetTransformations (2.0, 2.50, 2.0) 0.0 0.0 0.0 (4.0, 12.0, -4.0)),
      SetShaderMaterial local ''Balloon'',
      SetShaderTexture ''balloon'',
      ok (SetTextureUVScale 1.0 1.0),
      ok (DrawMesh Sphere),
      ok (SetTransformations (0.3, 0.3, 0.3) 0.0 0.0 0.0 (4.0, 9.45, -4.0)),
      SetShaderTexture ''balloon'',
      ok (SetTextureUVScale 1.0 1.0),
      SetShaderMaterial local ''Balloon'',
      ok (DrawMesh Pyramid4),
      ok (SetTransformations (0.025, 10.0, 0.05) 0.0 0.0 0.0 (4.0, 4.2, -4.0)),
      ok (SetShaderColor 0.3 0.3 0.3 1.0),
      ok (DrawMesh Cylinder)]"

definition render_cake_body :: "(SceneManager \<Rightarrow> fault + SceneManager) list" where
  "render_cake_body =
     [ok (SetTransformations (3.0, 2.0, 3.0) 0.0 0.0 0.0 (0.0, 4.33, 0.0)),
      SetShaderTexture ''Frost_sides'',
      SetShaderTexture ''Cake'',
      ok (SetTextureUVScale 1.50 1.50),
      ok (DrawMesh Cylinder)]"

definition render_cake_top :: "(SceneManager \<Rightarrow> fault + SceneManager) list" where
  "render_cake_top =
     [ok (SetTransformations (3.01, 0.1, 3.01) 0.0 0.0 0.0 (0.0, 6.18, 0.0)),
      SetShaderTexture ''Frost'',
      SetShaderTexture ''Cake'',
      ok (SetTextureUVScale 1.0 1.0),
      ok (DrawMesh Cylinder)]"

definition render_plate :: "OBJECT_MATERIAL \<Rightarrow> (SceneManager \<Rightarrow> fault + SceneManager) list" where
  "render_plate local =
     [ok (SetTransformations (3.5, 0.1, 3.5) 0.0 0.0 0.0 (0.0, 4.33, 0.0)),
      SetShaderTexture ''Plate'',
      ok (SetTextureUVScale 1.0 1.0),
      SetShaderMaterial local ''Ceramic'',
      ok (DrawMesh Cylinder)]"

definition render_candle :: "OBJECT_MATERIAL \<Rightarrow> (SceneManager \<Rightarrow> fault + SceneManager) list" where
  "render_candle local =
     [ok (SetTransformations (0.1, 2.0, 0.1) 0.0 0.0 0.0 (0.0, 6.33, 0.0)),
      ok (SetShaderColor 0.9 0.9 0.4 1.0),
      SetShaderMaterial local ''Candle'',
      ok (DrawMesh Cylinder)]"

definition RenderScene :: "OBJECT_MATERIAL \<Rightarrow> SceneManager \<Rightarrow> fault + SceneManager" where
  "RenderScene local =
     run_steps
       (render_floor local @ render_party_hat local @ render_napkin @ render_table local
        @ render_present local @ render_balloon local @ render_cake_body @ render_cake_top
        @ render_plate local @ render_candle local)"

section \<open>Observations and reference definitions\<close>

text \<open>The value a uniform holds in the shader the scene manager points to.\<close>

definition uniform_of :: "SceneManager \<Rightarrow> string \<Rightarrow> uniform_value option" where
  "uniform_of s name = (case m_pShaderManager s of None \<Rightarrow> None | Some sh \<Rightarrow> uniform sh name)"

text \<open>
  The registry is within its array: the count is not negative and not larger than the
  array.
\<close>

definition registry_ok :: "SceneManager \<Rightarrow> bool" where
  "registry_ok s = (0 \<le> m_loadedTextures s \<and> nat (m_loadedTextures s) \<le> length (m_textureIDs s))"

text \<open>The entries registered so far, in insertion order.\<close>

definition registered :: "SceneManager \<Rightarrow> TEXTURE_INFO list" where
  "registered s = take (nat (m_loadedTextures s)) (m_textureIDs s)"

text \<open>
  The transform as the spec words it: scale first, then rotate about X, then about Y,
  then about Z, then translate, with the angles converted from degrees to radians. Each
  stage is the usual right-handed map on points, written without matrices.
\<close>

fun spec_scale :: "vec3 \<Rightarrow> vec3 \<Rightarrow> vec3" where
  "spec_scale (sx, sy, sz) (x, y, z) = (sx * x, sy * y, sz * z)"

fun spec_rotate_x :: "real \<Rightarrow> vec3 \<Rightarrow> vec3" where
  "spec_rotate_x a (x, y, z) = (x, y * cos a - z * sin a, y * sin a + z * cos a)"

fun spec_rotate_y :: "real \<Rightarrow> vec3 \<Rightarrow> vec3" where
  "spec_rotate_y a (x, y, z) = (x * cos a + z * sin a, y, z * cos a - x * sin a)"

fun spec_rotate_z :: "real \<Rightarrow> vec3 \<Rightarrow> vec3" where
  "spec_rotate_z a (x, y, z) = (x * cos a - y * sin a, x * sin a + y * cos a, z)"

fun spec_translate :: "vec3 \<Rightarrow> vec3 \<Rightarrow> vec3" where
  "spec_translate (tx, ty, tz) (x, y, z) = (x + tx, y + ty, z + tz)"

definition spec_radians :: "real \<Rightarrow> real" where
  "spec_radians d = d * pi / 180"

definition spec_model :: "vec3 \<Rightarrow> real \<Rightarrow> real \<Rightarrow> real \<Rightarrow> vec3 \<Rightarrow> vec3 \<Rightarrow> vec3" where
  "spec_model sc xdeg ydeg zdeg pos p =
     spec_translate pos
       (spec_rotate_z (spec_radians zdeg)
          (spec_rotate_y (spec_radians ydeg)
             (spec_rotate_x (spec_radians xdeg) (spec_scale sc p))))"

definition spec_linear :: "vec3 \<Rightarrow> real \<Rightarrow> real \<Rightarrow> real \<Rightarrow> vec3 \<Rightarrow> vec3" where
  "spec_linear sc xdeg ydeg zdeg p =
     spec_rotate_z (spec_radians zdeg)
       (spec_rotate_y (spec_radians ydeg)
          (spec_rotate_x (spec_radians xdeg) (spec_scale sc p)))"

text \<open>
  A point has homogeneous coordinate 1, a direction has homogeneous coordinate 0.
\<close>

fun as_point :: "vec3 \<Rightarrow> vec4" where
  "as_point (x, y, z) = (x, y, z, 1)"

fun as_direction :: "vec3 \<Rightarrow> vec4" where
  "as_direction (x, y, z) = (x, y, z, 0)"

fun within_tolerance :: "real \<Rightarrow> vec4 \<Rightarrow> vec4 \<Rightarrow> bool" where
  "within_tolerance eps (a0, a1, a2, a3) (b0, b1, b2, b3) =
     (\<bar>a0 - b0\<bar> \<le> eps \<and> \<bar>a1 - b1\<bar> \<le> eps \<and> \<bar>a2 - b2\<bar> \<le> eps \<and> \<bar>a3 - b3\<bar> \<le> eps)"

subsection \<open>Example states\<close>

text \<open>
  A scene manager with an empty registry of \<open>texture_slots\<close> slots, no materials and a
  given shader pointer; a codec that decodes every file as a 2 by 2 RGB image, one that
  decodes nothing, and one that reports a single channel; and a value for the
  uninitialised local of \<^verbatim>\<open>SetShaderMaterial\<close>.
\<close>

definition example_scene :: "ShaderManager option \<Rightarrow> SceneManager" where
  "example_scene p =
     \<lparr>m_pShaderManager = p,
      m_textureIDs = replicate texture_slots \<lparr>ID = 0, tag = []\<rparr>,
      m_loadedTextures = 0,
      m_objectMaterials = [],
      m_basicMeshes = [],
      gl = \<lparr>gl_textures = [], gl_calls = []\<rparr>,
      drawn = []\<rparr>"

definition rgb_codec :: codec where
  "rgb_codec filename = Some \<lparr>width = 2, height = 2, colorChannels = 3\<rparr>"

definition no_codec :: codec where
  "no_codec filename = None"

definition grey_codec :: codec where
  "grey_codec filename = Some \<lparr>width = 2, height = 2, colorChannels = 1\<rparr>"

definition example_local :: OBJECT_MATERIAL where
  "example_local =
     \<lparr>diffuseColor = (0, 0, 0), specularColor = (0, 0, 0), shininess = 0, material_tag = []\<rparr>"

text \<open>
  A scene manager with two textures registered, the scene's materials defined and a
  shader manager that has received nothing yet; the same with the shader manager holding
  the material ``Cake''.
\<close>

definition example_loaded :: SceneManager where
  "example_loaded =
     \<lparr>m_pShaderManager = Some [],
      m_textureIDs = [\<lparr>ID = 1, tag = ''Party''\<rparr>, \<lparr>ID = 2, tag = ''Floor''\<rparr>]
                     @ replicate 14 \<lparr>ID = 0, tag = []\<rparr>,
      m_loadedTextures = 2,
      m_objectMaterials = scene_materials,
      m_basicMeshes = [],
      gl = \<lparr>gl_textures = [1, 2], gl_calls = []\<rparr>,
      drawn = []\<rparr>"

definition cake_uniforms :: ShaderManager where
  "cake_uniforms =
     [(''material.shininess'', FloatValue 8),
      (''material.specularColor'', Vec3Value (0.2, 0.15, 0.1)),
      (''material.diffuseColor'', Vec3Value (0.95, 0.8, 0.7))]"

definition example_after_cake :: SceneManager where
  "example_after_cake = example_loaded\<lparr>m_pShaderManager := Some cake_uniforms\<rparr>"

text \<open>Loading one texture per tag of a list, each from the file named after the tag.\<close>

definition load_all :: "codec \<Rightarrow> string list \<Rightarrow> SceneManager \<Rightarrow> fault + SceneManager" where
  "load_all stbi_load tags =
     run_steps (map (\<lambda>tg. load_texture stbi_load (''textures/'' @ tg) tg) tags)"

definition sixteen_tags :: "string list" where
  "sixteen_tags =
     [''t00'', ''t01'', ''t02'', ''t03'', ''t04'', ''t05'', ''t06'', ''t07'',
      ''t08'', ''t09'', ''t10'', ''t11'', ''t12'', ''t13'', ''t14'', ''t15'']"

subsection \<open>Observations on a rendering run\<close>

text \<open>
  A scene manager is ready to render when its shader pointer is not null, its registry
  is within the array and it has materials. From \<open>s\<close> to \<open>s'\<close> a run has rendered
  \<open>d\<close> meshes when the shader pointer is still not null, the registries are the same,
  and the draw calls of \<open>s'\<close> are those of \<open>s\<close> followed by \<open>d\<close> more.
\<close>

definition render_ready :: "SceneManager \<Rightarrow> bool" where
  "render_ready s =
     (m_pShaderManager s \<noteq> None \<and> registry_ok s \<and> m_objectMaterials s \<noteq> [])"

definition rendered :: "SceneManager \<Rightarrow> SceneManager \<Rightarrow> nat \<Rightarrow> bool" where
  "rendered s s' d =
     (m_pShaderManager s' \<noteq> None
      \<and> m_textureIDs s' = m_textureIDs s
      \<and> m_loadedTextures s' = m_loadedTextures s
      \<and> m_objectMaterials s' = m_objectMaterials s
      \<and> length (drawn s') = length (drawn s) + d
      \<and> take (length (drawn s)) (drawn s') = drawn s)"

text \<open>A file the codec decodes with three or four channels.\<close>

definition decodable :: "codec \<Rightarrow> string \<Rightarrow> bool" where
  "decodable stbi_load filename =
     (case stbi_load filename of
        None \<Rightarrow> False
      | Some img \<Rightarrow> colorChannels img = 3 \<or> colorChannels img = 4)"

text \<open>The files and tags of \<^verbatim>\<open>LoadSceneTextures\<close>, in call order.\<close>

definition scene_texture_files :: "(string \<times> string) list" where
  "scene_texture_files =
     [(''textures/Party_hat.jpg'', ''Party''),
      (''textures/blue_party.jpg'', ''Blue''),
      (''textures/Check_floor.jpg'', ''Floor''),
      (''textures/table.jpg'', ''Table''),
      (''textures/Plate.jpg'', ''Plate''),
      (''textures/top_frosting.png'', ''Frost''),
      (''textures/frosting_sides.png'', ''Frost_sides''),
      (''textures/Purple_balloon.png'', ''balloon''),
      (''textures/red_present.jpg'', ''present'')]"

subsection \<open>Draw steps as data\<close>

text \<open>
  A draw step of \<^verbatim>\<open>RenderScene\<close> is a sequence of calls of the five setters followed by
  one draw call. To speak of every draw step, a call is a value: \<open>call_setter\<close> runs the
  method it names, and \<open>uniforms_set\<close> lists the uniform names the method passes to the
  shader manager.
\<close>

datatype setter_call =
    Transformations vec3 real real real vec3
  | ShaderColor real real real real
  | ShaderTexture string
  | TextureUVScale real real
  | ShaderMaterial string

fun call_setter :: "OBJECT_MATERIAL \<Rightarrow> setter_call \<Rightarrow> SceneManager \<Rightarrow> fault + SceneManager" where
  "call_setter local (Transformations sc xd yd zd pos) = ok (SetTransformations sc xd yd zd pos)"
| "call_setter local (ShaderColor r g b a) = ok (SetShaderColor r g b a)"
| "call_setter local (ShaderTexture tg) = SetShaderTexture tg"
| "call_setter local (TextureUVScale u v) = ok (SetTextureUVScale u v)"
| "call_setter local (ShaderMaterial mt) = SetShaderMaterial local mt"

fun uniforms_set :: "setter_call \<Rightarrow> string list" where
  "uniforms_set (Transformations sc xd yd zd pos) = [g_ModelName]"
| "uniforms_set (ShaderColor r g b a) = [g_UseTextureName, g_ColorValueName]"
| "uniforms_set (ShaderTexture tg) = [g_UseTextureName, g_TextureValueName]"
| "uniforms_set (TextureUVScale u v) = [''UVscale'']"
| "uniforms_set (ShaderMaterial mt) =
     [''material.diffuseColor'', ''material.specularColor'', ''material.shininess'']"

definition draw_step ::
  "OBJECT_MATERIAL \<Rightarrow> setter_call list \<Rightarrow> mesh \<Rightarrow> (SceneManager \<Rightarrow> fault + SceneManager) list" where
  "draw_step local calls m = map (call_setter local) calls @ [ok (DrawMesh m)]"

section \<open>Texture registry: lookup\<close>

text \<open>The loop equations are unfolded by hand, one iteration at a time.\<close>

declare FindTextureSlot_loop.simps [simp del]
declare FindTextureID_loop.simps [simp del]
declare BindGLTextures_loop.simps [simp del]
declare DestroyGLTextures_loop.simps [simp del]
declare FindMaterial_loop.simps [simp del]

lemma FindTextureSlot_loop_found [simp]:
  "FindTextureSlot_loop tg s slot index True = Inr slot"
  by (subst FindTextureSlot_loop.simps) simp

lemma FindTextureID_loop_found [simp]:
  "FindTextureID_loop tg s tid index True = Inr tid"
  by (subst FindTextureID_loop.simps) simp

lemma FindMaterial_loop_found [simp]:
  "FindMaterial_loop tg mats index True material = material"
  by (subst FindMaterial_loop.simps) simp


lemma FindTextureSlot_loop_miss:
  "0 \<le> index \<Longrightarrow> nat (m_loadedTextures s) \<le> length (m_textureIDs s) \<Longrightarrow>
   \<forall>j. index \<le> j \<and> j < m_loadedTextures s \<longrightarrow> tag (m_textureIDs s ! nat j) \<noteq> tg \<Longrightarrow>
   FindTextureSlot_loop tg s slot index False = Inr slot"
proof (induction tg s slot index "False" rule: FindTextureSlot_loop.induct)
  case (1 tg s textureSlot index)
  show ?case
  proof (cases "index < m_loadedTextures s")
    case True
    then have inb: "nat index < length (m_textureIDs s)" using "1.prems" by linarith
    have ne: "tag (m_textureIDs s ! nat index) \<noteq> tg" using "1.prems" True by simp
    have "FindTextureSlot_loop tg s textureSlot (index + 1) False = Inr textureSlot"
      using "1.hyps"(2) True inb ne "1.prems" by simp
    then show ?thesis using True inb ne "1.prems"(1)
      by (subst FindTextureSlot_loop.simps) simp
  next
    case False
    then show ?thesis by (subst FindTextureSlot_loop.simps) simp
  qed
qed

lemma FindTextureSlot_loop_hit:
  "0 \<le> index \<Longrightarrow> index \<le> k \<Longrightarrow> k < m_loadedTextures s \<Longrightarrow>
   nat (m_loadedTextures s) \<le> length (m_textureIDs s) \<Longrightarrow>
   tag (m_textureIDs s ! nat k) = tg \<Longrightarrow>
   \<forall>j. index \<le> j \<and> j < k \<longrightarrow> tag (m_textureIDs s ! nat j) \<noteq> tg \<Longrightarrow>
   FindTextureSlot_loop tg s slot index False = Inr k"
proof (induction tg s slot index "False" rule: FindTextureSlot_loop.induct)
  case (1 tg s textureSlot index)
  have lt: "index < m_loadedTextures s" using "1.prems" by linarith
  have inb: "nat index < length (m_textureIDs s)" using "1.prems" by linarith
  show ?case
  proof (cases "index = k")
    case True
    then show ?thesis using lt inb "1.prems"
      by (subst FindTextureSlot_loop.simps) simp
  next
    case False
    then have ne: "tag (m_textureIDs s ! nat index) \<noteq> tg" using "1.prems" by simp
    have "FindTextureSlot_loop tg s textureSlot (index + 1) False = Inr k"
      using "1.hyps"(2) lt inb ne "1.prems" False by simp
    then show ?thesis using lt inb ne "1.prems"(1)
      by (subst FindTextureSlot_loop.simps) simp
  qed
qed

lemma FindTextureID_loop_miss:
  "0 \<le> index \<Longrightarrow> nat (m_loadedTextures s) \<le> length (m_textureIDs s) \<Longrightarrow>
   \<forall>j. index \<le> j \<and> j < m_loadedTextures s \<longrightarrow> tag (m_textureIDs s ! nat j) \<noteq> tg \<Longrightarrow>
   FindTextureID_loop tg s tid index False = Inr tid"
proof (induction tg s tid index "False" rule: FindTextureID_loop.induct)
  case (1 tg s textureID index)
  show ?case
  proof (cases "index < m_loadedTextures s")
    case True
    then have inb: "nat index < length (m_textureIDs s)" using "1.prems" by linarith
    have ne: "tag (m_textureIDs s ! nat index) \<noteq> tg" using "1.prems" True by simp
    have "FindTextureID_loop tg s textureID (index + 1) False = Inr textureID"
      using "1.hyps"(2) True inb ne "1.prems" by simp
    then show ?thesis using True inb ne "1.prems"(1)
      by (subst FindTextureID_loop.simps) simp
  next
    case False
    then show ?thesis by (subst FindTextureID_loop.simps) simp
  qed
qed

lemma FindTextureID_loop_hit:
  "0 \<le> index \<Longrightarrow> index \<le> k \<Longrightarrow> k < m_loadedTextures s \<Longrightarrow>
   nat (m_loadedTextures s) \<le> length (m_textureIDs s) \<Longrightarrow>
   tag (m_textureIDs s ! nat k) = tg \<Longrightarrow>
   \<forall>j. index \<le> j \<and> j < k \<longrightarrow> tag (m_textureIDs s ! nat j) \<noteq> tg \<Longrightarrow>
   FindTextureID_loop tg s tid index False = Inr (sint (ID (m_textureIDs s ! nat k)))"
proof (induction tg s tid index "False" rule: FindTextureID_loop.induct)
  case (1 tg s textureID index)
  have lt: "index < m_loadedTextures s" using "1.prems" by linarith
  have inb: "nat index < length (m_textureIDs s)" using "1.prems" by linarith
  show ?case
  proof (cases "index = k")
    case True
    then show ?thesis using lt inb "1.prems"
      by (subst FindTextureID_loop.simps) simp
  next
    case False
    then have ne: "tag (m_textureIDs s ! nat index) \<noteq> tg" using "1.prems" by simp
    have "FindTextureID_loop tg s textureID (index + 1) False
            = Inr (sint (ID (m_textureIDs s ! nat k)))"
      using "1.hyps"(2) lt inb ne "1.prems" False by simp
    then show ?thesis using lt inb ne "1.prems"(1)
      by (subst FindTextureID_loop.simps) simp
  qed
qed

lemma registered_nth:
  "j < nat (m_loadedTextures s) \<Longrightarrow> registered s ! j = m_textureIDs s ! j"
  by (simp add: registered_def)

lemma length_registered:
  "registry_ok s \<Longrightarrow> length (registered s) = nat (m_loadedTextures s)"
  by (simp add: registered_def registry_ok_def)

lemma lookup_miss:
  assumes ok: "registry_ok s" and none: "\<forall>e \<in> set (registered s). tag e \<noteq> tg"
  shows "FindTextureSlot tg s = Inr (- 1)" and "FindTextureID tg s = Inr (- 1)"
proof -
  have all: "\<forall>j. 0 \<le> j \<and> j < m_loadedTextures s \<longrightarrow> tag (m_textureIDs s ! nat j) \<noteq> tg"
  proof (intro allI impI)
    fix j assume j: "0 \<le> j \<and> j < m_loadedTextures s"
    then have lt: "nat j < nat (m_loadedTextures s)" by linarith
    then have "registered s ! nat j \<in> set (registered s)"
      using ok by (simp add: length_registered)
    then show "tag (m_textureIDs s ! nat j) \<noteq> tg"
      using none lt by (simp add: registered_nth)
  qed
  have bound: "nat (m_loadedTextures s) \<le> length (m_textureIDs s)"
    using ok by (simp add: registry_ok_def)
  show "FindTextureSlot tg s = Inr (- 1)"
    unfolding FindTextureSlot_def using all bound
    by (intro FindTextureSlot_loop_miss) simp_all
  show "FindTextureID tg s = Inr (- 1)"
    unfolding FindTextureID_def using all bound
    by (intro FindTextureID_loop_miss) simp_all
qed

lemma lookup_hit:
  assumes ok: "registry_ok s" and k: "k < length (registered s)"
    and hit: "tag (registered s ! k) = tg"
    and first: "\<forall>j<k. tag (registered s ! j) \<noteq> tg"
  shows "FindTextureSlot tg s = Inr (int k)"
    and "FindTextureID tg s = Inr (sint (ID (registered s ! k)))"
proof -
  have kn: "k < nat (m_loadedTextures s)" using k ok by (simp add: length_registered)
  have bound: "nat (m_loadedTextures s) \<le> length (m_textureIDs s)"
    using ok by (simp add: registry_ok_def)
  have klt: "int k < m_loadedTextures s" using kn by linarith
  have hit': "tag (m_textureIDs s ! nat (int k)) = tg"
    using hit kn by (simp add: registered_nth)
  have first': "\<forall>j. 0 \<le> j \<and> j < int k \<longrightarrow> tag (m_textureIDs s ! nat j) \<noteq> tg"
  proof (intro allI impI)
    fix j assume j: "0 \<le> j \<and> j < int k"
    then have "nat j < k" by linarith
    moreover from this have "nat j < nat (m_loadedTextures s)" using kn by linarith
    ultimately show "tag (m_textureIDs s ! nat j) \<noteq> tg"
      using first by (auto simp: registered_nth)
  qed
  show "FindTextureSlot tg s = Inr (int k)"
    unfolding FindTextureSlot_def using klt bound hit' first'
    by (intro FindTextureSlot_loop_hit) simp_all
  have "FindTextureID tg s = Inr (sint (ID (m_textureIDs s ! nat (int k))))"
    unfolding FindTextureID_def using klt bound hit' first'
    by (intro FindTextureID_loop_hit) simp_all
  then show "FindTextureID tg s = Inr (sint (ID (registered s ! k)))"
    using kn by (simp add: registered_nth)
qed

section \<open>Texture registry: loading\<close>

lemma CreateGLTexture_success:
  "CreateGLTexture stbi_load filename tg s = Inr (True, s') \<Longrightarrow>
     (\<exists>img. stbi_load filename = Some img \<and> (colorChannels img = 3 \<or> colorChannels img = 4))
   \<and> 0 \<le> m_loadedTextures s \<and> nat (m_loadedTextures s) < length (m_textureIDs s)
   \<and> m_loadedTextures s' = m_loadedTextures s + 1
   \<and> m_textureIDs s' = (m_textureIDs s)
        [nat (m_loadedTextures s) := \<lparr>ID = fst (glGenTextures (gl s)), tag = tg\<rparr>]
   \<and> m_pShaderManager s' = m_pShaderManager s
   \<and> m_objectMaterials s' = m_objectMaterials s
   \<and> drawn s' = drawn s"
  by (auto simp: CreateGLTexture_def Let_def split: option.splits if_splits prod.splits)

lemma CreateGLTexture_failure:
  "CreateGLTexture stbi_load filename tg s = Inr (False, s') \<Longrightarrow>
     (stbi_load filename = None
        \<or> (\<exists>img. stbi_load filename = Some img \<and> colorChannels img \<noteq> 3 \<and> colorChannels img \<noteq> 4))
   \<and> m_loadedTextures s' = m_loadedTextures s
   \<and> m_textureIDs s' = m_textureIDs s
   \<and> m_pShaderManager s' = m_pShaderManager s
   \<and> m_objectMaterials s' = m_objectMaterials s
   \<and> drawn s' = drawn s"
  by (auto simp: CreateGLTexture_def Let_def split: option.splits if_splits prod.splits)

lemma CreateGLTexture_returns_false:
  "stbi_load filename = None
     \<or> (\<exists>img. stbi_load filename = Some img \<and> colorChannels img \<noteq> 3 \<and> colorChannels img \<noteq> 4)
   \<Longrightarrow> \<exists>s'. CreateGLTexture stbi_load filename tg s = Inr (False, s')"
  by (auto simp: CreateGLTexture_def Let_def split: option.splits if_splits prod.splits)

lemma CreateGLTexture_returns_true:
  "stbi_load filename = Some img \<Longrightarrow> colorChannels img = 3 \<or> colorChannels img = 4 \<Longrightarrow>
   0 \<le> m_loadedTextures s \<Longrightarrow> nat (m_loadedTextures s) < length (m_textureIDs s) \<Longrightarrow>
   \<exists>s'. CreateGLTexture stbi_load filename tg s = Inr (True, s')"
  by (auto simp: CreateGLTexture_def Let_def split: option.splits if_splits prod.splits)

lemma registered_after_success:
  assumes "CreateGLTexture stbi_load filename tg s = Inr (True, s')"
  shows "registered s' = registered s @ [\<lparr>ID = fst (glGenTextures (gl s)), tag = tg\<rparr>]"
    and "registry_ok s'"
proof -
  from CreateGLTexture_success [OF assms]
  have n0: "0 \<le> m_loadedTextures s"
    and nlt: "nat (m_loadedTextures s) < length (m_textureIDs s)"
    and n': "m_loadedTextures s' = m_loadedTextures s + 1"
    and arr: "m_textureIDs s' = (m_textureIDs s)
        [nat (m_loadedTextures s) := \<lparr>ID = fst (glGenTextures (gl s)), tag = tg\<rparr>]"
    by simp_all
  have nat': "nat (m_loadedTextures s') = Suc (nat (m_loadedTextures s))"
    using n0 n' by simp
  show "registered s' = registered s @ [\<lparr>ID = fst (glGenTextures (gl s)), tag = tg\<rparr>]"
    using nlt by (simp add: registered_def nat' arr take_Suc_conv_app_nth)
  show "registry_ok s'"
    using n0 nlt n' arr by (simp add: registry_ok_def)
qed
lemma run_steps_append:
  "run_steps (xs @ ys) s = bind_fault (run_steps xs s) (run_steps ys)"
  by (induction xs arbitrary: s) (simp_all add: bind_fault_def split: sum.splits)

lemma load_texture_success:
  "CreateGLTexture stbi_load filename tg s = Inr (b, s') \<Longrightarrow>
   load_texture stbi_load filename tg s = Inr s'"
  by (simp add: load_texture_def bind_fault_def)

lemma load_all_Cons:
  "load_all stbi_load (tg # tags) s =
     bind_fault (load_texture stbi_load (''textures/'' @ tg) tg s) (load_all stbi_load tags)"
  by (simp add: load_all_def)

lemma load_all_fills_slots:
  assumes "\<forall>tg \<in> set tags. \<exists>img. stbi_load (''textures/'' @ tg) = Some img
              \<and> (colorChannels img = 3 \<or> colorChannels img = 4)"
    and "registry_ok s"
    and "nat (m_loadedTextures s) + length tags \<le> length (m_textureIDs s)"
  shows "\<exists>s'. load_all stbi_load tags s = Inr s'
           \<and> registry_ok s'
           \<and> m_loadedTextures s' = m_loadedTextures s + int (length tags)
           \<and> length (m_textureIDs s') = length (m_textureIDs s)
           \<and> map tag (registered s') = map tag (registered s) @ tags"
  using assms
proof (induction tags arbitrary: s)
  case Nil
  then show ?case by (simp add: load_all_def)
next
  case (Cons tg tags)
  from Cons.prems(1) obtain img where img: "stbi_load (''textures/'' @ tg) = Some img"
    "colorChannels img = 3 \<or> colorChannels img = 4" by auto
  have n0: "0 \<le> m_loadedTextures s" using Cons.prems(2) by (simp add: registry_ok_def)
  have nlt: "nat (m_loadedTextures s) < length (m_textureIDs s)" using Cons.prems(3) by simp
  from CreateGLTexture_returns_true
         [where stbi_load = stbi_load and filename = "''textures/'' @ tg" and tg = tg, OF img n0 nlt]
  obtain s1 where s1: "CreateGLTexture stbi_load (''textures/'' @ tg) tg s = Inr (True, s1)"
    by blast
  note facts = CreateGLTexture_success [OF s1]
  have reg1: "registered s1 = registered s @ [\<lparr>ID = fst (glGenTextures (gl s)), tag = tg\<rparr>]"
    and ok1: "registry_ok s1"
    using registered_after_success [OF s1] by simp_all
  have n1: "m_loadedTextures s1 = m_loadedTextures s + 1" using facts by simp
  have len1: "length (m_textureIDs s1) = length (m_textureIDs s)" using facts by simp
  have room: "nat (m_loadedTextures s1) + length tags \<le> length (m_textureIDs s1)"
    using Cons.prems(3) n0 n1 len1 by simp
  have dec: "\<forall>tg \<in> set tags. \<exists>img. stbi_load (''textures/'' @ tg) = Some img
              \<and> (colorChannels img = 3 \<or> colorChannels img = 4)"
    using Cons.prems(1) by simp
  from Cons.IH [OF dec ok1 room] obtain s' where s':
    "load_all stbi_load tags s1 = Inr s'" "registry_ok s'"
    "m_loadedTextures s' = m_loadedTextures s1 + int (length tags)"
    "length (m_textureIDs s') = length (m_textureIDs s1)"
    "map tag (registered s') = map tag (registered s1) @ tags"
    by blast
  have "load_all stbi_load (tg # tags) s = Inr s'"
    using load_texture_success [OF s1] s'(1) by (simp add: load_all_Cons bind_fault_def)
  then show ?case using s' n1 len1 reg1 by simp
qed

lemma CreateGLTexture_overrun:
  "stbi_load filename = Some img \<Longrightarrow> colorChannels img = 3 \<or> colorChannels img = 4 \<Longrightarrow>
   m_loadedTextures s = int (length (m_textureIDs s)) \<Longrightarrow>
   CreateGLTexture stbi_load filename tg s = Inl OutOfBounds"
  by (auto simp: CreateGLTexture_def Let_def split: option.splits if_splits prod.splits)

lemma lookup_distinct:
  assumes ok: "registry_ok s" and d: "distinct (map tag (registered s))"
    and k: "k < length (registered s)"
  shows "FindTextureSlot (tag (registered s ! k)) s = Inr (int k)"
proof -
  have "\<forall>j<k. tag (registered s ! j) \<noteq> tag (registered s ! k)"
    using d k by (auto simp: distinct_conv_nth)
  then show ?thesis
    using lookup_hit(1) [OF ok k refl] by blast
qed

lemma lookup_all_distinct:
  assumes ok: "registry_ok s" and d: "distinct (map tag (registered s))"
  shows "map (\<lambda>tg. FindTextureSlot tg s) (map tag (registered s))
           = map (\<lambda>k. Inr (int k)) [0..<length (registered s)]"
proof (rule nth_equalityI)
  show "length (map (\<lambda>tg. FindTextureSlot tg s) (map tag (registered s)))
          = length (map (\<lambda>k. Inr (int k)) [0..<length (registered s)])" by simp
next
  fix i assume "i < length (map (\<lambda>tg. FindTextureSlot tg s) (map tag (registered s)))"
  then have i: "i < length (registered s)" by simp
  then show "map (\<lambda>tg. FindTextureSlot tg s) (map tag (registered s)) ! i
               = map (\<lambda>k. Inr (int k)) [0..<length (registered s)] ! i"
    using lookup_distinct [OF ok d i] by simp
qed

lemma example_scene_ok: "registry_ok (example_scene p)"
  by (simp add: registry_ok_def example_scene_def)

lemma example_scene_registered: "registered (example_scene p) = []"
  by (simp add: registered_def example_scene_def)

text \<open>
  C6. Sixteen loads of decodable images under distinct tags, from an empty registry of
  sixteen slots, all succeed and the tags occupy the slot indices 0 to 15. The
  seventeenth call is not rejected: with no capacity check, it writes
  \<^verbatim>\<open>m_textureIDs[16]\<close>, outside the array.
\<close>

theorem seventeenth_load_overruns:
  "\<exists>s. load_all rgb_codec sixteen_tags (example_scene (Some [])) = Inr s
       \<and> m_loadedTextures s = 16
       \<and> length (m_textureIDs s) = 16
       \<and> map tag (registered s) = sixteen_tags
       \<and> map (\<lambda>tg. FindTextureSlot tg s) sixteen_tags
           = map Inr [0, 1, 2, 3, 4, 5, 6, 7, 8, 9, 10, 11, 12, 13, 14, 15]
       \<and> CreateGLTexture rgb_codec ''textures/t16'' ''t16'' s = Inl OutOfBounds"
proof -
  have dec: "\<forall>tg \<in> set sixteen_tags. \<exists>img. rgb_codec (''textures/'' @ tg) = Some img
              \<and> (colorChannels img = 3 \<or> colorChannels img = 4)"
    by (simp add: rgb_codec_def)
  have room: "nat (m_loadedTextures (example_scene (Some []))) + length sixteen_tags
                \<le> length (m_textureIDs (example_scene (Some [])))"
    by (simp add: example_scene_def sixteen_tags_def texture_slots_def)
  from load_all_fills_slots [OF dec example_scene_ok room]
  obtain s where s: "load_all rgb_codec sixteen_tags (example_scene (Some [])) = Inr s"
    "registry_ok s"
    "m_loadedTextures s = m_loadedTextures (example_scene (Some [])) + int (length sixteen_tags)"
    "length (m_textureIDs s) = length (m_textureIDs (example_scene (Some [])))"
    "map tag (registered s) = map tag (registered (example_scene (Some []))) @ sixteen_tags"
    by blast
  have n: "m_loadedTextures s = 16"
    using s(3) by (simp add: example_scene_def sixteen_tags_def)
  have len: "length (m_textureIDs s) = 16"
    using s(4) by (simp add: example_scene_def texture_slots_def)
  have tags: "map tag (registered s) = sixteen_tags"
    using s(5) by (simp add: example_scene_registered)
  have d: "distinct (map tag (registered s))"
    unfolding tags by (simp add: sixteen_tags_def)
  have lenr: "length (registered s) = 16"
    using length_registered [OF s(2)] n by simp
  have upt: "[0..<16] = [0, 1, 2, 3, 4, 5, 6, 7, 8, 9, 10, 11, 12, 13, 14, 15::nat]"
    by (simp add: upt_rec)
  have slots: "map (\<lambda>tg. FindTextureSlot tg s) sixteen_tags
           = map Inr [0, 1, 2, 3, 4, 5, 6, 7, 8, 9, 10, 11, 12, 13, 14, 15]"
    using lookup_all_distinct [OF s(2) d] unfolding tags lenr upt by simp
  have over: "CreateGLTexture rgb_codec ''textures/t16'' ''t16'' s = Inl OutOfBounds"
    by (rule CreateGLTexture_overrun [where img = "\<lparr>width = 2, height = 2, colorChannels = 3\<rparr>"])
       (simp_all add: rgb_codec_def n len)
  show ?thesis using s(1) n len tags slots over by blast
qed

lemma CreateGLTexture_false_iff:
  "(\<exists>s'. CreateGLTexture stbi_load filename tg s = Inr (False, s')) \<longleftrightarrow>
     (stbi_load filename = None
        \<or> (\<exists>img. stbi_load filename = Some img \<and> colorChannels img \<noteq> 3 \<and> colorChannels img \<noteq> 4))"
  using CreateGLTexture_failure CreateGLTexture_returns_false by blast

text \<open>
  What holds of the result of \<^verbatim>\<open>CreateGLTexture\<close> in every state: it returns
  \<^verbatim>\<open>false\<close> exactly when the codec cannot decode the file or the decoded channel count
  is neither 3 nor 4. Whenever it returns \<^verbatim>\<open>false\<close>, the texture table and the
  loaded-texture count are unchanged. Whenever it returns \<^verbatim>\<open>true\<close>, the count has
  grown by one and exactly one entry, tagged with the argument tag, follows the entries
  registered before. And it does return \<^verbatim>\<open>true\<close> for an image of 3 or 4 channels
  while a slot is free.
\<close>

lemma CreateGLTexture_result:
  "((\<exists>s'. CreateGLTexture stbi_load filename tg s = Inr (False, s')) \<longleftrightarrow>
      (stbi_load filename = None
         \<or> (\<exists>img. stbi_load filename = Some img
                \<and> colorChannels img \<noteq> 3 \<and> colorChannels img \<noteq> 4)))
   \<and> (\<forall>s'. CreateGLTexture stbi_load filename tg s = Inr (False, s') \<longrightarrow>
          m_textureIDs s' = m_textureIDs s
        \<and> m_loadedTextures s' = m_loadedTextures s
        \<and> registered s' = registered s)
   \<and> (\<forall>s'. CreateGLTexture stbi_load filename tg s = Inr (True, s') \<longrightarrow>
          m_loadedTextures s' = m_loadedTextures s + 1
        \<and> length (m_textureIDs s') = length (m_textureIDs s)
        \<and> registered s' = registered s @ [\<lparr>ID = fst (glGenTextures (gl s)), tag = tg\<rparr>])
   \<and> ((\<exists>img. stbi_load filename = Some img \<and> (colorChannels img = 3 \<or> colorChannels img = 4))
        \<and> 0 \<le> m_loadedTextures s \<and> nat (m_loadedTextures s) < length (m_textureIDs s) \<longrightarrow>
        (\<exists>s'. CreateGLTexture stbi_load filename tg s = Inr (True, s')))"
proof (intro conjI allI impI)
  show "(\<exists>s'. CreateGLTexture stbi_load filename tg s = Inr (False, s')) \<longleftrightarrow>
      (stbi_load filename = None
         \<or> (\<exists>img. stbi_load filename = Some img
                \<and> colorChannels img \<noteq> 3 \<and> colorChannels img \<noteq> 4))"
    by (rule CreateGLTexture_false_iff)
next
  fix s' assume f: "CreateGLTexture stbi_load filename tg s = Inr (False, s')"
  show "m_textureIDs s' = m_textureIDs s" using CreateGLTexture_failure [OF f] by simp
  show "m_loadedTextures s' = m_loadedTextures s" using CreateGLTexture_failure [OF f] by simp
  show "registered s' = registered s"
    using CreateGLTexture_failure [OF f] by (simp add: registered_def)
next
  fix s' assume t: "CreateGLTexture stbi_load filename tg s = Inr (True, s')"
  show "m_loadedTextures s' = m_loadedTextures s + 1"
    using CreateGLTexture_success [OF t] by simp
  show "length (m_textureIDs s') = length (m_textureIDs s)"
    using CreateGLTexture_success [OF t] by simp
  show "registered s' = registered s @ [\<lparr>ID = fst (glGenTextures (gl s)), tag = tg\<rparr>]"
    by (rule registered_after_success(1) [OF t])
next
  assume a: "(\<exists>img. stbi_load filename = Some img
                \<and> (colorChannels img = 3 \<or> colorChannels img = 4))
        \<and> 0 \<le> m_loadedTextures s \<and> nat (m_loadedTextures s) < length (m_textureIDs s)"
  then obtain img where img: "stbi_load filename = Some img"
    "colorChannels img = 3 \<or> colorChannels img = 4" by blast
  show "\<exists>s'. CreateGLTexture stbi_load filename tg s = Inr (True, s')"
    using CreateGLTexture_returns_true
      [where stbi_load = stbi_load and filename = filename and tg = tg, OF img] a
    by blast
qed

lemma example_loaded_ok: "registry_ok example_loaded"
  by (simp add: registry_ok_def example_loaded_def)

lemma example_loaded_registered:
  "registered example_loaded = [\<lparr>ID = 1, tag = ''Party''\<rparr>, \<lparr>ID = 2, tag = ''Floor''\<rparr>]"
  by (simp add: registered_def example_loaded_def)

lemma CreateGLTexture_result_example:
  "(\<exists>s'. CreateGLTexture no_codec ''textures/missing.jpg'' ''Missing'' example_loaded
            = Inr (False, s')
         \<and> m_loadedTextures s' = 2
         \<and> registered s' = [\<lparr>ID = 1, tag = ''Party''\<rparr>, \<lparr>ID = 2, tag = ''Floor''\<rparr>])
   \<and> (\<exists>s'. CreateGLTexture grey_codec ''textures/grey.png'' ''Grey'' example_loaded
            = Inr (False, s')
         \<and> m_loadedTextures s' = 2
         \<and> registered s' = [\<lparr>ID = 1, tag = ''Party''\<rparr>, \<lparr>ID = 2, tag = ''Floor''\<rparr>])
   \<and> (\<exists>s'. CreateGLTexture rgb_codec ''textures/table.jpg'' ''Table'' example_loaded
            = Inr (True, s')
         \<and> m_loadedTextures s' = 3
         \<and> registered s' = [\<lparr>ID = 1, tag = ''Party''\<rparr>, \<lparr>ID = 2, tag = ''Floor''\<rparr>,
                             \<lparr>ID = 3, tag = ''Table''\<rparr>])"
proof -
  have n: "m_loadedTextures example_loaded = 2"
    and len: "length (m_textureIDs example_loaded) = 16"
    and h: "fst (glGenTextures (gl example_loaded)) = 3"
    by (simp_all add: example_loaded_def glGenTextures_def)
  note a = CreateGLTexture_result
             [of no_codec "''textures/missing.jpg''" "''Missing''" example_loaded]
  note b = CreateGLTexture_result
             [of grey_codec "''textures/grey.png''" "''Grey''" example_loaded]
  note c = CreateGLTexture_result
             [of rgb_codec "''textures/table.jpg''" "''Table''" example_loaded]
  from a obtain s1 where s1:
    "CreateGLTexture no_codec ''textures/missing.jpg'' ''Missing'' example_loaded = Inr (False, s1)"
    by (auto simp: no_codec_def)
  from b obtain s2 where s2:
    "CreateGLTexture grey_codec ''textures/grey.png'' ''Grey'' example_loaded = Inr (False, s2)"
    by (auto simp: grey_codec_def)
  from c n len obtain s3 where s3:
    "CreateGLTexture rgb_codec ''textures/table.jpg'' ''Table'' example_loaded = Inr (True, s3)"
    by (auto simp: rgb_codec_def)
  have r1: "m_loadedTextures s1 = 2 \<and> registered s1 = registered example_loaded"
    using a s1 n by simp
  have r2: "m_loadedTextures s2 = 2 \<and> registered s2 = registered example_loaded"
    using b s2 n by simp
  have r3: "m_loadedTextures s3 = 3
      \<and> registered s3 = registered example_loaded @ [\<lparr>ID = 3, tag = ''Table''\<rparr>]"
    using c s3 n h by simp
  show ?thesis
    using s1 s2 s3 r1 r2 r3 by (simp add: example_loaded_registered)
qed

lemma CreateGLTexture_undecodable_unchanged:
  "stbi_load filename = None \<Longrightarrow> CreateGLTexture stbi_load filename tg s = Inr (False, s)"
  by (simp add: CreateGLTexture_def)

lemma CreateGLTexture_unsupported_channels:
  assumes "stbi_load filename = Some img"
    and "colorChannels img \<noteq> 3" and "colorChannels img \<noteq> 4"
  shows "CreateGLTexture stbi_load filename tg s =
           Inr (False,
                s\<lparr>gl := \<lparr>gl_textures = gl_textures (gl s) @ [fst (glGenTextures (gl s))],
                          gl_calls = gl_calls (gl s) @
                            [BindTexture (fst (glGenTextures (gl s))),
                             TexParameteri ''GL_TEXTURE_WRAP_S'' ''GL_REPEAT'',
                             TexParameteri ''GL_TEXTURE_WRAP_T'' ''GL_REPEAT'',
                             TexParameteri ''GL_TEXTURE_MIN_FILTER'' ''GL_LINEAR'',
                             TexParameteri ''GL_TEXTURE_MAG_FILTER'' ''GL_LINEAR'']\<rparr>\<rparr>)"
  using assms
  by (simp add: CreateGLTexture_def glGenTextures_def gl_do_def Let_def)

text \<open>
  C5. The claim holds of the return value and of the registry, in every state
  (\<open>CreateGLTexture_result\<close>), and a file the codec cannot decode leaves the whole state
  as it was. It fails for ``state unchanged on error'' when the decoded channel count is
  neither 3 nor 4: the channel count is tested after \<^verbatim>\<open>glGenTextures\<close>,
  \<^verbatim>\<open>glBindTexture\<close> and the four \<^verbatim>\<open>glTexParameteri\<close> calls, and the \<^verbatim>\<open>else\<close>
  branch returns \<^verbatim>\<open>false\<close> at once. For a one-channel image, with the texture names 1
  and 2 in the GL context, the call returns \<^verbatim>\<open>false\<close> and leaves the new name 3
  generated and bound; the call that succeeds ends by binding texture 0, this one does
  not.
\<close>

theorem CreateGLTexture_unsupported_channels_changes_state:
  "gl example_loaded = \<lparr>gl_textures = [1, 2], gl_calls = []\<rparr>
   \<and> grey_codec ''textures/grey.png'' = Some \<lparr>width = 2, height = 2, colorChannels = 1\<rparr>
   \<and> CreateGLTexture grey_codec ''textures/grey.png'' ''Grey'' example_loaded =
       Inr (False,
            example_loaded
              \<lparr>gl := \<lparr>gl_textures = [1, 2, 3],
                        gl_calls = [BindTexture 3,
                                    TexParameteri ''GL_TEXTURE_WRAP_S'' ''GL_REPEAT'',
                                    TexParameteri ''GL_TEXTURE_WRAP_T'' ''GL_REPEAT'',
                                    TexParameteri ''GL_TEXTURE_MIN_FILTER'' ''GL_LINEAR'',
                                    TexParameteri ''GL_TEXTURE_MAG_FILTER'' ''GL_LINEAR'']\<rparr>\<rparr>)
   \<and> CreateGLTexture grey_codec ''textures/grey.png'' ''Grey'' example_loaded
       \<noteq> Inr (False, example_loaded)
   \<and> CreateGLTexture no_codec ''textures/missing.jpg'' ''Missing'' example_loaded
       = Inr (False, example_loaded)
   \<and> CreateGLTexture rgb_codec ''textures/table.jpg'' ''Table'' example_loaded =
       Inr (True,
            example_loaded
              \<lparr>m_textureIDs := [\<lparr>ID = 1, tag = ''Party''\<rparr>, \<lparr>ID = 2, tag = ''Floor''\<rparr>,
                                \<lparr>ID = 3, tag = ''Table''\<rparr>]
                               @ replicate 13 \<lparr>ID = 0, tag = []\<rparr>,
               m_loadedTextures := 3,
               gl := \<lparr>gl_textures = [1, 2, 3],
                        gl_calls = [BindTexture 3,
                                    TexParameteri ''GL_TEXTURE_WRAP_S'' ''GL_REPEAT'',
                                    TexParameteri ''GL_TEXTURE_WRAP_T'' ''GL_REPEAT'',
                                    TexParameteri ''GL_TEXTURE_MIN_FILTER'' ''GL_LINEAR'',
                                    TexParameteri ''GL_TEXTURE_MAG_FILTER'' ''GL_LINEAR'',
                                    TexImage2D GL_RGB 2 2,
                                    GenerateMipmap,
                                    BindTexture 0]\<rparr>\<rparr>)"
proof -
  have g: "gl example_loaded = \<lparr>gl_textures = [1, 2], gl_calls = []\<rparr>"
    by (simp add: example_loaded_def)
  have c: "grey_codec ''textures/grey.png'' = Some \<lparr>width = 2, height = 2, colorChannels = 1\<rparr>"
    by (simp add: grey_codec_def)
  have grey: "CreateGLTexture grey_codec ''textures/grey.png'' ''Grey'' example_loaded =
       Inr (False,
            example_loaded
              \<lparr>gl := \<lparr>gl_textures = [1, 2, 3],
                        gl_calls = [BindTexture 3,
                                    TexParameteri ''GL_TEXTURE_WRAP_S'' ''GL_REPEAT'',
                                    TexParameteri ''GL_TEXTURE_WRAP_T'' ''GL_REPEAT'',
                                    TexParameteri ''GL_TEXTURE_MIN_FILTER'' ''GL_LINEAR'',
                                    TexParameteri ''GL_TEXTURE_MAG_FILTER'' ''GL_LINEAR'']\<rparr>\<rparr>)"
    using CreateGLTexture_unsupported_channels
            [where stbi_load = grey_codec and filename = "''textures/grey.png''"
               and img = "\<lparr>width = 2, height = 2, colorChannels = 1\<rparr>"
               and tg = "''Grey''" and s = example_loaded, OF c]
    by (simp add: g glGenTextures_def)
  have "gl (example_loaded
              \<lparr>gl := \<lparr>gl_textures = [1, 2, 3],
                        gl_calls = [BindTexture 3,
                                    TexParameteri ''GL_TEXTURE_WRAP_S'' ''GL_REPEAT'',
                                    TexParameteri ''GL_TEXTURE_WRAP_T'' ''GL_REPEAT'',
                                    TexParameteri ''GL_TEXTURE_MIN_FILTER'' ''GL_LINEAR'',
                                    TexParameteri ''GL_TEXTURE_MAG_FILTER'' ''GL_LINEAR'']\<rparr>\<rparr>)
          \<noteq> gl example_loaded"
    by (simp add: g)
  then have differs: "CreateGLTexture grey_codec ''textures/grey.png'' ''Grey'' example_loaded
       \<noteq> Inr (False, example_loaded)"
    unfolding grey by (metis Inr_inject snd_conv)
  have missing: "CreateGLTexture no_codec ''textures/missing.jpg'' ''Missing'' example_loaded
       = Inr (False, example_loaded)"
    by (rule CreateGLTexture_undecodable_unchanged) (simp add: no_codec_def)
  have r13: "replicate 14 \<lparr>ID = 0, tag = []\<rparr>
               = \<lparr>ID = 0, tag = []\<rparr> # replicate 13 \<lparr>ID = 0, tag = []\<rparr>"
    by (simp add: numeral_eq_Suc)
  have table: "CreateGLTexture rgb_codec ''textures/table.jpg'' ''Table'' example_loaded =
       Inr (True,
            example_loaded
              \<lparr>m_textureIDs := [\<lparr>ID = 1, tag = ''Party''\<rparr>, \<lparr>ID = 2, tag = ''Floor''\<rparr>,
                                \<lparr>ID = 3, tag = ''Table''\<rparr>]
                               @ replicate 13 \<lparr>ID = 0, tag = []\<rparr>,
               m_loadedTextures := 3,
               gl := \<lparr>gl_textures = [1, 2, 3],
                        gl_calls = [BindTexture 3,
                                    TexParameteri ''GL_TEXTURE_WRAP_S'' ''GL_REPEAT'',
                                    TexParameteri ''GL_TEXTURE_WRAP_T'' ''GL_REPEAT'',
                                    TexParameteri ''GL_TEXTURE_MIN_FILTER'' ''GL_LINEAR'',
                                    TexParameteri ''GL_TEXTURE_MAG_FILTER'' ''GL_LINEAR'',
                                    TexImage2D GL_RGB 2 2,
                                    GenerateMipmap,
                                    BindTexture 0]\<rparr>\<rparr>)"
    by (simp add: CreateGLTexture_def rgb_codec_def example_loaded_def glGenTextures_def
          gl_do_def Let_def r13)
  show ?thesis using g c grey differs missing table by (intro conjI)
qed

lemma handle_as_int:
  "uint (h :: GLuint) < 2 ^ 31 \<Longrightarrow> sint h = uint h"
proof -
  assume a: "uint h < 2 ^ 31"
  have "- (2 ^ 31) \<le> uint h" by (rule order_trans [of _ 0]) simp_all
  then have "signed_take_bit 31 (uint h) = uint h"
    using a by (rule signed_take_bit_int_eq_self)
  then show ?thesis by (simp add: sint_uint)
qed

text \<open>
  C7. In a registry that is within its array, \<^verbatim>\<open>FindTextureSlot\<close> returns the index
  of the first registered entry, in insertion order, whose tag equals the argument, and
  \<^verbatim>\<open>FindTextureID\<close> returns that entry's handle (converted to the \<^verbatim>\<open>int\<close> the
  function returns; a handle below \<open>2^31\<close> is returned as it is). Both return -1
  when no registered entry has the tag. Hence after a successful load under a tag not
  registered before, \<^verbatim>\<open>FindTextureSlot\<close> returns the slot index assigned by the load
  and \<^verbatim>\<open>FindTextureID\<close> the handle the load created.
\<close>

theorem lookup_first_match_round_trip:
  assumes ok: "registry_ok s"
  shows
    "(\<forall>k. k < length (registered s) \<and> tag (registered s ! k) = tg
           \<and> (\<forall>j<k. tag (registered s ! j) \<noteq> tg) \<longrightarrow>
          FindTextureSlot tg s = Inr (int k)
        \<and> FindTextureID tg s = Inr (sint (ID (registered s ! k)))
        \<and> (uint (ID (registered s ! k)) < 2 ^ 31 \<longrightarrow>
             FindTextureID tg s = Inr (uint (ID (registered s ! k)))))
     \<and> ((\<forall>e \<in> set (registered s). tag e \<noteq> tg) \<longrightarrow>
          FindTextureSlot tg s = Inr (- 1) \<and> FindTextureID tg s = Inr (- 1))
     \<and> (\<forall>stbi_load filename s'.
          (\<forall>e \<in> set (registered s). tag e \<noteq> tg)
          \<and> CreateGLTexture stbi_load filename tg s = Inr (True, s') \<longrightarrow>
          FindTextureSlot tg s' = Inr (m_loadedTextures s)
        \<and> FindTextureID tg s' = Inr (sint (fst (glGenTextures (gl s))))
        \<and> ID (m_textureIDs s' ! nat (m_loadedTextures s)) = fst (glGenTextures (gl s)))"
proof (intro conjI allI impI)
  fix k
  assume a: "k < length (registered s) \<and> tag (registered s ! k) = tg
           \<and> (\<forall>j<k. tag (registered s ! j) \<noteq> tg)"
  then have k: "k < length (registered s)" and hit: "tag (registered s ! k) = tg"
    and first: "\<forall>j<k. tag (registered s ! j) \<noteq> tg" by simp_all
  show "FindTextureSlot tg s = Inr (int k)"
    by (rule lookup_hit(1) [OF ok k hit first])
  show id: "FindTextureID tg s = Inr (sint (ID (registered s ! k)))"
    by (rule lookup_hit(2) [OF ok k hit first])
  assume "uint (ID (registered s ! k)) < 2 ^ 31"
  then show "FindTextureID tg s = Inr (uint (ID (registered s ! k)))"
    using id by (simp add: handle_as_int)
next
  assume none: "\<forall>e \<in> set (registered s). tag e \<noteq> tg"
  show "FindTextureSlot tg s = Inr (- 1)" by (rule lookup_miss(1) [OF ok none])
  show "FindTextureID tg s = Inr (- 1)" by (rule lookup_miss(2) [OF ok none])
next
  fix stbi_load :: codec and filename s'
  assume a: "(\<forall>e \<in> set (registered s). tag e \<noteq> tg)
          \<and> CreateGLTexture stbi_load filename tg s = Inr (True, s')"
  then have none: "\<forall>e \<in> set (registered s). tag e \<noteq> tg"
    and t: "CreateGLTexture stbi_load filename tg s = Inr (True, s')" by simp_all
  let ?e = "\<lparr>ID = fst (glGenTextures (gl s)), tag = tg\<rparr>"
  have reg: "registered s' = registered s @ [?e]" and ok': "registry_ok s'"
    using registered_after_success [OF t] by simp_all
  have len: "length (registered s) = nat (m_loadedTextures s)"
    by (rule length_registered [OF ok])
  have n0: "0 \<le> m_loadedTextures s" using ok by (simp add: registry_ok_def)
  have k: "length (registered s) < length (registered s')" using reg by simp
  have at: "registered s' ! length (registered s) = ?e" using reg by simp
  have hit: "tag (registered s' ! length (registered s)) = tg" using at by simp
  have first: "\<forall>j<length (registered s). tag (registered s' ! j) \<noteq> tg"
    using none reg by (simp add: nth_append)
  show "FindTextureSlot tg s' = Inr (m_loadedTextures s)"
    using lookup_hit(1) [OF ok' k hit first] len n0 by simp
  show "FindTextureID tg s' = Inr (sint (fst (glGenTextures (gl s))))"
    using lookup_hit(2) [OF ok' k hit first] at by simp
  show "ID (m_textureIDs s' ! nat (m_loadedTextures s)) = fst (glGenTextures (gl s))"
    using CreateGLTexture_success [OF t] by simp
qed

theorem lookup_first_match_round_trip_witness:
  "registry_ok example_loaded
   \<and> FindTextureSlot ''Floor'' example_loaded = Inr 1
   \<and> FindTextureID ''Floor'' example_loaded = Inr 2
   \<and> FindTextureSlot ''Cake'' example_loaded = Inr (- 1)
   \<and> FindTextureID ''Cake'' example_loaded = Inr (- 1)
   \<and> (\<exists>s'. CreateGLTexture rgb_codec ''textures/table.jpg'' ''Table'' example_loaded
              = Inr (True, s')
          \<and> FindTextureSlot ''Table'' s' = Inr 2
          \<and> FindTextureID ''Table'' s' = Inr 3)"
proof -
  note floor = lookup_first_match_round_trip [OF example_loaded_ok, of "''Floor''"]
  note cake = lookup_first_match_round_trip [OF example_loaded_ok, of "''Cake''"]
  note table = lookup_first_match_round_trip [OF example_loaded_ok, of "''Table''"]
  have n: "m_loadedTextures example_loaded = 2"
    and len: "length (m_textureIDs example_loaded) = 16"
    and h: "fst (glGenTextures (gl example_loaded)) = 3"
    by (simp_all add: example_loaded_def glGenTextures_def)
  have f: "FindTextureSlot ''Floor'' example_loaded = Inr 1
           \<and> FindTextureID ''Floor'' example_loaded = Inr 2"
    using floor [THEN conjunct1, rule_format, of 1]
    by (simp add: example_loaded_registered)
  have c: "FindTextureSlot ''Cake'' example_loaded = Inr (- 1)
           \<and> FindTextureID ''Cake'' example_loaded = Inr (- 1)"
    using cake [THEN conjunct2, THEN conjunct1]
    by (simp add: example_loaded_registered)
  obtain s' where s':
    "CreateGLTexture rgb_codec ''textures/table.jpg'' ''Table'' example_loaded = Inr (True, s')"
    using CreateGLTexture_returns_true
      [where stbi_load = rgb_codec and filename = "''textures/table.jpg''" and tg = "''Table''"
         and s = example_loaded and img = "\<lparr>width = 2, height = 2, colorChannels = 3\<rparr>"]
    by (auto simp: rgb_codec_def n len)
  have t: "FindTextureSlot ''Table'' s' = Inr 2 \<and> FindTextureID ''Table'' s' = Inr 3"
    using table [THEN conjunct2, THEN conjunct2, rule_format, of rgb_codec
                   "''textures/table.jpg''" s'] s' n h
    by (simp add: example_loaded_registered)
  show ?thesis using example_loaded_ok f c s' t by blast
qed

section \<open>Transform compositor\<close>

lemma glm_rotate_x: "glm_rotate a (1, 0, 0) =
   ((1, 0, 0, 0), (0, cos a, sin a, 0), (0, - sin a, cos a, 0), (0, 0, 0, 1))"
  by (simp add: glm_rotate_def Let_def)

lemma glm_rotate_y: "glm_rotate a (0, 1, 0) =
   ((cos a, 0, - sin a, 0), (0, 1, 0, 0), (sin a, 0, cos a, 0), (0, 0, 0, 1))"
  by (simp add: glm_rotate_def Let_def)

lemma glm_rotate_z: "glm_rotate a (0, 0, 1) =
   ((cos a, sin a, 0, 0), (- sin a, cos a, 0, 0), (0, 0, 1, 0), (0, 0, 0, 1))"
  by (simp add: glm_rotate_def Let_def)

lemma modelView_apply:
  "mat4_mul_vec4 (modelView (sx, sy, sz) xd yd zd (tx, ty, tz)) (x, y, z, w) =
     (case spec_linear (sx, sy, sz) xd yd zd (x, y, z) of
        (a, b, c) \<Rightarrow> (a + tx * w, b + ty * w, c + tz * w, w))"
  by (simp add: modelView_def Let_def glm_rotate_x glm_rotate_y glm_rotate_z
      spec_linear_def spec_radians_def glm_radians_def algebra_simps)

lemma modelView_point:
  "mat4_mul_vec4 (modelView sc xd yd zd pos) (as_point p) = as_point (spec_model sc xd yd zd pos p)"
proof -
  obtain sx sy sz where sc: "sc = (sx, sy, sz)" by (cases sc) auto
  obtain tx ty tz where pos: "pos = (tx, ty, tz)" by (cases pos) auto
  obtain x y z where p: "p = (x, y, z)" by (cases p) auto
  obtain a b c where l: "spec_linear (sx, sy, sz) xd yd zd (x, y, z) = (a, b, c)"
    by (cases "spec_linear (sx, sy, sz) xd yd zd (x, y, z)") auto
  have "spec_model sc xd yd zd pos p = (a + tx, b + ty, c + tz)"
    using l by (simp add: sc pos p spec_model_def spec_linear_def)
  then show ?thesis
    using l by (simp add: sc pos p modelView_apply)
qed

lemma modelView_direction:
  "mat4_mul_vec4 (modelView sc xd yd zd pos) (as_direction p)
     = as_direction (spec_linear sc xd yd zd p)"
proof -
  obtain sx sy sz where sc: "sc = (sx, sy, sz)" by (cases sc) auto
  obtain tx ty tz where pos: "pos = (tx, ty, tz)" by (cases pos) auto
  obtain x y z where p: "p = (x, y, z)" by (cases p) auto
  obtain a b c where l: "spec_linear (sx, sy, sz) xd yd zd (x, y, z) = (a, b, c)"
    by (cases "spec_linear (sx, sy, sz) xd yd zd (x, y, z)") auto
  show ?thesis
    using l by (simp add: sc pos p modelView_apply)
qed

lemma SetTransformations_uniform:
  "m_pShaderManager s = Some sh \<Longrightarrow>
   uniform_of (SetTransformations sc xd yd zd pos s) g_ModelName
     = Some (Mat4Value (modelView sc xd yd zd pos))"
  by (simp add: SetTransformations_def uniform_of_def uniform_def setMat4Value_def)

text \<open>
  C3. With a shader manager attached, \<^verbatim>\<open>SetTransformations\<close> leaves in the model-matrix
  uniform a matrix that acts as the composition the spec fixes: it sends every local point
  to the point obtained by scaling, then rotating about X, about Y and about Z by the
  angles converted from degrees to radians, then translating; and it sends every
  direction to the same without the translation. The two together determine the matrix.
  Nothing is assumed of the scale, the angles or the position: zero and negative scale
  factors pass through.
\<close>

theorem SetTransformations_composition_order:
  assumes "m_pShaderManager s = Some sh"
  shows "uniform_of (SetTransformations sc xd yd zd pos s) g_ModelName
           = Some (Mat4Value (modelView sc xd yd zd pos))
       \<and> mat4_mul_vec4 (modelView sc xd yd zd pos) (as_point p)
           = as_point (spec_model sc xd yd zd pos p)
       \<and> mat4_mul_vec4 (modelView sc xd yd zd pos) (as_direction p)
           = as_direction (spec_linear sc xd yd zd p)"
  using SetTransformations_uniform [OF assms] modelView_point modelView_direction by simp

theorem SetTransformations_composition_order_witness:
  "m_pShaderManager (example_scene (Some [])) = Some []
   \<and> uniform_of (SetTransformations (- 2, 0, 3) 180 0 90 (1, 2, 3) (example_scene (Some [])))
        g_ModelName = Some (Mat4Value (modelView (- 2, 0, 3) 180 0 90 (1, 2, 3)))
   \<and> mat4_mul_vec4 (modelView (- 2, 0, 3) 180 0 90 (1, 2, 3)) (as_point (1, 1, 1)) = (1, 0, 0, 1)
   \<and> mat4_mul_vec4 (modelView (- 2, 0, 3) 180 0 90 (1, 2, 3)) (as_direction (1, 1, 1))
        = (0, - 2, - 3, 0)"
proof -
  have h: "m_pShaderManager (example_scene (Some [])) = Some []"
    by (simp add: example_scene_def)
  have p: "spec_model (- 2, 0, 3) 180 0 90 (1, 2, 3) (1, 1, 1) = (1, 0, 0)"
    by (simp add: spec_model_def spec_radians_def)
  have d: "spec_linear (- 2, 0, 3) 180 0 90 (1, 1, 1) = (0, - 2, - 3)"
    by (simp add: spec_linear_def spec_radians_def)
  show ?thesis
    using h SetTransformations_composition_order
              [OF h, of "(- 2, 0, 3)" 180 0 90 "(1, 2, 3)" "(1, 1, 1)"]
    by (simp add: p d)
qed

text \<open>
  C4. For scale (2,1,1), rotation (0,90,0) degrees and translation (0,0,5), the model
  matrix \<^verbatim>\<open>SetTransformations\<close> pushes maps the local point (1,0,0) to the world point
  (0,0,3): the scale gives (2,0,0), GLM's rotation by +90 degrees about Y turns +X into
  -Z, giving (0,0,-2), and the translation gives (0,0,3). The image is 4 away from
  (0,0,7) and 2 away from (0,0,5).
\<close>

theorem SetTransformations_example_point:
  assumes "m_pShaderManager s = Some sh"
  shows "uniform_of (SetTransformations (2, 1, 1) 0 90 0 (0, 0, 5) s) g_ModelName
           = Some (Mat4Value (modelView (2, 1, 1) 0 90 0 (0, 0, 5)))
       \<and> mat4_mul_vec4 (modelView (2, 1, 1) 0 90 0 (0, 0, 5)) (as_point (1, 0, 0))
           = as_point (0, 0, 3)"
proof -
  have "spec_model (2, 1, 1) 0 90 0 (0, 0, 5) (1, 0, 0) = (0, 0, 3)"
    by (simp add: spec_model_def spec_radians_def)
  then have "mat4_mul_vec4 (modelView (2, 1, 1) 0 90 0 (0, 0, 5)) (as_point (1, 0, 0))
           = as_point (0, 0, 3)"
    using modelView_point [of "(2, 1, 1)" 0 90 0 "(0, 0, 5)" "(1, 0, 0)"] by simp
  then show ?thesis
    using SetTransformations_uniform [OF assms] by blast
qed

theorem SetTransformations_example_point_witness:
  "m_pShaderManager (example_scene (Some [])) = Some []
   \<and> uniform_of (SetTransformations (2, 1, 1) 0 90 0 (0, 0, 5) (example_scene (Some [])))
        g_ModelName = Some (Mat4Value (modelView (2, 1, 1) 0 90 0 (0, 0, 5)))
   \<and> mat4_mul_vec4 (modelView (2, 1, 1) 0 90 0 (0, 0, 5)) (1, 0, 0, 1) = (0, 0, 3, 1)"
proof -
  have h: "m_pShaderManager (example_scene (Some [])) = Some []"
    by (simp add: example_scene_def)
  show ?thesis
    using h SetTransformations_example_point [OF h] by simp
qed

theorem SetTransformations_example_point_counterexample:
  "uniform_of (SetTransformations (2, 1, 1) 0 90 0 (0, 0, 5) (example_scene (Some [])))
        g_ModelName = Some (Mat4Value (modelView (2, 1, 1) 0 90 0 (0, 0, 5)))
   \<and> \<not> within_tolerance 1
          (mat4_mul_vec4 (modelView (2, 1, 1) 0 90 0 (0, 0, 5)) (as_point (1, 0, 0)))
          (as_point (0, 0, 7))
   \<and> \<not> within_tolerance 1
          (mat4_mul_vec4 (modelView (2, 1, 1) 0 90 0 (0, 0, 5)) (as_point (1, 0, 0)))
          (as_point (0, 0, 5))"
proof -
  have h: "m_pShaderManager (example_scene (Some [])) = Some []"
    by (simp add: example_scene_def)
  have "spec_model (2, 1, 1) 0 90 0 (0, 0, 5) (1, 0, 0) = (0, 0, 3)"
    by (simp add: spec_model_def spec_radians_def)
  then have "mat4_mul_vec4 (modelView (2, 1, 1) 0 90 0 (0, 0, 5)) (as_point (1, 0, 0))
           = (0, 0, 3, 1)"
    using modelView_point [of "(2, 1, 1)" 0 90 0 "(0, 0, 5)" "(1, 0, 0)"] by simp
  then show ?thesis
    using SetTransformations_uniform [OF h] by simp
qed

section \<open>Render-state dispatcher\<close>

lemma FindTextureSlot_loop_same_registry:
  "m_textureIDs s' = m_textureIDs s \<Longrightarrow> m_loadedTextures s' = m_loadedTextures s \<Longrightarrow>
   FindTextureSlot_loop tg s' slot index bFound = FindTextureSlot_loop tg s slot index bFound"
proof (induction tg s slot index bFound rule: FindTextureSlot_loop.induct)
  case (1 tg s textureSlot index bFound)
  note L = FindTextureSlot_loop.simps [of tg s' textureSlot index bFound]
  note R = FindTextureSlot_loop.simps [of tg s textureSlot index bFound]
  show ?case
    by (subst L, subst R) (use 1 in simp)
qed

lemma FindTextureSlot_same_registry:
  "m_textureIDs s' = m_textureIDs s \<Longrightarrow> m_loadedTextures s' = m_loadedTextures s \<Longrightarrow>
   FindTextureSlot tg s' = FindTextureSlot tg s"
  unfolding FindTextureSlot_def by (rule FindTextureSlot_loop_same_registry)

lemma FindTextureSlot_loop_total:
  "0 \<le> index \<Longrightarrow> nat (m_loadedTextures s) \<le> length (m_textureIDs s) \<Longrightarrow>
   \<exists>k. FindTextureSlot_loop tg s slot index bFound = Inr k"
proof (induction tg s slot index bFound rule: FindTextureSlot_loop.induct)
  case (1 tg s textureSlot index bFound)
  show ?case
  proof (cases "index < m_loadedTextures s \<and> bFound = False")
    case True
    then have inb: "0 \<le> index \<and> nat index < length (m_textureIDs s)"
      using "1.prems" by linarith
    show ?thesis
    proof (cases "tag (m_textureIDs s ! nat index) = tg")
      case hit: True
      have "\<exists>k. FindTextureSlot_loop tg s index index True = Inr k"
        using "1.IH"(1) True inb hit "1.prems" by simp
      then show ?thesis using True inb hit
        by (subst FindTextureSlot_loop.simps) simp
    next
      case miss: False
      have "\<exists>k. FindTextureSlot_loop tg s textureSlot (index + 1) bFound = Inr k"
        using "1.IH"(2) True inb miss "1.prems" by simp
      then show ?thesis using True inb miss
        by (subst FindTextureSlot_loop.simps) simp
    qed
  next
    case False
    then show ?thesis by (subst FindTextureSlot_loop.simps) auto
  qed
qed

lemma FindTextureSlot_total:
  "registry_ok s \<Longrightarrow> \<exists>k. FindTextureSlot tg s = Inr k"
  unfolding FindTextureSlot_def registry_ok_def
  by (intro FindTextureSlot_loop_total) simp_all

lemma uniform_of_shader:
  "m_pShaderManager s = Some sh \<Longrightarrow> uniform_of s name = uniform sh name"
  by (simp add: uniform_of_def)

lemma SetTransformations_Some:
  "m_pShaderManager s = Some sh \<Longrightarrow>
   SetTransformations sc xd yd zd pos s =
     s\<lparr>m_pShaderManager := Some ((g_ModelName, Mat4Value (modelView sc xd yd zd pos)) # sh)\<rparr>"
  by (simp add: SetTransformations_def setMat4Value_def)

lemma SetShaderColor_Some:
  "m_pShaderManager s = Some sh \<Longrightarrow>
   SetShaderColor r g b a s =
     s\<lparr>m_pShaderManager := Some ((g_ColorValueName, Vec4Value (r, g, b, a))
                                  # (g_UseTextureName, IntValue 0) # sh)\<rparr>"
  by (simp add: SetShaderColor_def setVec4Value_def setIntValue_def)

lemma SetTextureUVScale_Some:
  "m_pShaderManager s = Some sh \<Longrightarrow>
   SetTextureUVScale u v s = s\<lparr>m_pShaderManager := Some ((''UVscale'', Vec2Value (u, v)) # sh)\<rparr>"
  by (simp add: SetTextureUVScale_def setVec2Value_def)

lemma SetShaderTexture_Some:
  "m_pShaderManager s = Some sh \<Longrightarrow> FindTextureSlot tg s = Inr k \<Longrightarrow>
   SetShaderTexture tg s =
     Inr (s\<lparr>m_pShaderManager := Some ((g_TextureValueName, Sampler2DValue k)
                                       # (g_UseTextureName, IntValue 1) # sh)\<rparr>)"
  by (simp add: SetShaderTexture_def setSampler2DValue_def setIntValue_def bind_fault_def)

lemma SetShaderMaterial_Some:
  "m_pShaderManager s = Some sh \<Longrightarrow>
   SetShaderMaterial local mt s =
     Inr (if m_objectMaterials s = [] then s
          else s\<lparr>m_pShaderManager := Some
                 ((''material.shininess'', FloatValue (shininess (snd (FindMaterial mt local s))))
                  # (''material.specularColor'',
                       Vec3Value (specularColor (snd (FindMaterial mt local s))))
                  # (''material.diffuseColor'',
                       Vec3Value (diffuseColor (snd (FindMaterial mt local s)))) # sh)\<rparr>)"
  by (simp add: SetShaderMaterial_def FindMaterial_def setFloatValue_def setVec3Value_def)

lemma SetShaderColor_frame:
  assumes "m_pShaderManager s = Some sh"
  shows "uniform_of (SetShaderColor r g b a s) g_ColorValueName = Some (Vec4Value (r, g, b, a))"
    and "uniform_of (SetShaderColor r g b a s) g_UseTextureName = Some (IntValue 0)"
    and "name \<noteq> g_ColorValueName \<and> name \<noteq> g_UseTextureName \<Longrightarrow>
         uniform_of (SetShaderColor r g b a s) name = uniform_of s name"
  using assms
  by (simp_all add: SetShaderColor_Some uniform_of_def uniform_def
        g_ColorValueName_def g_UseTextureName_def)

lemma SetTextureUVScale_frame:
  assumes "m_pShaderManager s = Some sh"
  shows "uniform_of (SetTextureUVScale u v s) ''UVscale'' = Some (Vec2Value (u, v))"
    and "name \<noteq> ''UVscale'' \<Longrightarrow> uniform_of (SetTextureUVScale u v s) name = uniform_of s name"
  using assms
  by (simp_all add: SetTextureUVScale_Some uniform_of_def uniform_def)

lemma SetShaderTexture_frame:
  assumes sh: "m_pShaderManager s = Some sh" and ok: "registry_ok s"
  shows "\<exists>s1 slot. SetShaderTexture tg s = Inr s1 \<and> FindTextureSlot tg s = Inr slot
           \<and> uniform_of s1 g_TextureValueName = Some (Sampler2DValue slot)
           \<and> uniform_of s1 g_UseTextureName = Some (IntValue 1)
           \<and> (\<forall>name. name \<noteq> g_TextureValueName \<and> name \<noteq> g_UseTextureName \<longrightarrow>
                 uniform_of s1 name = uniform_of s name)"
proof -
  from FindTextureSlot_total [OF ok] obtain k where k: "FindTextureSlot tg s = Inr k" by blast
  show ?thesis
    using SetShaderTexture_Some [OF sh k] k sh
    by (simp add: uniform_of_def uniform_def g_TextureValueName_def g_UseTextureName_def)
qed

lemma SetShaderMaterial_frame:
  assumes sh: "m_pShaderManager s = Some sh"
  shows "\<exists>s2. SetShaderMaterial local mt s = Inr s2
           \<and> (\<forall>name. name \<noteq> ''material.diffuseColor'' \<and> name \<noteq> ''material.specularColor''
                    \<and> name \<noteq> ''material.shininess'' \<longrightarrow>
                 uniform_of s2 name = uniform_of s name)"
  using sh by (simp add: SetShaderMaterial_Some [OF sh] uniform_of_def uniform_def)

lemma FindTextureSlot_shader_update [simp]:
  "FindTextureSlot tg (s\<lparr>m_pShaderManager := x\<rparr>) = FindTextureSlot tg s"
  by (rule FindTextureSlot_same_registry) simp_all

lemma FindTextureSlot_drawn_update [simp]:
  "FindTextureSlot tg (s\<lparr>drawn := x\<rparr>) = FindTextureSlot tg s"
  by (rule FindTextureSlot_same_registry) simp_all

lemma FindMaterial_shader_update [simp]:
  "FindMaterial mt local (s\<lparr>m_pShaderManager := x\<rparr>) = FindMaterial mt local s"
  by (simp add: FindMaterial_def)

lemma FindMaterial_drawn_update [simp]:
  "FindMaterial mt local (s\<lparr>drawn := x\<rparr>) = FindMaterial mt local s"
  by (simp add: FindMaterial_def)

lemma SetShaderMaterial_unfold:
  "SetShaderMaterial local mt s =
     (if m_objectMaterials s = [] then Inr s
      else case m_pShaderManager s of
             None \<Rightarrow> Inl NullDereference
           | Some sh \<Rightarrow>
               Inr (s\<lparr>m_pShaderManager := Some
                 ((''material.shininess'', FloatValue (shininess (snd (FindMaterial mt local s))))
                  # (''material.specularColor'',
                       Vec3Value (specularColor (snd (FindMaterial mt local s))))
                  # (''material.diffuseColor'',
                       Vec3Value (diffuseColor (snd (FindMaterial mt local s)))) # sh)\<rparr>))"
  by (simp add: SetShaderMaterial_def FindMaterial_def setFloatValue_def setVec3Value_def
           split: option.splits)

lemma SetShaderTexture_unfold:
  "SetShaderTexture tg s =
     (case m_pShaderManager s of
        None \<Rightarrow> Inr s
      | Some sh \<Rightarrow>
          bind_fault (FindTextureSlot tg s)
            (\<lambda>k. Inr (s\<lparr>m_pShaderManager := Some ((g_TextureValueName, Sampler2DValue k)
                                       # (g_UseTextureName, IntValue 1) # sh)\<rparr>)))"
  by (simp add: SetShaderTexture_def setSampler2DValue_def setIntValue_def split: option.splits)

lemma bind_fault_Inr [simp]: "bind_fault (Inr x) f = f x"
  by (simp add: bind_fault_def)

lemma bind_fault_Inl [simp]: "bind_fault (Inl e) f = Inl e"
  by (simp add: bind_fault_def)

lemmas setter_unfold =
  ok_def SetTransformations_def SetShaderColor_def SetTextureUVScale_def DrawMesh_def
  SetShaderTexture_unfold SetShaderMaterial_unfold
  setMat4Value_def setVec4Value_def setVec2Value_def setIntValue_def

lemmas uniform_names =
  g_ModelName_def g_ColorValueName_def g_TextureValueName_def g_UseTextureName_def
  g_UseLightingName_def

lemma inheritance_scenario:
  assumes sh: "m_pShaderManager s = Some sh" and ok: "registry_ok s"
  shows "\<exists>s3 shB slot.
           run_steps [ok (SetTransformations scA xA yA zA posA),
                      SetShaderTexture ''Floor'',
                      ok (SetTextureUVScale 2.5 2.5),
                      ok (DrawMesh mA),
                      ok (SetTransformations scB xB yB zB posB),
                      SetShaderMaterial local ''Wood'',
                      ok (DrawMesh mB)] s = Inr s3
         \<and> last (drawn s3) = (mB, Some shB)
         \<and> FindTextureSlot ''Floor'' s = Inr slot
         \<and> uniform shB g_UseTextureName = Some (IntValue 1)
         \<and> uniform shB g_TextureValueName = Some (Sampler2DValue slot)
         \<and> uniform shB ''UVscale'' = Some (Vec2Value (2.5, 2.5))"
proof -
  from FindTextureSlot_total [OF ok] obtain k where k: "FindTextureSlot ''Floor'' s = Inr k"
    by blast
  show ?thesis
    using sh k by (simp add: setter_unfold uniform_names uniform_def)
qed

lemma uniform_append_other:
  "name \<notin> fst ` set ws \<Longrightarrow> uniform (ws @ sh) name = uniform sh name"
  by (simp add: uniform_def map_of_append map_add_def map_of_eq_None_iff [THEN iffD2])

lemma SetTransformations_frame:
  assumes "m_pShaderManager s = Some sh"
  shows "uniform_of (SetTransformations sc xd yd zd pos s) g_ModelName
           = Some (Mat4Value (modelView sc xd yd zd pos))"
    and "name \<noteq> g_ModelName \<Longrightarrow>
         uniform_of (SetTransformations sc xd yd zd pos s) name = uniform_of s name"
  using assms
  by (simp_all add: SetTransformations_Some uniform_of_def uniform_def)

lemma DrawMesh_frame:
  "uniform_of (DrawMesh m s) name = uniform_of s name"
  "drawn (DrawMesh m s) = drawn s @ [(m, m_pShaderManager s)]"
  by (simp_all add: DrawMesh_def uniform_of_def)

lemma call_setter_effect:
  assumes sh: "m_pShaderManager s = Some sh" and ok: "registry_ok s"
  shows "\<exists>s' ws. call_setter local c s = Inr s'
           \<and> m_pShaderManager s' = Some (ws @ sh)
           \<and> fst ` set ws \<subseteq> set (uniforms_set c)
           \<and> m_textureIDs s' = m_textureIDs s
           \<and> m_loadedTextures s' = m_loadedTextures s
           \<and> m_objectMaterials s' = m_objectMaterials s
           \<and> drawn s' = drawn s"
proof (cases c)
  case (Transformations sc xd yd zd pos)
  show ?thesis
    unfolding Transformations
    by (rule exI [of _ "SetTransformations sc xd yd zd pos s"],
        rule exI [of _ "[(g_ModelName, Mat4Value (modelView sc xd yd zd pos))]"])
       (simp add: ok_def SetTransformations_Some [OF sh])
next
  case (ShaderColor r g b a)
  show ?thesis
    unfolding ShaderColor
    by (rule exI [of _ "SetShaderColor r g b a s"],
        rule exI [of _ "[(g_ColorValueName, Vec4Value (r, g, b, a)),
                         (g_UseTextureName, IntValue 0)]"])
       (simp add: ok_def SetShaderColor_Some [OF sh])
next
  case (ShaderTexture tg)
  from FindTextureSlot_total [OF ok] obtain k where k: "FindTextureSlot tg s = Inr k" by blast
  show ?thesis
    unfolding ShaderTexture
    by (rule exI [of _ "s\<lparr>m_pShaderManager := Some ((g_TextureValueName, Sampler2DValue k)
                                       # (g_UseTextureName, IntValue 1) # sh)\<rparr>"],
        rule exI [of _ "[(g_TextureValueName, Sampler2DValue k),
                         (g_UseTextureName, IntValue 1)]"])
       (simp add: SetShaderTexture_Some [OF sh k])
next
  case (TextureUVScale u v)
  show ?thesis
    unfolding TextureUVScale
    by (rule exI [of _ "SetTextureUVScale u v s"],
        rule exI [of _ "[(''UVscale'', Vec2Value (u, v))]"])
       (simp add: ok_def SetTextureUVScale_Some [OF sh])
next
  case (ShaderMaterial mt)
  show ?thesis
  proof (cases "m_objectMaterials s = []")
    case True
    show ?thesis
      unfolding ShaderMaterial
      by (rule exI [of _ s], rule exI [of _ "[]"])
         (simp add: SetShaderMaterial_Some [OF sh] True sh)
  next
    case False
    let ?m = "snd (FindMaterial mt local s)"
    show ?thesis
      unfolding ShaderMaterial
      by (rule exI [of _ "s\<lparr>m_pShaderManager := Some
                 ((''material.shininess'', FloatValue (shininess ?m))
                  # (''material.specularColor'', Vec3Value (specularColor ?m))
                  # (''material.diffuseColor'', Vec3Value (diffuseColor ?m)) # sh)\<rparr>"],
          rule exI [of _ "[(''material.shininess'', FloatValue (shininess ?m)),
                           (''material.specularColor'', Vec3Value (specularColor ?m)),
                           (''material.diffuseColor'', Vec3Value (diffuseColor ?m))]"])
         (simp add: SetShaderMaterial_Some [OF sh] False)
  qed
qed

lemma call_setters_effect:
  assumes "m_pShaderManager s = Some sh" and "registry_ok s"
  shows "\<exists>s' ws. run_steps (map (call_setter local) calls) s = Inr s'
           \<and> m_pShaderManager s' = Some (ws @ sh)
           \<and> fst ` set ws \<subseteq> set (concat (map uniforms_set calls))
           \<and> registry_ok s'
           \<and> m_textureIDs s' = m_textureIDs s
           \<and> m_loadedTextures s' = m_loadedTextures s
           \<and> m_objectMaterials s' = m_objectMaterials s
           \<and> drawn s' = drawn s"
  using assms
proof (induction calls arbitrary: s sh)
  case Nil
  show ?case
    by (rule exI [of _ s], rule exI [of _ "[]"]) (simp add: Nil)
next
  case (Cons c calls)
  from call_setter_effect [OF Cons.prems, of local c]
  obtain s1 ws1 where s1: "call_setter local c s = Inr s1"
    "m_pShaderManager s1 = Some (ws1 @ sh)" "fst ` set ws1 \<subseteq> set (uniforms_set c)"
    "m_textureIDs s1 = m_textureIDs s" "m_loadedTextures s1 = m_loadedTextures s"
    "m_objectMaterials s1 = m_objectMaterials s" "drawn s1 = drawn s" by blast
  have ok1: "registry_ok s1" using Cons.prems(2) s1(4,5) by (simp add: registry_ok_def)
  from Cons.IH [OF s1(2) ok1]
  obtain s' ws where s': "run_steps (map (call_setter local) calls) s1 = Inr s'"
    "m_pShaderManager s' = Some (ws @ ws1 @ sh)"
    "fst ` set ws \<subseteq> set (concat (map uniforms_set calls))"
    "registry_ok s'"
    "m_textureIDs s' = m_textureIDs s1" "m_loadedTextures s' = m_loadedTextures s1"
    "m_objectMaterials s' = m_objectMaterials s1" "drawn s' = drawn s1" by blast
  have sub: "fst ` set (ws @ ws1) \<subseteq> set (concat (map uniforms_set (c # calls)))"
    using s1(3) s'(3) by auto
  show ?case
    by (rule exI [of _ s'], rule exI [of _ "ws @ ws1"])
       (use s1 s' sub in simp)
qed

lemma draw_step_inherits:
  assumes sh: "m_pShaderManager s = Some sh" and ok: "registry_ok s"
  shows "\<exists>s' shD. run_steps (draw_step local calls m) s = Inr s'
           \<and> drawn s' = drawn s @ [(m, Some shD)]
           \<and> m_pShaderManager s' = Some shD
           \<and> registry_ok s'
           \<and> (\<forall>name. name \<notin> set (concat (map uniforms_set calls)) \<longrightarrow>
                 uniform shD name = uniform sh name)"
proof -
  from call_setters_effect [OF sh ok, of local calls]
  obtain s1 ws where s1: "run_steps (map (call_setter local) calls) s = Inr s1"
    "m_pShaderManager s1 = Some (ws @ sh)"
    "fst ` set ws \<subseteq> set (concat (map uniforms_set calls))"
    "registry_ok s1" "drawn s1 = drawn s" by blast
  have run: "run_steps (draw_step local calls m) s = Inr (DrawMesh m s1)"
    by (simp add: draw_step_def run_steps_append s1(1) ok_def)
  have inh: "\<forall>name. name \<notin> set (concat (map uniforms_set calls)) \<longrightarrow>
                 uniform (ws @ sh) name = uniform sh name"
    using s1(3) by (auto intro: uniform_append_other)
  have ok': "registry_ok (DrawMesh m s1)"
    using s1(4) by (simp add: DrawMesh_def registry_ok_def)
  show ?thesis
    by (rule exI [of _ "DrawMesh m s1"], rule exI [of _ "ws @ sh"])
       (use run inh ok' s1 in \<open>simp add: DrawMesh_def\<close>)
qed

lemma two_draw_steps_inherit:
  assumes sh: "m_pShaderManager s = Some sh" and ok: "registry_ok s"
  shows "\<exists>s' shA shB.
           run_steps (draw_step local callsA mA @ draw_step local callsB mB) s = Inr s'
         \<and> drawn s' = drawn s @ [(mA, Some shA), (mB, Some shB)]
         \<and> (\<forall>name. name \<notin> set (concat (map uniforms_set callsB)) \<longrightarrow>
               uniform shB name = uniform shA name)"
proof -
  from draw_step_inherits [OF sh ok, of local callsA mA]
  obtain sA shA where a: "run_steps (draw_step local callsA mA) s = Inr sA"
    "drawn sA = drawn s @ [(mA, Some shA)]" "m_pShaderManager sA = Some shA" "registry_ok sA"
    by blast
  from draw_step_inherits [OF a(3) a(4), of local callsB mB]
  obtain sB shB where b: "run_steps (draw_step local callsB mB) sA = Inr sB"
    "drawn sB = drawn sA @ [(mB, Some shB)]"
    "\<forall>name. name \<notin> set (concat (map uniforms_set callsB)) \<longrightarrow>
         uniform shB name = uniform shA name" by blast
  show ?thesis
    by (rule exI [of _ sB], rule exI [of _ shA], rule exI [of _ shB])
       (use a b in \<open>simp add: run_steps_append\<close>)
qed

text \<open>
  C2. With a shader manager attached and the registry within its array, every setter
  writes its own uniforms and no other: \<^verbatim>\<open>SetShaderColor\<close> the colour vector and the
  use-texture flag, \<^verbatim>\<open>SetShaderTexture\<close> the sampler slot and the use-texture flag,
  \<^verbatim>\<open>SetTextureUVScale\<close> the UV vector, \<^verbatim>\<open>SetShaderMaterial\<close> at most the three
  material fields, \<^verbatim>\<open>SetTransformations\<close> the model matrix; every other uniform holds
  the value it held before the call, and a draw call writes none. Hence, for every draw
  step (any sequence of setter calls, then a draw), a uniform that no call of the step
  sets holds at the step's draw call the value it held when the step began; and of two
  steps run one after the other, the second draws every uniform it does not set with the
  value the first drew it with. In particular a draw step that sets only a material,
  after a step that set the texture ``Floor'' and the UV scale (2.5, 2.5), is drawn with
  the use-texture flag 1, the slot of ``Floor'' and the UV scale (2.5, 2.5).
\<close>

theorem render_state_inherited:
  assumes sh: "m_pShaderManager s = Some sh" and ok: "registry_ok s"
  shows
    "(uniform_of (SetShaderColor r g b a s) g_ColorValueName = Some (Vec4Value (r, g, b, a))
       \<and> uniform_of (SetShaderColor r g b a s) g_UseTextureName = Some (IntValue 0)
       \<and> (\<forall>name. name \<noteq> g_ColorValueName \<and> name \<noteq> g_UseTextureName \<longrightarrow>
              uniform_of (SetShaderColor r g b a s) name = uniform_of s name))
     \<and> (\<exists>s1 slot. SetShaderTexture tg s = Inr s1 \<and> FindTextureSlot tg s = Inr slot
           \<and> uniform_of s1 g_TextureValueName = Some (Sampler2DValue slot)
           \<and> uniform_of s1 g_UseTextureName = Some (IntValue 1)
           \<and> (\<forall>name. name \<noteq> g_TextureValueName \<and> name \<noteq> g_UseTextureName \<longrightarrow>
                 uniform_of s1 name = uniform_of s name))
     \<and> (uniform_of (SetTextureUVScale u v s) ''UVscale'' = Some (Vec2Value (u, v))
         \<and> (\<forall>name. name \<noteq> ''UVscale'' \<longrightarrow>
                uniform_of (SetTextureUVScale u v s) name = uniform_of s name))
     \<and> (\<exists>s2. SetShaderMaterial local mt s = Inr s2
           \<and> (\<forall>name. name \<noteq> ''material.diffuseColor'' \<and> name \<noteq> ''material.specularColor''
                    \<and> name \<noteq> ''material.shininess'' \<longrightarrow>
                 uniform_of s2 name = uniform_of s name))
     \<and> (\<exists>s3 shB slot.
           run_steps [ok (SetTransformations scA xA yA zA posA),
                      SetShaderTexture ''Floor'',
                      ok (SetTextureUVScale 2.5 2.5),
                      ok (DrawMesh mA),
                      ok (SetTransformations scB xB yB zB posB),
                      SetShaderMaterial local ''Wood'',
                      ok (DrawMesh mB)] s = Inr s3
         \<and> last (drawn s3) = (mB, Some shB)
         \<and> FindTextureSlot ''Floor'' s = Inr slot
         \<and> uniform shB g_UseTextureName = Some (IntValue 1)
         \<and> uniform shB g_TextureValueName = Some (Sampler2DValue slot)
         \<and> uniform shB ''UVscale'' = Some (Vec2Value (2.5, 2.5)))
     \<and> (uniform_of (SetTransformations sc xd yd zd pos s) g_ModelName
           = Some (Mat4Value (modelView sc xd yd zd pos))
         \<and> (\<forall>name. name \<noteq> g_ModelName \<longrightarrow>
                uniform_of (SetTransformations sc xd yd zd pos s) name = uniform_of s name))
     \<and> (drawn (DrawMesh m s) = drawn s @ [(m, Some sh)]
         \<and> (\<forall>name. uniform_of (DrawMesh m s) name = uniform_of s name))
     \<and> (\<exists>s' shD. run_steps (draw_step local calls m) s = Inr s'
           \<and> drawn s' = drawn s @ [(m, Some shD)]
           \<and> m_pShaderManager s' = Some shD
           \<and> registry_ok s'
           \<and> (\<forall>name. name \<notin> set (concat (map uniforms_set calls)) \<longrightarrow>
                 uniform shD name = uniform sh name))
     \<and> (\<exists>s' shP shQ.
           run_steps (draw_step local callsP meshP @ draw_step local callsQ meshQ) s = Inr s'
         \<and> drawn s' = drawn s @ [(meshP, Some shP), (meshQ, Some shQ)]
         \<and> (\<forall>name. name \<notin> set (concat (map uniforms_set callsQ)) \<longrightarrow>
               uniform shQ name = uniform shP name))"
proof (intro conjI)
  show "uniform_of (SetShaderColor r g b a s) g_ColorValueName = Some (Vec4Value (r, g, b, a))"
    by (rule SetShaderColor_frame(1) [OF sh])
  show "uniform_of (SetShaderColor r g b a s) g_UseTextureName = Some (IntValue 0)"
    by (rule SetShaderColor_frame(2) [OF sh])
  show "\<forall>name. name \<noteq> g_ColorValueName \<and> name \<noteq> g_UseTextureName \<longrightarrow>
              uniform_of (SetShaderColor r g b a s) name = uniform_of s name"
    using SetShaderColor_frame(3) [OF sh] by blast
  show "\<exists>s1 slot. SetShaderTexture tg s = Inr s1 \<and> FindTextureSlot tg s = Inr slot
           \<and> uniform_of s1 g_TextureValueName = Some (Sampler2DValue slot)
           \<and> uniform_of s1 g_UseTextureName = Some (IntValue 1)
           \<and> (\<forall>name. name \<noteq> g_TextureValueName \<and> name \<noteq> g_UseTextureName \<longrightarrow>
                 uniform_of s1 name = uniform_of s name)"
    by (rule SetShaderTexture_frame [OF sh ok])
  show "uniform_of (SetTextureUVScale u v s) ''UVscale'' = Some (Vec2Value (u, v))"
    by (rule SetTextureUVScale_frame(1) [OF sh])
  show "\<forall>name. name \<noteq> ''UVscale'' \<longrightarrow>
                uniform_of (SetTextureUVScale u v s) name = uniform_of s name"
    using SetTextureUVScale_frame(2) [OF sh] by blast
  show "\<exists>s2. SetShaderMaterial local mt s = Inr s2
           \<and> (\<forall>name. name \<noteq> ''material.diffuseColor'' \<and> name \<noteq> ''material.specularColor''
                    \<and> name \<noteq> ''material.shininess'' \<longrightarrow>
                 uniform_of s2 name = uniform_of s name)"
    by (rule SetShaderMaterial_frame [OF sh])
  show "\<exists>s3 shB slot.
           run_steps [ok (SetTransformations scA xA yA zA posA),
                      SetShaderTexture ''Floor'',
                      ok (SetTextureUVScale 2.5 2.5),
                      ok (DrawMesh mA),
                      ok (SetTransformations scB xB yB zB posB),
                      SetShaderMaterial local ''Wood'',
                      ok (DrawMesh mB)] s = Inr s3
         \<and> last (drawn s3) = (mB, Some shB)
         \<and> FindTextureSlot ''Floor'' s = Inr slot
         \<and> uniform shB g_UseTextureName = Some (IntValue 1)
         \<and> uniform shB g_TextureValueName = Some (Sampler2DValue slot)
         \<and> uniform shB ''UVscale'' = Some (Vec2Value (2.5, 2.5))"
    by (rule inheritance_scenario [OF sh ok])
  show "uniform_of (SetTransformations sc xd yd zd pos s) g_ModelName
           = Some (Mat4Value (modelView sc xd yd zd pos))"
    by (rule SetTransformations_frame(1) [OF sh])
  show "\<forall>name. name \<noteq> g_ModelName \<longrightarrow>
                uniform_of (SetTransformations sc xd yd zd pos s) name = uniform_of s name"
    using SetTransformations_frame(2) [OF sh] by blast
  show "drawn (DrawMesh m s) = drawn s @ [(m, Some sh)]"
    by (simp add: DrawMesh_frame(2) sh)
  show "\<forall>name. uniform_of (DrawMesh m s) name = uniform_of s name"
    by (simp add: DrawMesh_frame(1))
  show "\<exists>s' shD. run_steps (draw_step local calls m) s = Inr s'
           \<and> drawn s' = drawn s @ [(m, Some shD)]
           \<and> m_pShaderManager s' = Some shD
           \<and> registry_ok s'
           \<and> (\<forall>name. name \<notin> set (concat (map uniforms_set calls)) \<longrightarrow>
                 uniform shD name = uniform sh name)"
    by (rule draw_step_inherits [OF sh ok])
  show "\<exists>s' shP shQ.
           run_steps (draw_step local callsP meshP @ draw_step local callsQ meshQ) s = Inr s'
         \<and> drawn s' = drawn s @ [(meshP, Some shP), (meshQ, Some shQ)]
         \<and> (\<forall>name. name \<notin> set (concat (map uniforms_set callsQ)) \<longrightarrow>
               uniform shQ name = uniform shP name)"
    by (rule two_draw_steps_inherit [OF sh ok])
qed

lemma example_loaded_shader: "m_pShaderManager example_loaded = Some []"
  by (simp add: example_loaded_def)

lemma example_loaded_Floor: "FindTextureSlot ''Floor'' example_loaded = Inr 1"
  using lookup_hit(1) [OF example_loaded_ok, of 1 "''Floor''"]
  by (simp add: example_loaded_registered)

theorem render_state_inherited_witness:
  "m_pShaderManager example_loaded = Some [] \<and> registry_ok example_loaded
   \<and> uniform_of (SetShaderColor 1 0 0 1 (SetTextureUVScale 3 3 example_loaded)) ''UVscale''
        = Some (Vec2Value (3, 3))
   \<and> (\<exists>s3 shB.
         run_steps [ok (SetTransformations (20, 1, 10) 0 0 0 (0, 0, 0)),
                    SetShaderTexture ''Floor'',
                    ok (SetTextureUVScale 2.5 2.5),
                    ok (DrawMesh Plane),
                    ok (SetTransformations (19, 0.5, 10) 0 0 0 (0, 4, 0)),
                    SetShaderMaterial example_local ''Wood'',
                    ok (DrawMesh Box)] example_loaded = Inr s3
       \<and> last (drawn s3) = (Box, Some shB)
       \<and> uniform shB g_UseTextureName = Some (IntValue 1)
       \<and> uniform shB g_TextureValueName = Some (Sampler2DValue 1)
       \<and> uniform shB ''UVscale'' = Some (Vec2Value (2.5, 2.5)))
   \<and> (\<exists>s' shP shQ.
         run_steps (draw_step example_local
                      [Transformations (20, 1, 10) 0 0 0 (0, 0, 0), ShaderTexture ''Floor'',
                       TextureUVScale 2.5 2.5] Plane
                    @ draw_step example_local
                        [Transformations (19, 0.5, 10) 0 0 0 (0, 4, 0), ShaderMaterial ''Wood'']
                        Box) example_loaded = Inr s'
       \<and> drawn s' = [(Plane, Some shP), (Box, Some shQ)]
       \<and> uniform shQ ''UVscale'' = uniform shP ''UVscale''
       \<and> uniform shQ g_UseTextureName = uniform shP g_UseTextureName
       \<and> uniform shQ g_TextureValueName = uniform shP g_TextureValueName
       \<and> uniform shQ g_ColorValueName = uniform shP g_ColorValueName)"
proof -
  have uv: "m_pShaderManager (SetTextureUVScale 3 3 example_loaded)
              = Some [(''UVscale'', Vec2Value (3, 3))]"
    by (simp add: SetTextureUVScale_Some [OF example_loaded_shader])
  have okuv: "registry_ok (SetTextureUVScale 3 3 example_loaded)"
    using example_loaded_ok
    by (simp add: SetTextureUVScale_Some [OF example_loaded_shader] registry_ok_def)
  have "uniform_of (SetShaderColor 1 0 0 1 (SetTextureUVScale 3 3 example_loaded)) ''UVscale''
          = uniform_of (SetTextureUVScale 3 3 example_loaded) ''UVscale''"
    using render_state_inherited [OF uv okuv, of 1 0 0 1]
    by (simp add: g_ColorValueName_def g_UseTextureName_def)
  then have 1: "uniform_of (SetShaderColor 1 0 0 1 (SetTextureUVScale 3 3 example_loaded))
                  ''UVscale'' = Some (Vec2Value (3, 3))"
    using render_state_inherited [OF example_loaded_shader example_loaded_ok, of _ _ _ _ _ 3 3]
    by simp
  have 2: "\<exists>s3 shB.
         run_steps [ok (SetTransformations (20, 1, 10) 0 0 0 (0, 0, 0)),
                    SetShaderTexture ''Floor'',
                    ok (SetTextureUVScale 2.5 2.5),
                    ok (DrawMesh Plane),
                    ok (SetTransformations (19, 0.5, 10) 0 0 0 (0, 4, 0)),
                    SetShaderMaterial example_local ''Wood'',
                    ok (DrawMesh Box)] example_loaded = Inr s3
       \<and> last (drawn s3) = (Box, Some shB)
       \<and> uniform shB g_UseTextureName = Some (IntValue 1)
       \<and> uniform shB g_TextureValueName = Some (Sampler2DValue 1)
       \<and> uniform shB ''UVscale'' = Some (Vec2Value (2.5, 2.5))"
    using render_state_inherited [OF example_loaded_shader example_loaded_ok,
            where scA = "(20, 1, 10)" and xA = 0 and yA = 0 and zA = 0 and posA = "(0, 0, 0)"
              and mA = Plane and scB = "(19, 0.5, 10)" and xB = 0 and yB = 0 and zB = 0
              and posB = "(0, 4, 0)" and local = example_local and mB = Box]
      example_loaded_Floor
    by auto
  have d0: "drawn example_loaded = []" by (simp add: example_loaded_def)
  note two = render_state_inherited [OF example_loaded_shader example_loaded_ok,
         where local = example_local
           and callsP = "[Transformations (20, 1, 10) 0 0 0 (0, 0, 0), ShaderTexture ''Floor'',
                          TextureUVScale 2.5 2.5]"
           and meshP = Plane
           and callsQ = "[Transformations (19, 0.5, 10) 0 0 0 (0, 4, 0), ShaderMaterial ''Wood'']"
           and meshQ = Box,
         THEN conjunct2, THEN conjunct2, THEN conjunct2, THEN conjunct2,
         THEN conjunct2, THEN conjunct2, THEN conjunct2, THEN conjunct2]
  from two obtain s' shP shQ where q:
    "run_steps (draw_step example_local
                      [Transformations (20, 1, 10) 0 0 0 (0, 0, 0), ShaderTexture ''Floor'',
                       TextureUVScale 2.5 2.5] Plane
                    @ draw_step example_local
                        [Transformations (19, 0.5, 10) 0 0 0 (0, 4, 0), ShaderMaterial ''Wood'']
                        Box) example_loaded = Inr s'"
    "drawn s' = drawn example_loaded @ [(Plane, Some shP), (Box, Some shQ)]"
    "\<forall>name. name \<notin> set (concat (map uniforms_set
                 [Transformations (19, 0.5, 10) 0 0 0 (0, 4, 0), ShaderMaterial ''Wood''])) \<longrightarrow>
               uniform shQ name = uniform shP name"
    by blast
  have names: "uniform shQ ''UVscale'' = uniform shP ''UVscale''"
    "uniform shQ g_UseTextureName = uniform shP g_UseTextureName"
    "uniform shQ g_TextureValueName = uniform shP g_TextureValueName"
    "uniform shQ g_ColorValueName = uniform shP g_ColorValueName"
    using q(3) by (simp_all add: uniform_names)
  have 3: "\<exists>s' shP shQ.
         run_steps (draw_step example_local
                      [Transformations (20, 1, 10) 0 0 0 (0, 0, 0), ShaderTexture ''Floor'',
                       TextureUVScale 2.5 2.5] Plane
                    @ draw_step example_local
                        [Transformations (19, 0.5, 10) 0 0 0 (0, 4, 0), ShaderMaterial ''Wood'']
                        Box) example_loaded = Inr s'
       \<and> drawn s' = [(Plane, Some shP), (Box, Some shQ)]
       \<and> uniform shQ ''UVscale'' = uniform shP ''UVscale''
       \<and> uniform shQ g_UseTextureName = uniform shP g_UseTextureName
       \<and> uniform shQ g_TextureValueName = uniform shP g_TextureValueName
       \<and> uniform shQ g_ColorValueName = uniform shP g_ColorValueName"
    by (rule exI [of _ s'], rule exI [of _ shP], rule exI [of _ shQ])
       (use q(1,2) names d0 in simp)
  show ?thesis
    using example_loaded_shader example_loaded_ok 1 2 3 by blast
qed

section \<open>Null shader manager\<close>

lemma FindTextureSlot_loop_fault:
  "FindTextureSlot_loop tg s slot index bFound = Inl e \<Longrightarrow> e = OutOfBounds"
proof (induction tg s slot index bFound rule: FindTextureSlot_loop.induct)
  case (1 tg s textureSlot index bFound)
  from "1.prems" show ?case
    by (subst (asm) FindTextureSlot_loop.simps) (auto split: if_splits intro: "1.IH")
qed

lemma FindTextureSlot_fault: "FindTextureSlot tg s \<noteq> Inl NullDereference"
  using FindTextureSlot_loop_fault [of tg s "- 1" 0 False NullDereference]
  by (auto simp: FindTextureSlot_def)

lemma SetShaderTexture_no_null_fault:
  "m_pShaderManager s \<noteq> None \<Longrightarrow> SetShaderTexture tg s \<noteq> Inl NullDereference"
  using FindTextureSlot_fault [of tg s]
  by (cases "FindTextureSlot tg s") (auto simp: SetShaderTexture_unfold)

lemma SetupSceneLights_null: "m_pShaderManager s = None \<Longrightarrow> SetupSceneLights s = Inl NullDereference"
  by (simp add: SetupSceneLights_def)

lemma SetupSceneLights_live:
  "m_pShaderManager s \<noteq> None \<Longrightarrow> SetupSceneLights s \<noteq> Inl NullDereference"
  by (auto simp: SetupSceneLights_def)

text \<open>
  C10. With a null shader-manager pointer, \<^verbatim>\<open>SetTransformations\<close>,
  \<^verbatim>\<open>SetShaderColor\<close>, \<^verbatim>\<open>SetShaderTexture\<close> and \<^verbatim>\<open>SetTextureUVScale\<close> return
  with the state unchanged, whereas \<^verbatim>\<open>SetupSceneLights\<close>, and \<^verbatim>\<open>SetShaderMaterial\<close>
  whenever the material registry is not empty, dereference the null pointer
  (\<^verbatim>\<open>SetShaderMaterial\<close> on an empty registry returns before it reaches the pointer).
  With a non-null pointer no setter dereferences a null pointer.
\<close>

theorem null_guard_asymmetry:
  "(m_pShaderManager s = None \<longrightarrow>
        SetTransformations sc xd yd zd pos s = s
      \<and> SetShaderColor r g b a s = s
      \<and> SetShaderTexture tg s = Inr s
      \<and> SetTextureUVScale u v s = s
      \<and> SetupSceneLights s = Inl NullDereference
      \<and> (m_objectMaterials s \<noteq> [] \<longrightarrow> SetShaderMaterial local mt s = Inl NullDereference)
      \<and> (m_objectMaterials s = [] \<longrightarrow> SetShaderMaterial local mt s = Inr s))
   \<and> (m_pShaderManager s \<noteq> None \<longrightarrow>
        SetShaderTexture tg s \<noteq> Inl NullDereference
      \<and> SetShaderMaterial local mt s \<noteq> Inl NullDereference
      \<and> SetupSceneLights s \<noteq> Inl NullDereference)"
proof (intro conjI impI)
  assume n: "m_pShaderManager s = None"
  show "SetTransformations sc xd yd zd pos s = s" using n by (simp add: SetTransformations_def)
  show "SetShaderColor r g b a s = s" using n by (simp add: SetShaderColor_def)
  show "SetShaderTexture tg s = Inr s" using n by (simp add: SetShaderTexture_def)
  show "SetTextureUVScale u v s = s" using n by (simp add: SetTextureUVScale_def)
  show "SetupSceneLights s = Inl NullDereference" using n by (rule SetupSceneLights_null)
  show "SetShaderMaterial local mt s = Inl NullDereference" if "m_objectMaterials s \<noteq> []"
    using n that by (simp add: SetShaderMaterial_unfold)
  show "SetShaderMaterial local mt s = Inr s" if "m_objectMaterials s = []"
    using that by (simp add: SetShaderMaterial_unfold)
next
  assume l: "m_pShaderManager s \<noteq> None"
  show "SetShaderTexture tg s \<noteq> Inl NullDereference"
    by (rule SetShaderTexture_no_null_fault [OF l])
  show "SetShaderMaterial local mt s \<noteq> Inl NullDereference"
    using l by (auto simp: SetShaderMaterial_unfold)
  show "SetupSceneLights s \<noteq> Inl NullDereference"
    by (rule SetupSceneLights_live [OF l])
qed

theorem null_guard_asymmetry_witness:
  "m_pShaderManager (example_loaded\<lparr>m_pShaderManager := None\<rparr>) = None
   \<and> m_objectMaterials (example_loaded\<lparr>m_pShaderManager := None\<rparr>) \<noteq> []
   \<and> SetTransformations (2, 1, 1) 0 90 0 (0, 0, 5) (example_loaded\<lparr>m_pShaderManager := None\<rparr>)
        = example_loaded\<lparr>m_pShaderManager := None\<rparr>
   \<and> SetShaderTexture ''Floor'' (example_loaded\<lparr>m_pShaderManager := None\<rparr>)
        = Inr (example_loaded\<lparr>m_pShaderManager := None\<rparr>)
   \<and> SetupSceneLights (example_loaded\<lparr>m_pShaderManager := None\<rparr>) = Inl NullDereference
   \<and> SetShaderMaterial example_local ''Wood'' (example_loaded\<lparr>m_pShaderManager := None\<rparr>)
        = Inl NullDereference
   \<and> m_objectMaterials (example_scene None) = []
   \<and> SetShaderMaterial example_local ''Wood'' (example_scene None) = Inr (example_scene None)
   \<and> m_pShaderManager example_loaded \<noteq> None
   \<and> SetShaderMaterial example_local ''Wood'' example_loaded \<noteq> Inl NullDereference
   \<and> SetShaderTexture ''Floor'' example_loaded \<noteq> Inl NullDereference
   \<and> SetupSceneLights example_loaded \<noteq> Inl NullDereference"
proof -
  have a: "m_pShaderManager (example_loaded\<lparr>m_pShaderManager := None\<rparr>) = None" by simp
  have b: "m_objectMaterials (example_loaded\<lparr>m_pShaderManager := None\<rparr>) \<noteq> []"
    by (simp add: example_loaded_def scene_materials_def)
  have c: "m_pShaderManager (example_scene None) = None"
    and d: "m_objectMaterials (example_scene None) = []"
    by (simp_all add: example_scene_def)
  have e: "m_pShaderManager example_loaded \<noteq> None" by (simp add: example_loaded_def)
  show ?thesis
    using a b c d e
      null_guard_asymmetry [of "example_loaded\<lparr>m_pShaderManager := None\<rparr>"
        "(2, 1, 1)" 0 90 0 "(0, 0, 5)" _ _ _ _ "''Floor''" _ _ example_local "''Wood''"]
      null_guard_asymmetry [of "example_scene None" _ _ _ _ _ _ _ _ _ _ _ _
        example_local "''Wood''"]
      null_guard_asymmetry [of example_loaded _ _ _ _ _ _ _ _ _ "''Floor''" _ _
        example_local "''Wood''"]
    by simp
qed

section \<open>Material lookup on an absent tag\<close>

lemma FindMaterial_loop_miss:
  "\<forall>m \<in> set mats. material_tag m \<noteq> tg \<Longrightarrow>
   FindMaterial_loop tg mats index False material = material"
proof (induction tg mats index "False" material rule: FindMaterial_loop.induct)
  case (1 tg mats index material)
  show ?case
  proof (cases "0 \<le> index \<and> index < int (length mats)")
    case True
    then have "nat index < length mats" by linarith
    then have "mats ! nat index \<in> set mats" by (rule nth_mem)
    then have ne: "material_tag (mats ! nat index) \<noteq> tg" using "1.prems" by blast
    have "FindMaterial_loop tg mats (index + 1) False material = material"
      using "1.hyps"(2) True ne "1.prems" by simp
    then show ?thesis using True ne
      by (subst FindMaterial_loop.simps) simp
  next
    case False
    then show ?thesis by (subst FindMaterial_loop.simps) auto
  qed
qed

lemma SetShaderMaterial_empty_registry:
  "m_objectMaterials s = [] \<Longrightarrow> SetShaderMaterial local mt s = Inr s"
  by (simp add: SetShaderMaterial_unfold)

lemma SetShaderMaterial_absent_tag:
  assumes "m_pShaderManager s = Some sh" and "m_objectMaterials s \<noteq> []"
    and "\<forall>m \<in> set (m_objectMaterials s). material_tag m \<noteq> mt"
  shows "SetShaderMaterial local mt s =
           Inr (s\<lparr>m_pShaderManager := Some
                  ((''material.shininess'', FloatValue (shininess local))
                   # (''material.specularColor'', Vec3Value (specularColor local))
                   # (''material.diffuseColor'', Vec3Value (diffuseColor local)) # sh)\<rparr>)"
  using assms
  by (simp add: SetShaderMaterial_unfold FindMaterial_def FindMaterial_loop_miss)

text \<open>
  C1. The claim holds for an empty material registry (\<open>SetShaderMaterial_empty_registry\<close>)
  and fails for a tag that is absent from a registry that is not empty. In the scene's
  seven materials no entry is tagged ``Missing''; the shader holds the material ``Cake''
  with shininess 8. \<^verbatim>\<open>FindMaterial\<close> finds nothing, leaves the caller's local as it
  was and returns \<^verbatim>\<open>true\<close>, so \<^verbatim>\<open>SetShaderMaterial("Missing")\<close> pushes the three
  fields of its uninitialised local: the last-pushed shininess is then the local's (here
  0), diffuse and specular colour likewise.
\<close>

theorem SetShaderMaterial_absent_tag_pushes:
  "m_objectMaterials example_after_cake = scene_materials
   \<and> ''Missing'' \<notin> set (map material_tag scene_materials)
   \<and> uniform_of example_after_cake ''material.shininess'' = Some (FloatValue 8)
   \<and> uniform_of example_after_cake ''material.specularColor'' = Some (Vec3Value (0.2, 0.15, 0.1))
   \<and> uniform_of example_after_cake ''material.diffuseColor'' = Some (Vec3Value (0.95, 0.8, 0.7))
   \<and> SetShaderMaterial example_local ''Missing'' example_after_cake =
       Inr (example_after_cake\<lparr>m_pShaderManager := Some
              ([(''material.shininess'', FloatValue 0),
                (''material.specularColor'', Vec3Value (0, 0, 0)),
                (''material.diffuseColor'', Vec3Value (0, 0, 0))] @ cake_uniforms)\<rparr>)
   \<and> uniform_of (example_after_cake\<lparr>m_pShaderManager := Some
              ([(''material.shininess'', FloatValue 0),
                (''material.specularColor'', Vec3Value (0, 0, 0)),
                (''material.diffuseColor'', Vec3Value (0, 0, 0))] @ cake_uniforms)\<rparr>)
         ''material.shininess'' = Some (FloatValue 0)"
proof -
  have mats: "m_objectMaterials example_after_cake = scene_materials"
    by (simp add: example_after_cake_def example_loaded_def)
  have absent: "''Missing'' \<notin> set (map material_tag scene_materials)"
    by (simp add: scene_materials_def)
  have sh: "m_pShaderManager example_after_cake = Some cake_uniforms"
    by (simp add: example_after_cake_def)
  have ne: "m_objectMaterials example_after_cake \<noteq> []"
    by (simp add: mats scene_materials_def)
  have all: "\<forall>m \<in> set (m_objectMaterials example_after_cake). material_tag m \<noteq> ''Missing''"
    by (simp add: mats scene_materials_def)
  have before: "uniform_of example_after_cake ''material.shininess'' = Some (FloatValue 8)"
    "uniform_of example_after_cake ''material.specularColor'' = Some (Vec3Value (0.2, 0.15, 0.1))"
    "uniform_of example_after_cake ''material.diffuseColor'' = Some (Vec3Value (0.95, 0.8, 0.7))"
    by (simp_all add: uniform_of_def sh uniform_def cake_uniforms_def)
  have call: "SetShaderMaterial example_local ''Missing'' example_after_cake =
       Inr (example_after_cake\<lparr>m_pShaderManager := Some
              ([(''material.shininess'', FloatValue 0),
                (''material.specularColor'', Vec3Value (0, 0, 0)),
                (''material.diffuseColor'', Vec3Value (0, 0, 0))] @ cake_uniforms)\<rparr>)"
    using SetShaderMaterial_absent_tag [OF sh ne all, of example_local]
    by (simp add: example_local_def)
  have after: "uniform_of (example_after_cake\<lparr>m_pShaderManager := Some
              ([(''material.shininess'', FloatValue 0),
                (''material.specularColor'', Vec3Value (0, 0, 0)),
                (''material.diffuseColor'', Vec3Value (0, 0, 0))] @ cake_uniforms)\<rparr>)
         ''material.shininess'' = Some (FloatValue 0)"
    by (simp add: uniform_of_def uniform_def)
  show ?thesis using mats absent before call after by blast
qed

section \<open>Teardown\<close>

lemma DestroyGLTextures_loop_generates:
  "DestroyGLTextures_loop s i = Inr s' \<Longrightarrow> 0 \<le> i \<Longrightarrow>
   \<exists>new. gl_textures (gl s') = gl_textures (gl s) @ new
        \<and> int (length new) = max 0 (m_loadedTextures s - i)"
proof (induction s i rule: DestroyGLTextures_loop.induct)
  case (1 s i)
  show ?case
  proof (cases "i < m_loadedTextures s")
    case True
    let ?s1 = "s\<lparr>gl := snd (glGenTextures (gl s)),
                m_textureIDs := (m_textureIDs s)
                   [nat i := (m_textureIDs s ! nat i)\<lparr>ID := fst (glGenTextures (gl s))\<rparr>]\<rparr>"
    have inb: "0 \<le> i \<and> nat i < length (m_textureIDs s)"
      using "1.prems" True
      by (subst (asm) DestroyGLTextures_loop.simps) (auto split: if_splits)
    have rec: "DestroyGLTextures_loop ?s1 (i + 1) = Inr s'"
      using "1.prems"(1) True inb
      by (subst (asm) DestroyGLTextures_loop.simps) simp
    from "1.IH" [OF True inb rec] "1.prems"(2)
    obtain new where new: "gl_textures (gl s') = gl_textures (gl ?s1) @ new"
      "int (length new) = max 0 (m_loadedTextures ?s1 - (i + 1))" by auto
    have g: "gl_textures (gl ?s1) = gl_textures (gl s) @ [fst (glGenTextures (gl s))]"
      by (simp add: glGenTextures_def Let_def)
    have "gl_textures (gl s') = gl_textures (gl s) @ (fst (glGenTextures (gl s)) # new)"
      using new(1) g by simp
    moreover have "int (length (fst (glGenTextures (gl s)) # new)) = max 0 (m_loadedTextures s - i)"
      using new(2) True by simp
    ultimately show ?thesis by blast
  next
    case False
    then have "s' = s" using "1.prems"(1)
      by (subst (asm) DestroyGLTextures_loop.simps) simp
    then show ?thesis using False by simp
  qed
qed

lemma DestroyGLTextures_deletes_nothing:
  "DestroyGLTextures s = Inr s' \<Longrightarrow>
   \<exists>new. gl_textures (gl s') = gl_textures (gl s) @ new
        \<and> int (length new) = max 0 (m_loadedTextures s)"
  using DestroyGLTextures_loop_generates [of s 0 s'] by (simp add: DestroyGLTextures_def)

lemma replicate_14: "replicate 14 x = [x, x, x, x, x, x, x, x, x, x, x, x, x, x]"
  by (simp add: numeral_eq_Suc)

text \<open>
  C8. \<^verbatim>\<open>DestroyGLTextures\<close> releases nothing. With the handles 1 and 2 registered
  under ``Party'' and ``Floor'', the call leaves both handles allocated in the GL context,
  generates the two new names 3 and 4, and overwrites the stored handles with them. For
  every state, the texture names of the context after the call are those before it
  followed by one new name per registered entry (\<open>DestroyGLTextures_deletes_nothing\<close>).
\<close>

theorem DestroyGLTextures_reallocates:
  "registered example_loaded = [\<lparr>ID = 1, tag = ''Party''\<rparr>, \<lparr>ID = 2, tag = ''Floor''\<rparr>]
   \<and> gl_textures (gl example_loaded) = [1, 2]
   \<and> DestroyGLTextures example_loaded =
       Inr (example_loaded
              \<lparr>m_textureIDs := [\<lparr>ID = 3, tag = ''Party''\<rparr>, \<lparr>ID = 4, tag = ''Floor''\<rparr>]
                                @ replicate 14 \<lparr>ID = 0, tag = []\<rparr>,
               gl := \<lparr>gl_textures = [1, 2, 3, 4], gl_calls = []\<rparr>\<rparr>)"
proof -
  have "gl_textures (gl example_loaded) = [1, 2]" by (simp add: example_loaded_def)
  moreover have "DestroyGLTextures example_loaded =
       Inr (example_loaded
              \<lparr>m_textureIDs := [\<lparr>ID = 3, tag = ''Party''\<rparr>, \<lparr>ID = 4, tag = ''Floor''\<rparr>]
                                @ replicate 14 \<lparr>ID = 0, tag = []\<rparr>,
               gl := \<lparr>gl_textures = [1, 2, 3, 4], gl_calls = []\<rparr>\<rparr>)"
    by (simp add: DestroyGLTextures_def example_loaded_def glGenTextures_def Let_def
          DestroyGLTextures_loop.simps)
  ultimately show ?thesis using example_loaded_registered by blast
qed

section \<open>Rendering the scene\<close>

lemma registry_ok_shader_update [simp]:
  "registry_ok (s\<lparr>m_pShaderManager := x\<rparr>) = registry_ok s"
  by (simp add: registry_ok_def)

lemma registry_ok_drawn_update [simp]:
  "registry_ok (s\<lparr>drawn := x\<rparr>) = registry_ok s"
  by (simp add: registry_ok_def)

lemma bind_FindTextureSlot:
  "registry_ok s \<Longrightarrow>
   bind_fault (FindTextureSlot tg s) f = f (projr (FindTextureSlot tg s))"
  using FindTextureSlot_total [of s tg] by auto

lemma rendered_refl: "m_pShaderManager s \<noteq> None \<Longrightarrow> rendered s s 0"
  by (simp add: rendered_def)

lemma rendered_trans:
  "rendered s s' d \<Longrightarrow> rendered s' s'' e \<Longrightarrow> rendered s s'' (d + e)"
  by (auto simp: rendered_def) (metis append_eq_conv_conj le_add1 take_all_iff take_take min.absorb1 append_take_drop_id take_append)

lemma render_ready_rendered:
  "render_ready s \<Longrightarrow> rendered s s' d \<Longrightarrow> render_ready s'"
  by (simp add: render_ready_def rendered_def registry_ok_def)

lemma run_steps_rendered_append:
  assumes "\<exists>s'. run_steps fs s = Inr s' \<and> rendered s s' d"
    and "\<And>s'. render_ready s' \<Longrightarrow> \<exists>s''. run_steps gs s' = Inr s'' \<and> rendered s' s'' e"
    and "render_ready s"
  shows "\<exists>s''. run_steps (fs @ gs) s = Inr s'' \<and> rendered s s'' (d + e)"
proof -
  from assms(1) obtain s' where s': "run_steps fs s = Inr s'" "rendered s s' d" by blast
  have "render_ready s'" by (rule render_ready_rendered [OF assms(3) s'(2)])
  from assms(2) [OF this] obtain s'' where s'': "run_steps gs s' = Inr s''" "rendered s' s'' e"
    by blast
  show ?thesis
    using s' s'' rendered_trans by (auto simp: run_steps_append)
qed

lemmas render_unfold =
  setter_unfold bind_FindTextureSlot rendered_def

lemma render_floor_rendered:
  assumes "render_ready s"
  shows "\<exists>s'. run_steps (render_floor local) s = Inr s' \<and> rendered s s' 1"
proof -
  from assms obtain sh where "m_pShaderManager s = Some sh" "registry_ok s"
    "m_objectMaterials s \<noteq> []" by (auto simp: render_ready_def)
  then show ?thesis by (simp add: render_floor_def render_unfold)
qed

lemma render_party_hat_rendered:
  assumes "render_ready s"
  shows "\<exists>s'. run_steps (render_party_hat local) s = Inr s' \<and> rendered s s' 2"
proof -
  from assms obtain sh where "m_pShaderManager s = Some sh" "registry_ok s"
    "m_objectMaterials s \<noteq> []" by (auto simp: render_ready_def)
  then show ?thesis by (simp add: render_party_hat_def render_unfold)
qed

lemma render_napkin_rendered:
  assumes "render_ready s"
  shows "\<exists>s'. run_steps render_napkin s = Inr s' \<and> rendered s s' 1"
proof -
  from assms obtain sh where "m_pShaderManager s = Some sh" "registry_ok s"
    "m_objectMaterials s \<noteq> []" by (auto simp: render_ready_def)
  then show ?thesis by (simp add: render_napkin_def render_unfold)
qed

lemma render_table_rendered:
  assumes "render_ready s"
  shows "\<exists>s'. run_steps (render_table local) s = Inr s' \<and> rendered s s' 5"
proof -
  from assms obtain sh where "m_pShaderManager s = Some sh" "registry_ok s"
    "m_objectMaterials s \<noteq> []" by (auto simp: render_ready_def)
  then show ?thesis by (simp add: render_table_def legPositions_def Let_def render_unfold)
qed

lemma render_present_rendered:
  assumes "render_ready s"
  shows "\<exists>s'. run_steps (render_present local) s = Inr s' \<and> rendered s s' 1"
proof -
  from assms obtain sh where "m_pShaderManager s = Some sh" "registry_ok s"
    "m_objectMaterials s \<noteq> []" by (auto simp: render_ready_def)
  then show ?thesis by (simp add: render_present_def render_unfold)
qed

lemma render_balloon_rendered:
  assumes "render_ready s"
  shows "\<exists>s'. run_steps (render_balloon local) s = Inr s' \<and> rendered s s' 3"
proof -
  from assms obtain sh where "m_pShaderManager s = Some sh" "registry_ok s"
    "m_objectMaterials s \<noteq> []" by (auto simp: render_ready_def)
  then show ?thesis by (simp add: render_balloon_def render_unfold)
qed

lemma render_plate_rendered:
  assumes "render_ready s"
  shows "\<exists>s'. run_steps (render_plate local) s = Inr s' \<and> rendered s s' 1"
proof -
  from assms obtain sh where "m_pShaderManager s = Some sh" "registry_ok s"
    "m_objectMaterials s \<noteq> []" by (auto simp: render_ready_def)
  then show ?thesis by (simp add: render_plate_def render_unfold)
qed

lemma render_candle_rendered:
  assumes "render_ready s"
  shows "\<exists>s'. run_steps (render_candle local) s = Inr s' \<and> rendered s s' 1"
proof -
  from assms obtain sh where "m_pShaderManager s = Some sh" "registry_ok s"
    "m_objectMaterials s \<noteq> []" by (auto simp: render_ready_def)
  then show ?thesis by (simp add: render_candle_def render_unfold)
qed

lemma render_cake_body_effect:
  assumes "render_ready s" and cake: "FindTextureSlot ''Cake'' s = Inr (- 1)"
  shows "\<exists>s' k rest. run_steps render_cake_body s = Inr s' \<and> rendered s s' 1
           \<and> FindTextureSlot ''Frost_sides'' s = Inr k
           \<and> drawn s' = drawn s @
                [(Cylinder, Some ((''UVscale'', Vec2Value (1.5, 1.5))
                                  # (g_TextureValueName, Sampler2DValue (- 1))
                                  # (g_UseTextureName, IntValue 1)
                                  # (g_TextureValueName, Sampler2DValue k)
                                  # rest))]"
proof -
  from assms obtain sh where sh: "m_pShaderManager s = Some sh" and ok: "registry_ok s"
    by (auto simp: render_ready_def)
  from FindTextureSlot_total [OF ok] obtain k where k: "FindTextureSlot ''Frost_sides'' s = Inr k"
    by blast
  show ?thesis
    using sh ok k cake by (simp add: render_cake_body_def setter_unfold rendered_def)
qed

lemma render_cake_top_effect:
  assumes "render_ready s" and cake: "FindTextureSlot ''Cake'' s = Inr (- 1)"
  shows "\<exists>s' k rest. run_steps render_cake_top s = Inr s' \<and> rendered s s' 1
           \<and> FindTextureSlot ''Frost'' s = Inr k
           \<and> drawn s' = drawn s @
                [(Cylinder, Some ((''UVscale'', Vec2Value (1, 1))
                                  # (g_TextureValueName, Sampler2DValue (- 1))
                                  # (g_UseTextureName, IntValue 1)
                                  # (g_TextureValueName, Sampler2DValue k)
                                  # rest))]"
proof -
  from assms obtain sh where sh: "m_pShaderManager s = Some sh" and ok: "registry_ok s"
    by (auto simp: render_ready_def)
  from FindTextureSlot_total [OF ok] obtain k where k: "FindTextureSlot ''Frost'' s = Inr k"
    by blast
  show ?thesis
    using sh ok k cake by (simp add: render_cake_top_def setter_unfold rendered_def)
qed

lemma render_before_cake:
  assumes "render_ready s"
  shows "\<exists>s'. run_steps (render_floor local @ render_party_hat local @ render_napkin
                          @ render_table local @ render_present local @ render_balloon local) s
                = Inr s' \<and> rendered s s' 13"
proof -
  have a: "\<exists>s'. run_steps (render_present local @ render_balloon local) s = Inr s'
                 \<and> rendered s s' 4" if "render_ready s" for s
    using run_steps_rendered_append
            [OF render_present_rendered [OF that] render_balloon_rendered that, of local local]
    by simp
  have b: "\<exists>s'. run_steps (render_table local @ render_present local @ render_balloon local) s
                 = Inr s' \<and> rendered s s' 9" if "render_ready s" for s
    using run_steps_rendered_append [OF render_table_rendered [OF that] a that, of local]
    by simp
  have c: "\<exists>s'. run_steps (render_napkin @ render_table local @ render_present local
                            @ render_balloon local) s
                 = Inr s' \<and> rendered s s' 10" if "render_ready s" for s
    using run_steps_rendered_append [OF render_napkin_rendered [OF that] b that]
    by simp
  have d: "\<exists>s'. run_steps (render_party_hat local @ render_napkin @ render_table local
                            @ render_present local @ render_balloon local) s
                 = Inr s' \<and> rendered s s' 12" if "render_ready s" for s
    using run_steps_rendered_append [OF render_party_hat_rendered [OF that] c that, of local]
    by simp
  show ?thesis
    using run_steps_rendered_append [OF render_floor_rendered [OF assms] d assms, of local]
    by simp
qed

lemma render_after_cake:
  assumes "render_ready s"
  shows "\<exists>s'. run_steps (render_plate local @ render_candle local) s = Inr s' \<and> rendered s s' 2"
  using run_steps_rendered_append
          [OF render_plate_rendered [OF assms] render_candle_rendered assms, of local local]
  by (simp add: numeral_2_eq_2)

lemma rendered_same_slot:
  "rendered s s' d \<Longrightarrow> FindTextureSlot tg s' = FindTextureSlot tg s"
  by (rule FindTextureSlot_same_registry) (simp_all add: rendered_def)

lemma rendered_nth:
  assumes "rendered s s' d" and "i < length (drawn s)"
  shows "drawn s' ! i = drawn s ! i"
proof -
  have "take (length (drawn s)) (drawn s') ! i = drawn s' ! i"
    using assms(2) by simp
  then show ?thesis using assms(1) by (simp add: rendered_def)
qed

lemma RenderScene_cake_samplers:
  assumes ready: "render_ready s" and cake: "FindTextureSlot ''Cake'' s = Inr (- 1)"
  shows "\<exists>s2 kSides kTop restBody restTop.
           RenderScene local s = Inr s2 \<and> rendered s s2 17
         \<and> FindTextureSlot ''Frost_sides'' s = Inr kSides
         \<and> FindTextureSlot ''Frost'' s = Inr kTop
         \<and> drawn s2 ! (length (drawn s) + 13) =
              (Cylinder, Some ((''UVscale'', Vec2Value (1.5, 1.5))
                               # (g_TextureValueName, Sampler2DValue (- 1))
                               # (g_UseTextureName, IntValue 1)
                               # (g_TextureValueName, Sampler2DValue kSides)
                               # restBody))
         \<and> drawn s2 ! (length (drawn s) + 14) =
              (Cylinder, Some ((''UVscale'', Vec2Value (1, 1))
                               # (g_TextureValueName, Sampler2DValue (- 1))
                               # (g_UseTextureName, IntValue 1)
                               # (g_TextureValueName, Sampler2DValue kTop)
                               # restTop))"
proof -
  let ?pre = "render_floor local @ render_party_hat local @ render_napkin
                @ render_table local @ render_present local @ render_balloon local"
  let ?post = "render_plate local @ render_candle local"
  from render_before_cake [OF ready, of local]
  obtain sA where sA: "run_steps ?pre s = Inr sA" "rendered s sA 13" by blast
  have readyA: "render_ready sA" by (rule render_ready_rendered [OF ready sA(2)])
  have cakeA: "FindTextureSlot ''Cake'' sA = Inr (- 1)"
    using rendered_same_slot [OF sA(2)] cake by simp
  from render_cake_body_effect [OF readyA cakeA]
  obtain sB kSides restBody where sB: "run_steps render_cake_body sA = Inr sB"
    "rendered sA sB 1" "FindTextureSlot ''Frost_sides'' sA = Inr kSides"
    "drawn sB = drawn sA @
       [(Cylinder, Some ((''UVscale'', Vec2Value (1.5, 1.5))
                         # (g_TextureValueName, Sampler2DValue (- 1))
                         # (g_UseTextureName, IntValue 1)
                         # (g_TextureValueName, Sampler2DValue kSides)
                         # restBody))]"
    by blast
  have readyB: "render_ready sB" by (rule render_ready_rendered [OF readyA sB(2)])
  have cakeB: "FindTextureSlot ''Cake'' sB = Inr (- 1)"
    using rendered_same_slot [OF sB(2)] cakeA by simp
  from render_cake_top_effect [OF readyB cakeB]
  obtain sC kTop restTop where sC: "run_steps render_cake_top sB = Inr sC"
    "rendered sB sC 1" "FindTextureSlot ''Frost'' sB = Inr kTop"
    "drawn sC = drawn sB @
       [(Cylinder, Some ((''UVscale'', Vec2Value (1, 1))
                         # (g_TextureValueName, Sampler2DValue (- 1))
                         # (g_UseTextureName, IntValue 1)
                         # (g_TextureValueName, Sampler2DValue kTop)
                         # restTop))]"
    by blast
  have readyC: "render_ready sC" by (rule render_ready_rendered [OF readyB sC(2)])
  from render_after_cake [OF readyC, of local]
  obtain s2 where s2: "run_steps ?post sC = Inr s2" "rendered sC s2 2" by blast
  have list: "render_floor local @ render_party_hat local @ render_napkin @ render_table local
        @ render_present local @ render_balloon local @ render_cake_body @ render_cake_top
        @ render_plate local @ render_candle local
      = ?pre @ (render_cake_body @ (render_cake_top @ ?post))" by simp
  have "run_steps (?pre @ (render_cake_body @ (render_cake_top @ ?post))) s
          = bind_fault (run_steps ?pre s)
              (run_steps (render_cake_body @ (render_cake_top @ ?post)))"
    by (rule run_steps_append)
  also have "\<dots> = run_steps (render_cake_body @ (render_cake_top @ ?post)) sA"
    by (simp only: sA(1) bind_fault_Inr)
  also have "\<dots> = bind_fault (run_steps render_cake_body sA)
                        (run_steps (render_cake_top @ ?post))"
    by (rule run_steps_append)
  also have "\<dots> = run_steps (render_cake_top @ ?post) sB"
    by (simp only: sB(1) bind_fault_Inr)
  also have "\<dots> = bind_fault (run_steps render_cake_top sB) (run_steps ?post)"
    by (rule run_steps_append)
  also have "\<dots> = run_steps ?post sC"
    by (simp only: sC(1) bind_fault_Inr)
  also have "\<dots> = Inr s2" by (rule s2(1))
  finally have run: "RenderScene local s = Inr s2"
    unfolding RenderScene_def list .
  have total: "rendered s s2 17"
    using rendered_trans [OF rendered_trans [OF rendered_trans [OF sA(2) sB(2)] sC(2)] s2(2)]
    by simp
  have lenA: "length (drawn sA) = length (drawn s) + 13" using sA(2) by (simp add: rendered_def)
  have lenC: "length (drawn sC) = length (drawn s) + 15" using sC(4) sB(4) lenA by simp
  have nB: "drawn s2 ! (length (drawn s) + 13) = drawn sC ! (length (drawn s) + 13)"
    by (rule rendered_nth [OF s2(2)]) (simp add: lenC)
  have nT: "drawn s2 ! (length (drawn s) + 14) = drawn sC ! (length (drawn s) + 14)"
    by (rule rendered_nth [OF s2(2)]) (simp add: lenC)
  have body: "drawn sC ! (length (drawn s) + 13) =
              (Cylinder, Some ((''UVscale'', Vec2Value (1.5, 1.5))
                               # (g_TextureValueName, Sampler2DValue (- 1))
                               # (g_UseTextureName, IntValue 1)
                               # (g_TextureValueName, Sampler2DValue kSides)
                               # restBody))"
    using sC(4) sB(4) lenA by (simp add: nth_append)
  have top: "drawn sC ! (length (drawn s) + 14) =
              (Cylinder, Some ((''UVscale'', Vec2Value (1, 1))
                               # (g_TextureValueName, Sampler2DValue (- 1))
                               # (g_UseTextureName, IntValue 1)
                               # (g_TextureValueName, Sampler2DValue kTop)
                               # restTop))"
    using sC(4) sB(4) lenA by (simp add: nth_append)
  have kS: "FindTextureSlot ''Frost_sides'' s = Inr kSides"
    using rendered_same_slot [OF sA(2)] sB(3) by simp
  have kT: "FindTextureSlot ''Frost'' s = Inr kTop"
    using rendered_same_slot [OF sA(2)] rendered_same_slot [OF sB(2)] sC(3) by simp
  show ?thesis
    using run total kS kT nB nT body top by (intro exI conjI) simp_all
qed

section \<open>Preparing the scene\<close>

lemma decodable_iff:
  "decodable stbi_load filename \<longleftrightarrow>
     (\<exists>img. stbi_load filename = Some img \<and> (colorChannels img = 3 \<or> colorChannels img = 4))"
  by (simp add: decodable_def split: option.splits)

lemma load_texture_effect:
  assumes ok: "registry_ok s" and room: "nat (m_loadedTextures s) < length (m_textureIDs s)"
  shows "\<exists>s'. load_texture stbi_load filename tg s = Inr s'
           \<and> registry_ok s'
           \<and> length (m_textureIDs s') = length (m_textureIDs s)
           \<and> m_loadedTextures s' \<le> m_loadedTextures s + 1
           \<and> map tag (registered s') =
                map tag (registered s) @ (if decodable stbi_load filename then [tg] else [])
           \<and> m_pShaderManager s' = m_pShaderManager s
           \<and> m_objectMaterials s' = m_objectMaterials s
           \<and> drawn s' = drawn s"
proof (cases "decodable stbi_load filename")
  case True
  then obtain img where img: "stbi_load filename = Some img"
    "colorChannels img = 3 \<or> colorChannels img = 4" by (auto simp: decodable_iff)
  have n0: "0 \<le> m_loadedTextures s" using ok by (simp add: registry_ok_def)
  from CreateGLTexture_returns_true
         [where stbi_load = stbi_load and filename = filename and tg = tg, OF img n0 room]
  obtain s' where s': "CreateGLTexture stbi_load filename tg s = Inr (True, s')" by blast
  note facts = CreateGLTexture_success [OF s'] registered_after_success [OF s']
  show ?thesis
    using load_texture_success [OF s'] facts True by simp
next
  case False
  then have "stbi_load filename = None
     \<or> (\<exists>img. stbi_load filename = Some img \<and> colorChannels img \<noteq> 3 \<and> colorChannels img \<noteq> 4)"
    by (auto simp: decodable_def split: option.splits)
  from CreateGLTexture_returns_false
         [where stbi_load = stbi_load and filename = filename and tg = tg and s = s, OF this]
  obtain s' where s': "CreateGLTexture stbi_load filename tg s = Inr (False, s')" by blast
  note facts = CreateGLTexture_failure [OF s']
  have "registered s' = registered s" using facts by (simp add: registered_def)
  moreover have "registry_ok s'" using facts ok by (simp add: registry_ok_def)
  ultimately show ?thesis
    using load_texture_success [OF s'] facts False by simp
qed

lemma load_files_effect:
  assumes "registry_ok s"
    and "nat (m_loadedTextures s) + length files \<le> length (m_textureIDs s)"
  shows "\<exists>s'. run_steps (map (\<lambda>(filename, tg). load_texture stbi_load filename tg) files) s
                = Inr s'
           \<and> registry_ok s'
           \<and> length (m_textureIDs s') = length (m_textureIDs s)
           \<and> map tag (registered s') =
                map tag (registered s)
                @ map snd (filter (\<lambda>(filename, tg). decodable stbi_load filename) files)
           \<and> m_pShaderManager s' = m_pShaderManager s
           \<and> m_objectMaterials s' = m_objectMaterials s
           \<and> drawn s' = drawn s"
  using assms
proof (induction files arbitrary: s)
  case Nil
  then show ?case by simp
next
  case (Cons p files)
  obtain filename tg where p: "p = (filename, tg)" by (cases p) auto
  have room: "nat (m_loadedTextures s) < length (m_textureIDs s)" using Cons.prems(2) by simp
  from load_texture_effect [OF Cons.prems(1) room, of stbi_load filename tg]
  obtain s1 where s1: "load_texture stbi_load filename tg s = Inr s1" "registry_ok s1"
    "length (m_textureIDs s1) = length (m_textureIDs s)"
    "m_loadedTextures s1 \<le> m_loadedTextures s + 1"
    "map tag (registered s1) =
       map tag (registered s) @ (if decodable stbi_load filename then [tg] else [])"
    "m_pShaderManager s1 = m_pShaderManager s"
    "m_objectMaterials s1 = m_objectMaterials s"
    "drawn s1 = drawn s" by blast
  have room1: "nat (m_loadedTextures s1) + length files \<le> length (m_textureIDs s1)"
    using Cons.prems(2) s1(3) s1(4) by simp
  from Cons.IH [OF s1(2) room1]
  obtain s' where s': "run_steps (map (\<lambda>(filename, tg). load_texture stbi_load filename tg) files) s1
                = Inr s'"
    "registry_ok s'" "length (m_textureIDs s') = length (m_textureIDs s1)"
    "map tag (registered s') =
       map tag (registered s1)
       @ map snd (filter (\<lambda>(filename, tg). decodable stbi_load filename) files)"
    "m_pShaderManager s' = m_pShaderManager s1"
    "m_objectMaterials s' = m_objectMaterials s1"
    "drawn s' = drawn s1" by blast
  show ?case
    using s1 s' by (simp add: p)
qed

lemma BindGLTextures_loop_effect:
  "0 \<le> i \<Longrightarrow> nat (m_loadedTextures s) \<le> length (m_textureIDs s) \<Longrightarrow>
   \<exists>s'. BindGLTextures_loop s i = Inr s'
      \<and> m_textureIDs s' = m_textureIDs s \<and> m_loadedTextures s' = m_loadedTextures s
      \<and> m_pShaderManager s' = m_pShaderManager s
      \<and> m_objectMaterials s' = m_objectMaterials s
      \<and> drawn s' = drawn s"
proof (induction s i rule: BindGLTextures_loop.induct)
  case (1 s i)
  show ?case
  proof (cases "i < m_loadedTextures s")
    case True
    then have inb: "0 \<le> i \<and> nat i < length (m_textureIDs s)" using "1.prems" by linarith
    let ?s1 = "s\<lparr>gl := gl_do (BindTexture (ID (m_textureIDs s ! nat i)))
                        (gl_do (ActiveTexture i) (gl s))\<rparr>"
    from "1.IH" [OF True inb] "1.prems"
    obtain s' where s': "BindGLTextures_loop ?s1 (i + 1) = Inr s'"
      "m_textureIDs s' = m_textureIDs s" "m_loadedTextures s' = m_loadedTextures s"
      "m_pShaderManager s' = m_pShaderManager s" "m_objectMaterials s' = m_objectMaterials s"
      "drawn s' = drawn s" by auto
    have "BindGLTextures_loop s i = Inr s'"
      using True inb s'(1) by (subst BindGLTextures_loop.simps) simp
    then show ?thesis using s' by simp
  next
    case False
    then show ?thesis by (subst BindGLTextures_loop.simps) simp
  qed
qed

lemma BindGLTextures_effect:
  "registry_ok s \<Longrightarrow>
   \<exists>s'. BindGLTextures s = Inr s'
      \<and> m_textureIDs s' = m_textureIDs s \<and> m_loadedTextures s' = m_loadedTextures s
      \<and> m_pShaderManager s' = m_pShaderManager s
      \<and> m_objectMaterials s' = m_objectMaterials s
      \<and> drawn s' = drawn s"
  unfolding BindGLTextures_def registry_ok_def
  by (intro BindGLTextures_loop_effect) simp_all

lemma LoadSceneTextures_files:
  "LoadSceneTextures stbi_load =
     run_steps (map (\<lambda>(filename, tg). load_texture stbi_load filename tg) scene_texture_files
                @ [BindGLTextures])"
  by (simp add: LoadSceneTextures_def scene_texture_files_def)

lemma LoadSceneTextures_effect:
  assumes ok: "registry_ok s"
    and room: "nat (m_loadedTextures s) + 9 \<le> length (m_textureIDs s)"
  shows "\<exists>s'. LoadSceneTextures stbi_load s = Inr s'
           \<and> registry_ok s'
           \<and> map tag (registered s') =
                map tag (registered s)
                @ map snd (filter (\<lambda>(filename, tg). decodable stbi_load filename)
                             scene_texture_files)
           \<and> m_pShaderManager s' = m_pShaderManager s
           \<and> m_objectMaterials s' = m_objectMaterials s
           \<and> drawn s' = drawn s"
proof -
  have room': "nat (m_loadedTextures s) + length scene_texture_files \<le> length (m_textureIDs s)"
    using room by (simp add: scene_texture_files_def)
  from load_files_effect [OF ok room', of stbi_load]
  obtain s1 where s1:
    "run_steps (map (\<lambda>(filename, tg). load_texture stbi_load filename tg) scene_texture_files) s
       = Inr s1"
    "registry_ok s1"
    "map tag (registered s1) =
       map tag (registered s)
       @ map snd (filter (\<lambda>(filename, tg). decodable stbi_load filename) scene_texture_files)"
    "m_pShaderManager s1 = m_pShaderManager s"
    "m_objectMaterials s1 = m_objectMaterials s"
    "drawn s1 = drawn s" by blast
  from BindGLTextures_effect [OF s1(2)]
  obtain s' where s': "BindGLTextures s1 = Inr s'"
    "m_textureIDs s' = m_textureIDs s1" "m_loadedTextures s' = m_loadedTextures s1"
    "m_pShaderManager s' = m_pShaderManager s1" "m_objectMaterials s' = m_objectMaterials s1"
    "drawn s' = drawn s1" by blast
  have reg: "registered s' = registered s1" using s'(2,3) by (simp add: registered_def)
  have ok': "registry_ok s'" using s1(2) s'(2,3) by (simp add: registry_ok_def)
  have "LoadSceneTextures stbi_load s = Inr s'"
    unfolding LoadSceneTextures_files using s1(1) s'(1) by (simp add: run_steps_append)
  then show ?thesis using ok' reg s1 s' by simp
qed

lemma PrepareScene_effect:
  assumes sh: "m_pShaderManager s = Some sh" and n: "m_loadedTextures s = 0"
    and len: "length (m_textureIDs s) = texture_slots" and mats: "m_objectMaterials s = []"
  shows "\<exists>s'. PrepareScene stbi_load s = Inr s'
           \<and> render_ready s'
           \<and> map tag (registered s') =
                map snd (filter (\<lambda>(filename, tg). decodable stbi_load filename)
                           scene_texture_files)
           \<and> m_objectMaterials s' = scene_materials
           \<and> drawn s' = drawn s"
proof -
  have ok: "registry_ok s" using n by (simp add: registry_ok_def)
  have room: "nat (m_loadedTextures s) + 9 \<le> length (m_textureIDs s)"
    using n len by (simp add: texture_slots_def)
  have empty: "registered s = []" using n by (simp add: registered_def)
  from LoadSceneTextures_effect [OF ok room, of stbi_load]
  obtain s1 where s1: "LoadSceneTextures stbi_load s = Inr s1" "registry_ok s1"
    "map tag (registered s1) =
       map tag (registered s)
       @ map snd (filter (\<lambda>(filename, tg). decodable stbi_load filename) scene_texture_files)"
    "m_pShaderManager s1 = m_pShaderManager s" "m_objectMaterials s1 = m_objectMaterials s"
    "drawn s1 = drawn s" by blast
  have sh1: "m_pShaderManager s1 = Some sh" using s1(4) sh by simp
  obtain s2 where s2: "SetupSceneLights s1 = Inr s2" "m_pShaderManager s2 \<noteq> None"
    "m_textureIDs s2 = m_textureIDs s1" "m_loadedTextures s2 = m_loadedTextures s1"
    "m_objectMaterials s2 = m_objectMaterials s1" "drawn s2 = drawn s1"
    using sh1 by (simp add: SetupSceneLights_def)
  let ?s' = "LoadMesh Pyramid4 (LoadMesh Cylinder (LoadMesh Box (LoadMesh Cone
               (LoadMesh Sphere (LoadMesh Plane (DefineObjectMaterials s2))))))"
  have run: "PrepareScene stbi_load s = Inr ?s'"
    by (simp add: PrepareScene_def s1(1) s2(1) ok_def)
  have fields: "m_pShaderManager ?s' = m_pShaderManager s2"
    "m_textureIDs ?s' = m_textureIDs s2" "m_loadedTextures ?s' = m_loadedTextures s2"
    "m_objectMaterials ?s' = m_objectMaterials s2 @ scene_materials" "drawn ?s' = drawn s2"
    by (simp_all add: LoadMesh_def DefineObjectMaterials_def)
  have reg: "registered ?s' = registered s1"
    using fields s2 by (simp add: registered_def)
  have ok': "registry_ok ?s'"
    using fields s2 s1(2) by (simp add: registry_ok_def)
  have mats': "m_objectMaterials ?s' = scene_materials"
    using fields(4) s2(5) s1(5) mats by simp
  have ready: "render_ready ?s'"
    using fields(1) s2(2) ok' mats' by (simp add: render_ready_def scene_materials_def)
  have tags: "map tag (registered ?s') =
                map snd (filter (\<lambda>(filename, tg). decodable stbi_load filename)
                           scene_texture_files)"
    using reg s1(3) empty by simp
  have dr: "drawn ?s' = drawn s" using fields(5) s2(6) s1(6) by simp
  show ?thesis using run ready tags mats' dr by blast
qed

lemma lookup_present:
  assumes ok: "registry_ok s" and mem: "tg \<in> set (map tag (registered s))"
  shows "\<exists>k. FindTextureSlot tg s = Inr k \<and> 0 \<le> k"
proof -
  from split_list_first [OF mem]
  obtain ys zs where split: "map tag (registered s) = ys @ tg # zs" "tg \<notin> set ys"
    by blast
  have len: "length (map tag (registered s)) = length ys + Suc (length zs)"
    unfolding split(1) by simp
  then have k: "length ys < length (registered s)" by simp
  have "map tag (registered s) ! length ys = tg" unfolding split(1) by simp
  then have hit: "tag (registered s ! length ys) = tg" using k by simp
  have first: "\<forall>j<length ys. tag (registered s ! j) \<noteq> tg"
  proof (intro allI impI)
    fix j assume j: "j < length ys"
    then have "map tag (registered s) ! j = ys ! j" unfolding split(1) by (simp add: nth_append)
    moreover have "ys ! j \<in> set ys" using j by simp
    ultimately have "map tag (registered s) ! j \<noteq> tg" using split(2) by auto
    then show "tag (registered s ! j) \<noteq> tg" using j k by simp
  qed
  show ?thesis using lookup_hit(1) [OF ok k hit first] by simp
qed

text \<open>
  C9. Start from a scene manager with a shader manager attached, an empty texture registry
  of 16 slots and no materials. \<^verbatim>\<open>PrepareScene\<close> returns, whatever the codec decodes:
  the registered texture tags are those of the nine files of \<^verbatim>\<open>LoadSceneTextures\<close>
  that decode, ``Cake'' is not among them (it is a material tag only), and
  \<^verbatim>\<open>FindTextureSlot("Cake")\<close> is -1. \<^verbatim>\<open>RenderScene\<close> then returns after 17 draw
  calls. The fourteenth and the fifteenth, the cake body and the cake top, are issued with
  the sampler uniform -1: the newest writes before the draw are the UV scale, the sampler
  -1 of ``Cake'' with the use-texture flag 1, and before them the slot of ``Frost_sides''
  (of ``Frost'' for the top), which is a valid slot whenever its file decodes.
\<close>

theorem cake_draws_sample_unregistered_texture:
  assumes sh: "m_pShaderManager s0 = Some sh0" and n: "m_loadedTextures s0 = 0"
    and len: "length (m_textureIDs s0) = texture_slots" and mats: "m_objectMaterials s0 = []"
  shows "\<exists>s1 s2 kSides kTop restBody restTop.
           PrepareScene stbi_load s0 = Inr s1
         \<and> registry_ok s1
         \<and> map tag (registered s1) =
              map snd (filter (\<lambda>(filename, tg). decodable stbi_load filename)
                         scene_texture_files)
         \<and> ''Cake'' \<notin> set (map tag (registered s1))
         \<and> ''Cake'' \<in> set (map material_tag (m_objectMaterials s1))
         \<and> FindTextureSlot ''Cake'' s1 = Inr (- 1)
         \<and> RenderScene local s1 = Inr s2
         \<and> length (drawn s2) = length (drawn s0) + 17
         \<and> FindTextureSlot ''Frost_sides'' s1 = Inr kSides
         \<and> FindTextureSlot ''Frost'' s1 = Inr kTop
         \<and> (decodable stbi_load ''textures/frosting_sides.png'' \<longrightarrow> 0 \<le> kSides)
         \<and> (decodable stbi_load ''textures/top_frosting.png'' \<longrightarrow> 0 \<le> kTop)
         \<and> drawn s2 ! (length (drawn s0) + 13) =
              (Cylinder, Some ((''UVscale'', Vec2Value (1.5, 1.5))
                               # (g_TextureValueName, Sampler2DValue (- 1))
                               # (g_UseTextureName, IntValue 1)
                               # (g_TextureValueName, Sampler2DValue kSides)
                               # restBody))
         \<and> drawn s2 ! (length (drawn s0) + 14) =
              (Cylinder, Some ((''UVscale'', Vec2Value (1, 1))
                               # (g_TextureValueName, Sampler2DValue (- 1))
                               # (g_UseTextureName, IntValue 1)
                               # (g_TextureValueName, Sampler2DValue kTop)
                               # restTop))
         \<and> uniform ((''UVscale'', Vec2Value (1.5, 1.5))
                     # (g_TextureValueName, Sampler2DValue (- 1))
                     # (g_UseTextureName, IntValue 1)
                     # (g_TextureValueName, Sampler2DValue kSides)
                     # restBody) g_TextureValueName = Some (Sampler2DValue (- 1))
         \<and> uniform ((''UVscale'', Vec2Value (1, 1))
                     # (g_TextureValueName, Sampler2DValue (- 1))
                     # (g_UseTextureName, IntValue 1)
                     # (g_TextureValueName, Sampler2DValue kTop)
                     # restTop) g_TextureValueName = Some (Sampler2DValue (- 1))"
proof -
  from PrepareScene_effect [OF sh n len mats, of stbi_load]
  obtain s1 where s1: "PrepareScene stbi_load s0 = Inr s1" "render_ready s1"
    "map tag (registered s1) =
       map snd (filter (\<lambda>(filename, tg). decodable stbi_load filename) scene_texture_files)"
    "m_objectMaterials s1 = scene_materials" "drawn s1 = drawn s0" by blast
  have ok: "registry_ok s1" using s1(2) by (simp add: render_ready_def)
  have nocake: "''Cake'' \<notin> set (map tag (registered s1))"
    unfolding s1(3) by (auto simp: scene_texture_files_def)
  then have "\<forall>e \<in> set (registered s1). tag e \<noteq> ''Cake''"
    by (metis image_eqI set_map)
  from lookup_miss(1) [OF ok this]
  have cake: "FindTextureSlot ''Cake'' s1 = Inr (- 1)" .
  have matcake: "''Cake'' \<in> set (map material_tag (m_objectMaterials s1))"
    by (simp add: s1(4) scene_materials_def)
  from RenderScene_cake_samplers [OF s1(2) cake, of local]
  obtain s2 kSides kTop restBody restTop where r:
    "RenderScene local s1 = Inr s2" "rendered s1 s2 17"
    "FindTextureSlot ''Frost_sides'' s1 = Inr kSides"
    "FindTextureSlot ''Frost'' s1 = Inr kTop"
    "drawn s2 ! (length (drawn s1) + 13) =
              (Cylinder, Some ((''UVscale'', Vec2Value (1.5, 1.5))
                               # (g_TextureValueName, Sampler2DValue (- 1))
                               # (g_UseTextureName, IntValue 1)
                               # (g_TextureValueName, Sampler2DValue kSides)
                               # restBody))"
    "drawn s2 ! (length (drawn s1) + 14) =
              (Cylinder, Some ((''UVscale'', Vec2Value (1, 1))
                               # (g_TextureValueName, Sampler2DValue (- 1))
                               # (g_UseTextureName, IntValue 1)
                               # (g_TextureValueName, Sampler2DValue kTop)
                               # restTop))"
    by blast
  have count: "length (drawn s2) = length (drawn s0) + 17"
    using r(2) s1(5) by (simp add: rendered_def)
  have sides: "0 \<le> kSides" if "decodable stbi_load ''textures/frosting_sides.png''"
  proof -
    have "''Frost_sides'' \<in> set (map tag (registered s1))"
      unfolding s1(3) using that by (simp add: scene_texture_files_def)
    from lookup_present [OF ok this] r(3) show ?thesis by simp
  qed
  have top: "0 \<le> kTop" if "decodable stbi_load ''textures/top_frosting.png''"
  proof -
    have "''Frost'' \<in> set (map tag (registered s1))"
      unfolding s1(3) using that by (simp add: scene_texture_files_def)
    from lookup_present [OF ok this] r(4) show ?thesis by simp
  qed
  have u1: "uniform ((''UVscale'', Vec2Value (1.5, 1.5))
                     # (g_TextureValueName, Sampler2DValue (- 1))
                     # (g_UseTextureName, IntValue 1)
                     # (g_TextureValueName, Sampler2DValue kSides)
                     # restBody) g_TextureValueName = Some (Sampler2DValue (- 1))"
    by (simp add: uniform_def g_TextureValueName_def)
  have u2: "uniform ((''UVscale'', Vec2Value (1, 1))
                     # (g_TextureValueName, Sampler2DValue (- 1))
                     # (g_UseTextureName, IntValue 1)
                     # (g_TextureValueName, Sampler2DValue kTop)
                     # restTop) g_TextureValueName = Some (Sampler2DValue (- 1))"
    by (simp add: uniform_def g_TextureValueName_def)
  show ?thesis
    using s1(1) ok s1(3) nocake matcake cake r(1) count r(3) r(4) sides top
      r(5) [unfolded s1(5)] r(6) [unfolded s1(5)] u1 u2
    by (intro exI conjI impI) assumption+
qed

theorem cake_draws_sample_unregistered_texture_witness:
  "m_pShaderManager (example_scene (Some [])) = Some []
   \<and> m_loadedTextures (example_scene (Some [])) = 0
   \<and> length (m_textureIDs (example_scene (Some []))) = texture_slots
   \<and> m_objectMaterials (example_scene (Some [])) = []
   \<and> (\<exists>s1 s2 shBody shTop.
         PrepareScene rgb_codec (example_scene (Some [])) = Inr s1
       \<and> map tag (registered s1) =
            [''Party'', ''Blue'', ''Floor'', ''Table'', ''Plate'', ''Frost'', ''Frost_sides'',
             ''balloon'', ''present'']
       \<and> FindTextureSlot ''Frost_sides'' s1 = Inr 6
       \<and> FindTextureSlot ''Frost'' s1 = Inr 5
       \<and> FindTextureSlot ''Cake'' s1 = Inr (- 1)
       \<and> RenderScene example_local s1 = Inr s2
       \<and> length (drawn s2) = 17
       \<and> drawn s2 ! 13 = (Cylinder, Some shBody)
       \<and> drawn s2 ! 14 = (Cylinder, Some shTop)
       \<and> uniform shBody g_TextureValueName = Some (Sampler2DValue (- 1))
       \<and> uniform shTop g_TextureValueName = Some (Sampler2DValue (- 1)))"
proof -
  have h: "m_pShaderManager (example_scene (Some [])) = Some []"
    "m_loadedTextures (example_scene (Some [])) = 0"
    "length (m_textureIDs (example_scene (Some []))) = texture_slots"
    "m_objectMaterials (example_scene (Some [])) = []"
    by (simp_all add: example_scene_def)
  have d0: "drawn (example_scene (Some [])) = []" by (simp add: example_scene_def)
  from cake_draws_sample_unregistered_texture [OF h, of rgb_codec example_local]
  obtain s1 s2 kSides kTop restBody restTop where r:
    "PrepareScene rgb_codec (example_scene (Some [])) = Inr s1"
    "registry_ok s1"
    "map tag (registered s1) =
       map snd (filter (\<lambda>(filename, tg). decodable rgb_codec filename) scene_texture_files)"
    "FindTextureSlot ''Cake'' s1 = Inr (- 1)"
    "RenderScene example_local s1 = Inr s2"
    "length (drawn s2) = length (drawn (example_scene (Some []))) + 17"
    "drawn s2 ! (length (drawn (example_scene (Some []))) + 13) =
              (Cylinder, Some ((''UVscale'', Vec2Value (1.5, 1.5))
                               # (g_TextureValueName, Sampler2DValue (- 1))
                               # (g_UseTextureName, IntValue 1)
                               # (g_TextureValueName, Sampler2DValue kSides)
                               # restBody))"
    "drawn s2 ! (length (drawn (example_scene (Some []))) + 14) =
              (Cylinder, Some ((''UVscale'', Vec2Value (1, 1))
                               # (g_TextureValueName, Sampler2DValue (- 1))
                               # (g_UseTextureName, IntValue 1)
                               # (g_TextureValueName, Sampler2DValue kTop)
                               # restTop))"
    "uniform ((''UVscale'', Vec2Value (1.5, 1.5))
                     # (g_TextureValueName, Sampler2DValue (- 1))
                     # (g_UseTextureName, IntValue 1)
                     # (g_TextureValueName, Sampler2DValue kSides)
                     # restBody) g_TextureValueName = Some (Sampler2DValue (- 1))"
    "uniform ((''UVscale'', Vec2Value (1, 1))
                     # (g_TextureValueName, Sampler2DValue (- 1))
                     # (g_UseTextureName, IntValue 1)
                     # (g_TextureValueName, Sampler2DValue kTop)
                     # restTop) g_TextureValueName = Some (Sampler2DValue (- 1))"
    by blast
  have tags: "map tag (registered s1) =
            [''Party'', ''Blue'', ''Floor'', ''Table'', ''Plate'', ''Frost'', ''Frost_sides'',
             ''balloon'', ''present'']"
    unfolding r(3) by (simp add: scene_texture_files_def decodable_def rgb_codec_def)
  have lenr: "length (registered s1) = 9"
    using arg_cong [OF tags, of length] by simp
  have d: "distinct (map tag (registered s1))" unfolding tags by simp
  have t6: "tag (registered s1 ! 6) = ''Frost_sides''"
    using arg_cong [OF tags, of "\<lambda>xs. xs ! 6"] lenr by simp
  have t5: "tag (registered s1 ! 5) = ''Frost''"
    using arg_cong [OF tags, of "\<lambda>xs. xs ! 5"] lenr by simp
  have k6: "FindTextureSlot ''Frost_sides'' s1 = Inr 6"
    using lookup_distinct [OF r(2) d, of 6] lenr t6 by simp
  have k5: "FindTextureSlot ''Frost'' s1 = Inr 5"
    using lookup_distinct [OF r(2) d, of 5] lenr t5 by simp
  let ?shBody = "(''UVscale'', Vec2Value (1.5, 1.5))
                  # (g_TextureValueName, Sampler2DValue (- 1))
                  # (g_UseTextureName, IntValue 1)
                  # (g_TextureValueName, Sampler2DValue kSides)
                  # restBody"
  let ?shTop = "(''UVscale'', Vec2Value (1, 1))
                  # (g_TextureValueName, Sampler2DValue (- 1))
                  # (g_UseTextureName, IntValue 1)
                  # (g_TextureValueName, Sampler2DValue kTop)
                  # restTop"
  have cnt: "length (drawn s2) = 17" using r(6) by (simp add: d0)
  have b: "drawn s2 ! 13 = (Cylinder, Some ?shBody)" using r(7) by (simp add: d0)
  have t: "drawn s2 ! 14 = (Cylinder, Some ?shTop)" using r(8) by (simp add: d0)
  have all: "PrepareScene rgb_codec (example_scene (Some [])) = Inr s1
       \<and> map tag (registered s1) =
            [''Party'', ''Blue'', ''Floor'', ''Table'', ''Plate'', ''Frost'', ''Frost_sides'',
             ''balloon'', ''present'']
       \<and> FindTextureSlot ''Frost_sides'' s1 = Inr 6
       \<and> FindTextureSlot ''Frost'' s1 = Inr 5
       \<and> FindTextureSlot ''Cake'' s1 = Inr (- 1)
       \<and> RenderScene example_local s1 = Inr s2
       \<and> length (drawn s2) = 17
       \<and> drawn s2 ! 13 = (Cylinder, Some ?shBody)
       \<and> drawn s2 ! 14 = (Cylinder, Some ?shTop)
       \<and> uniform ?shBody g_TextureValueName = Some (Sampler2DValue (- 1))
       \<and> uniform ?shTop g_TextureValueName = Some (Sampler2DValue (- 1))"
    using r(1) tags k6 k5 r(4) r(5) cnt b t r(9) r(10) by (intro conjI)
  show ?thesis
    apply (intro conjI h)
    apply (rule exI [of _ s1])
    apply (rule exI [of _ s2])
    apply (rule exI [of _ "?shBody"])
    apply (rule exI [of _ "?shTop"])
    apply (rule all)
    done
qed

end
